theory Spec2Isabelle
  imports Complex_Main "HOL-Library.Log_Nat" "HOL-Library.Word"
begin

section \<open>Data model of the coaching backend\<close>

text \<open>
  The backend is a set of Express route handlers over four Mongoose collections
  (\<open>AdminUser\<close>, \<open>User\<close>, \<open>Batch\<close>, \<open>Attendance\<close>).  Every handler is modelled as a
  function from the database and the parts of the request it reads to a reply and the
  database it leaves behind.

  Standing conventions of the model:
  \<^item> an ObjectId is the string that \<open>toString()\<close> prints for it; request ids have that
    form, so the driver's cast failure on a malformed id is not a branch of the model
    (the fee routes test the form themselves, through \<open>isValid\<close>, which is a parameter);
  \<^item> a request field that may be missing is an \<open>option\<close>; JavaScript truthiness of a
    string or number is \<open>truthy\<close>/\<open>truthy_num\<close>;
  \<^item> the strings that the handlers only store, compare and send back are of type
    \<open>string\<close>; a batch code, the one string they transform, is the list of its UTF-16
    code units, and \<open>String.prototype.toUpperCase\<close>, a function of the runtime, is a
    parameter \<open>toUpperCase\<close> of the handlers that call it;
  \<^item> counts, hours, marks and amounts are integers, a \<open>Date\<close> is its time value, the
    count of milliseconds since the epoch; the
    one number the handlers compute by division, the attendance percentage, is an IEEE 754
    double, modelled by the rational it denotes (\<open>fl\<close> below); the documents' own time
    stamps (\<open>createdAt\<close>, \<open>updatedAt\<close>) are left out;
  \<^item> the database calls themselves do not fail; an exception the handler's own code
    throws (schema parsing, token verification, a method call on \<open>undefined\<close>) is caught
    by the handler's \<open>catch\<close> block and is a branch of the model;
  \<^item> an id that the driver generates for a new document is an argument of the handler.
\<close>

type_synonym oid = string

type_synonym code_unit = "16 word"

type_synonym utf16 = "code_unit list"

datatype http_status =
  OK | Created | BadRequest | Unauthorized | Forbidden | NotFound | Conflict | ServerError

datatype 'a reply = Reject http_status string | Reply http_status 'a

text \<open>The body of a successful reply.\<close>

fun reply_value :: "'a reply \<Rightarrow> 'a option" where
  "reply_value (Reject st m) = None"
| "reply_value (Reply st x) = Some x"

datatype role = Student | Parent | Teacher

text \<open>The documents of the four collections, as their schemas declare them.\<close>

record admin_user =
  au_id :: oid
  au_name :: string
  au_email :: string
  au_password :: string
  au_active :: bool

text \<open>Modelled from the spec: the \<open>User\<close> schema (\<open>models/user.js\<close>) is not among the
  sources.  An account has a name, an email and a role among student, parent and teacher;
  a student may carry the email of the linked parent (\<open>parentEmail\<close>).  These are the
  fields the handlers read.\<close>

record user =
  u_id :: oid
  u_name :: string
  u_email :: string
  u_role :: role
  u_parentEmail :: "string option"

record fee_payment =
  fp_student :: oid
  fp_amount :: int
  fp_paymentDate :: int
  fp_paymentMethod :: string
  fp_status :: string
  fp_remarks :: string

record announcement =
  an_id :: oid
  an_title :: string
  an_content :: string
  an_teacher_id :: oid
  an_createdAt :: int

record entry =
  hour :: int
  subject :: string
  teacher :: "string option"
  startTime :: "string option"
  endTime :: "string option"

record timetable =
  monday :: "entry list"
  tuesday :: "entry list"
  wednesday :: "entry list"
  thursday :: "entry list"
  friday :: "entry list"
  saturday :: "entry list"

record student_mark =
  sm_student :: oid
  sm_marks :: int
  sm_remarks :: string

record test_result =
  tr_id :: oid
  examName :: string
  tr_date :: int
  maximumMarks :: int
  tr_subject :: string
  createdBy :: oid
  studentMarks :: "student_mark list"

record batch =
  b_id :: oid
  b_name :: string
  batch_code :: utf16
  b_class :: string
  teacher_id :: oid
  students :: "oid list"
  feesPayments :: "fee_payment list"
  announcements :: "announcement list"
  timetable :: timetable
  testResults :: "test_result list"

datatype att_status = Present | Absent

record att_record =
  student_id :: oid
  status :: att_status
  ar_remarks :: "string option"

record attendance =
  at_id :: oid
  batch_id :: oid
  date :: int
  records :: "att_record list"
  marked_by :: oid

record db =
  adminUsers :: "admin_user list"
  users :: "user list"
  batches :: "batch list"
  attendances :: "attendance list"

subsection \<open>JavaScript and Mongoose helpers\<close>

definition truthy :: "'a list option \<Rightarrow> bool" where
  "truthy v = (case v of None \<Rightarrow> False | Some s \<Rightarrow> s \<noteq> [])"

definition truthy_num :: "int option \<Rightarrow> bool" where
  "truthy_num v = (case v of None \<Rightarrow> False | Some n \<Rightarrow> n \<noteq> 0)"

text \<open>\<open>v || dflt\<close> on a string that may be missing; \<open>if (v) x = v\<close> is
  \<open>x := or_else v x\<close>.\<close>

definition or_else :: "'a list option \<Rightarrow> 'a list \<Rightarrow> 'a list" where
  "or_else v dflt = (case v of None \<Rightarrow> dflt | Some s \<Rightarrow> if s \<noteq> [] then s else dflt)"

text \<open>\<open>Array.prototype.findIndex\<close> (\<open>None\<close> for \<open>-1\<close>) and \<open>splice(i, 1)\<close>.\<close>

fun findIndex :: "('a \<Rightarrow> bool) \<Rightarrow> 'a list \<Rightarrow> nat option" where
  "findIndex P [] = None"
| "findIndex P (x # xs) = (if P x then Some 0 else map_option Suc (findIndex P xs))"

definition splice1 :: "nat \<Rightarrow> 'a list \<Rightarrow> 'a list" where
  "splice1 i xs = take i xs @ drop (Suc i) xs"

text \<open>\<open>String.prototype.toLowerCase\<close> on the ASCII letters; every other character is
  left as it is.  The handlers call it on the name of a day only, to compare the result
  with the six English names, and no string that holds a character outside ASCII has one
  of those names as its lower-case form.\<close>

definition toLowerChar :: "char \<Rightarrow> char" where
  "toLowerChar c =
     (let n = (of_char c :: nat) in if 65 \<le> n \<and> n \<le> 90 then char_of (n + 32) else c)"

definition toLowerCase :: "string \<Rightarrow> string" where
  "toLowerCase s = map toLowerChar s"

text \<open>\<open>Model.findById\<close> on each collection, \<open>doc.save()\<close> and \<open>findByIdAndDelete\<close>.\<close>

definition AdminUser_findById :: "db \<Rightarrow> oid \<Rightarrow> admin_user option" where
  "AdminUser_findById d i = find (\<lambda>a. au_id a = i) (adminUsers d)"

definition User_findById :: "db \<Rightarrow> oid \<Rightarrow> user option" where
  "User_findById d i = find (\<lambda>u. u_id u = i) (users d)"

definition Batch_findById :: "db \<Rightarrow> oid \<Rightarrow> batch option" where
  "Batch_findById d i = find (\<lambda>b. b_id b = i) (batches d)"

definition Attendance_findById :: "db \<Rightarrow> oid \<Rightarrow> attendance option" where
  "Attendance_findById d i = find (\<lambda>a. at_id a = i) (attendances d)"

definition Batch_save :: "db \<Rightarrow> batch \<Rightarrow> db" where
  "Batch_save d b = d\<lparr>batches := map (\<lambda>x. if b_id x = b_id b then b else x) (batches d)\<rparr>"

definition Batch_findByIdAndDelete :: "db \<Rightarrow> oid \<Rightarrow> db" where
  "Batch_findByIdAndDelete d i = d\<lparr>batches := filter (\<lambda>x. b_id x \<noteq> i) (batches d)\<rparr>"

definition Attendance_save :: "db \<Rightarrow> attendance \<Rightarrow> db" where
  "Attendance_save d a =
     d\<lparr>attendances := map (\<lambda>x. if at_id x = at_id a then a else x) (attendances d)\<rparr>"

definition Attendance_findByIdAndDelete :: "db \<Rightarrow> oid \<Rightarrow> db" where
  "Attendance_findByIdAndDelete d i =
     d\<lparr>attendances := filter (\<lambda>x. at_id x \<noteq> i) (attendances d)\<rparr>"

text \<open>The \<open>Authorization\<close> header: \<open>!authHeader || !authHeader.startsWith('Bearer ')\<close> and
  \<open>authHeader.split(' ')[1]\<close>, the text between the first and the second blank.\<close>

definition startsWith_Bearer :: "string option \<Rightarrow> bool" where
  "startsWith_Bearer h = (case h of None \<Rightarrow> False | Some s \<Rightarrow> take 7 s = ''Bearer '')"

definition split1 :: "string \<Rightarrow> string" where
  "split1 s = takeWhile (\<lambda>c. c \<noteq> CHR '' '') (drop 1 (dropWhile (\<lambda>c. c \<noteq> CHR '' '') s))"

definition bearer :: "string option \<Rightarrow> string" where
  "bearer h = (case h of None \<Rightarrow> [] | Some s \<Rightarrow> split1 s)"

subsection \<open>Creating a batch: \<open>POST /batches\<close>\<close>

record batch_body =
  bb_batch_code :: "utf16 option"
  bb_name :: "string option"
  bb_class :: "string option"
  bb_teacher_id :: "string option"

record batch_data =
  bd_batch_code :: utf16
  bd_name :: string
  bd_class :: string
  bd_teacher_id :: string

text \<open>\<open>batchSchema.parse\<close>: four strings of length at least one; \<open>None\<close> is the thrown
  validation error.\<close>

definition batchSchema_parse :: "batch_body \<Rightarrow> batch_data option" where
  "batchSchema_parse body =
     (case (bb_batch_code body, bb_name body, bb_class body, bb_teacher_id body) of
        (Some c, Some n, Some k, Some t) \<Rightarrow>
          if c \<noteq> [] \<and> n \<noteq> [] \<and> k \<noteq> [] \<and> t \<noteq> []
          then Some \<lparr>bd_batch_code = c, bd_name = n, bd_class = k, bd_teacher_id = t\<rparr>
          else None
      | _ \<Rightarrow> None)"

text \<open>\<open>timetable\<close> is a nested path of the batch schema with an array under each of the
  six days.  Mongoose gives every batch document the object of the six arrays, each empty
  until it is written, so \<open>batch.timetable\<close> and \<open>batch.timetable[day]\<close> are never
  missing: the handlers' tests \<open>!batch.timetable\<close> are false and
  \<open>batch.timetable || {...}\<close> is \<open>batch.timetable\<close>.\<close>

definition empty_timetable :: timetable where
  "empty_timetable =
     \<lparr>monday = [], tuesday = [], wednesday = [], thursday = [], friday = [], saturday = []\<rparr>"

text \<open>\<open>Batch.create\<close> with the schema's setter \<open>uppercase: true\<close> on \<open>batch_code\<close>, which
  calls \<open>toUpperCase\<close> on the value it is given, and the schema's defaults for the fields
  the handler does not give.\<close>

definition Batch_create ::
  "(utf16 \<Rightarrow> utf16) \<Rightarrow> oid \<Rightarrow> utf16 \<Rightarrow> string \<Rightarrow> string \<Rightarrow> oid \<Rightarrow> batch" where
  "Batch_create toUpperCase new_id code name cls tid =
     \<lparr>b_id = new_id, b_name = name, batch_code = toUpperCase code, b_class = cls,
      teacher_id = tid, students = [], feesPayments = [], announcements = [],
      timetable = empty_timetable, testResults = []\<rparr>"

text \<open>\<open>POST /batches\<close>.\<close>

definition post_batches ::
  "(utf16 \<Rightarrow> utf16) \<Rightarrow> db \<Rightarrow> oid \<Rightarrow> batch_body \<Rightarrow> batch reply \<times> db" where
  "post_batches toUpperCase d new_id body =
     (case batchSchema_parse body of
        None \<Rightarrow> (Reject ServerError ''Error creating batch'', d)
      | Some v \<Rightarrow>
       (case AdminUser_findById d (bd_teacher_id v) of
          None \<Rightarrow> (Reject NotFound ''Teacher not found'', d)
        | Some admin \<Rightarrow>
         (case find (\<lambda>b. batch_code b = toUpperCase (bd_batch_code v)) (batches d) of
            Some existingBatch \<Rightarrow> (Reject Conflict ''Batch code already exists'', d)
          | None \<Rightarrow>
              let batch = Batch_create toUpperCase new_id (toUpperCase (bd_batch_code v))
                            (bd_name v) (bd_class v) (au_id admin)
              in (Reply Created batch, d\<lparr>batches := batches d @ [batch]\<rparr>))))"


text \<open>A stored code is in upper case when \<open>toUpperCase\<close> leaves it as it is.  Every
  batch is created by \<open>Batch.create\<close> and no handler writes the code afterwards.\<close>

definition codes_uppercase :: "(utf16 \<Rightarrow> utf16) \<Rightarrow> db \<Rightarrow> bool" where
  "codes_uppercase toUpperCase d =
     (\<forall>b \<in> set (batches d). toUpperCase (batch_code b) = batch_code b)"

subsection \<open>Updating and deleting a batch, membership\<close>

text \<open>\<open>PUT /batches/:batchId\<close>.\<close>

definition put_batch ::
  "db \<Rightarrow> string option \<Rightarrow> oid \<Rightarrow> string option \<Rightarrow> string option \<Rightarrow> batch reply \<times> db" where
  "put_batch d authHeader batchId name batchClass =
     (if \<not> startsWith_Bearer authHeader then (Reject Unauthorized ''Authentication required'', d)
      else let teacherId = bearer authHeader in
       (case AdminUser_findById d teacherId of
          None \<Rightarrow> (Reject Unauthorized ''Invalid teacher credentials'', d)
        | Some teacherDoc \<Rightarrow>
         (case Batch_findById d batchId of
            None \<Rightarrow> (Reject NotFound ''Batch not found'', d)
          | Some batch \<Rightarrow>
              if teacher_id batch \<noteq> teacherId
              then (Reject Forbidden ''Unauthorized to update this batch'', d)
              else
                let batch1 = batch\<lparr>b_name := or_else name (b_name batch)\<rparr>;
                    batch2 = batch1\<lparr>b_class := or_else batchClass (b_class batch1)\<rparr>
                in (Reply OK batch2, Batch_save d batch2))))"

text \<open>\<open>DELETE /batches/:batchId\<close>: the token itself is taken as the teacher's id.\<close>

definition delete_batch :: "db \<Rightarrow> string option \<Rightarrow> oid \<Rightarrow> unit reply \<times> db" where
  "delete_batch d authHeader batchId =
     (if \<not> startsWith_Bearer authHeader
      then (Reject Unauthorized ''Authorization header is required'', d)
      else let teacherId = bearer authHeader in
       (case Batch_findById d batchId of
          None \<Rightarrow> (Reject NotFound ''Batch not found'', d)
        | Some batch \<Rightarrow>
            if teacher_id batch \<noteq> teacherId
            then (Reject Forbidden ''Unauthorized to delete this batch'', d)
            else (Reply OK (), Batch_findByIdAndDelete d batchId)))"

text \<open>\<open>POST /batches/:batchId/students\<close>.  The handler does not read the
  \<open>Authorization\<close> header; it is an argument here so that the handler's independence of
  it can be stated.  \<open>studentIds\<close> is \<open>None\<close> when the body's value is not an array.
  \<open>User.find({_id: {$in: studentIds}, role: 'student'})\<close> returns the stored student
  accounts whose id occurs in the list.\<close>

definition User_find_students :: "db \<Rightarrow> oid list \<Rightarrow> user list" where
  "User_find_students d ids = filter (\<lambda>u. u_id u \<in> set ids \<and> u_role u = Student) (users d)"

text \<open>An id resolves when some stored account with role \<open>student\<close> has it.\<close>

definition resolves :: "db \<Rightarrow> oid \<Rightarrow> bool" where
  "resolves d i = (\<exists>u \<in> set (users d). u_id u = i \<and> u_role u = Student)"

definition post_students ::
  "db \<Rightarrow> string option \<Rightarrow> oid \<Rightarrow> oid list option \<Rightarrow> batch reply \<times> db" where
  "post_students d authHeader batchId body_studentIds =
     (case body_studentIds of
        None \<Rightarrow> (Reject BadRequest ''Invalid student IDs'', d)
      | Some studentIds \<Rightarrow>
          if length studentIds = 0 then (Reject BadRequest ''Invalid student IDs'', d)
          else
           (case Batch_findById d batchId of
              None \<Rightarrow> (Reject NotFound ''Batch not found'', d)
            | Some batch \<Rightarrow>
                let found = User_find_students d studentIds in
                if length found \<noteq> length studentIds
                then (Reject BadRequest ''One or more invalid student IDs'', d)
                else
                  let newStudentIds = filter (\<lambda>i. i \<notin> set (students batch)) studentIds;
                      batch1 = batch\<lparr>students := students batch @ newStudentIds\<rparr>
                  in (Reply OK batch1, Batch_save d batch1)))"

text \<open>\<open>DELETE /batches/:batchId/students/:studentId\<close>.\<close>

definition delete_student ::
  "db \<Rightarrow> string option \<Rightarrow> oid \<Rightarrow> oid \<Rightarrow> batch reply \<times> db" where
  "delete_student d authHeader batchId studentId =
     (if \<not> startsWith_Bearer authHeader then (Reject Unauthorized ''Authentication required'', d)
      else let teacherId = bearer authHeader in
       (case AdminUser_findById d teacherId of
          None \<Rightarrow> (Reject Unauthorized ''Invalid teacher credentials'', d)
        | Some teacherDoc \<Rightarrow>
         (case Batch_findById d batchId of
            None \<Rightarrow> (Reject NotFound ''Batch not found'', d)
          | Some batch \<Rightarrow>
              if teacher_id batch \<noteq> teacherId
              then (Reject Forbidden ''Unauthorized to modify students for this batch'', d)
              else if studentId \<notin> set (students batch)
              then (Reject NotFound ''Student not found in this batch'', d)
              else
                let batch1 = batch\<lparr>students := filter (\<lambda>i. i \<noteq> studentId) (students batch)\<rparr>
                in (Reply OK batch1, Batch_save d batch1))))"

text \<open>\<open>POST /join-batch\<close> of the user routes.  \<open>verify\<close> is \<open>jwt.verify\<close> with the
  server's secret, giving the token's \<open>userId\<close>, or \<open>None\<close> where it throws.\<close>

definition join_batch ::
  "(utf16 \<Rightarrow> utf16) \<Rightarrow> (string \<Rightarrow> oid option) \<Rightarrow> db \<Rightarrow> string option \<Rightarrow> utf16 option
    \<Rightarrow> batch reply \<times> db" where
  "join_batch toUpperCase verify d authHeader body_batch_code =
     (if \<not> truthy body_batch_code \<or> \<not> truthy authHeader
      then (Reject BadRequest ''Batch code and authorization header are required'', d)
      else
       (case verify (bearer authHeader) of
          None \<Rightarrow> (Reject Unauthorized ''Invalid or expired token'', d)
        | Some userId \<Rightarrow>
         (case User_findById d userId of
            None \<Rightarrow> (Reject Forbidden ''Only students can join batches'', d)
          | Some student \<Rightarrow>
              if u_role student \<noteq> Student
              then (Reject Forbidden ''Only students can join batches'', d)
              else
               (case find (\<lambda>b. batch_code b = toUpperCase (or_else body_batch_code [])) (batches d) of
                  None \<Rightarrow> (Reject NotFound ''Batch not found. Please check the batch code'', d)
                | Some batch \<Rightarrow>
                    if u_id student \<in> set (students batch)
                    then (Reject Conflict ''You are already enrolled in this batch'', d)
                    else
                      let batch1 = batch\<lparr>students := students batch @ [u_id student]\<rparr>
                      in (Reply OK batch1, Batch_save d batch1)))))"


subsection \<open>Attendance\<close>

text \<open>\<open>POST /batches/:batchId/attendance\<close>.  \<open>body_date\<close> is the time value of
  \<open>new Date(date)\<close>, in milliseconds.\<close>

definition post_attendance ::
  "db \<Rightarrow> oid \<Rightarrow> string option \<Rightarrow> oid \<Rightarrow> int \<Rightarrow> att_record list \<Rightarrow> attendance reply \<times> db" where
  "post_attendance d new_id authHeader batchId body_date body_records =
     (if \<not> startsWith_Bearer authHeader then (Reject Unauthorized ''Authentication required'', d)
      else let teacherId = bearer authHeader in
       (case AdminUser_findById d teacherId of
          None \<Rightarrow> (Reject Unauthorized ''Invalid teacher credentials'', d)
        | Some teacherDoc \<Rightarrow>
         (case find (\<lambda>a. batch_id a = batchId \<and> date a = body_date) (attendances d) of
            Some existingAttendance \<Rightarrow>
              (Reject BadRequest ''Attendance already marked for this date'', d)
          | None \<Rightarrow>
              let att = \<lparr>at_id = new_id, batch_id = batchId, date = body_date,
                          records = body_records, marked_by = teacherId\<rparr>
              in (Reply Created att, d\<lparr>attendances := attendances d @ [att]\<rparr>))))"

text \<open>\<open>PUT /batches/:batchId/attendance/:attendanceId\<close>; \<open>body_records\<close> is \<open>None\<close>
  when the body has no array under \<open>records\<close>.\<close>

definition put_attendance ::
  "db \<Rightarrow> string option \<Rightarrow> oid \<Rightarrow> oid \<Rightarrow> att_record list option \<Rightarrow> attendance reply \<times> db" where
  "put_attendance d authHeader batchId attendanceId body_records =
     (if \<not> startsWith_Bearer authHeader then (Reject Unauthorized ''Authentication required'', d)
      else let teacherId = bearer authHeader in
       (case AdminUser_findById d teacherId of
          None \<Rightarrow> (Reject Unauthorized ''Invalid teacher credentials'', d)
        | Some teacherDoc \<Rightarrow>
         (case Batch_findById d batchId of
            None \<Rightarrow> (Reject NotFound ''Batch not found'', d)
          | Some batch \<Rightarrow>
              if teacher_id batch \<noteq> teacherId
              then (Reject Forbidden ''Unauthorized to update attendance for this batch'', d)
              else
               (case Attendance_findById d attendanceId of
                  None \<Rightarrow> (Reject NotFound ''Attendance record not found'', d)
                | Some att \<Rightarrow>
                    if batch_id att \<noteq> batchId
                    then (Reject BadRequest ''Attendance record does not belong to this batch'', d)
                    else
                      let att1 = (case body_records of None \<Rightarrow> att
                                  | Some rs \<Rightarrow> att\<lparr>records := rs\<rparr>)
                      in (Reply OK att1, Attendance_save d att1)))))"

text \<open>\<open>DELETE /batches/:batchId/attendance/:attendanceId\<close>.\<close>

definition delete_attendance ::
  "db \<Rightarrow> string option \<Rightarrow> oid \<Rightarrow> oid \<Rightarrow> unit reply \<times> db" where
  "delete_attendance d authHeader batchId attendanceId =
     (if \<not> startsWith_Bearer authHeader then (Reject Unauthorized ''Authentication required'', d)
      else let teacherId = bearer authHeader in
       (case AdminUser_findById d teacherId of
          None \<Rightarrow> (Reject Unauthorized ''Invalid teacher credentials'', d)
        | Some teacherDoc \<Rightarrow>
         (case Batch_findById d batchId of
            None \<Rightarrow> (Reject NotFound ''Batch not found'', d)
          | Some batch \<Rightarrow>
              if teacher_id batch \<noteq> teacherId
              then (Reject Forbidden ''Unauthorized to delete attendance for this batch'', d)
              else
               (case Attendance_findById d attendanceId of
                  None \<Rightarrow> (Reject NotFound ''Attendance record not found'', d)
                | Some att \<Rightarrow>
                    if batch_id att \<noteq> batchId
                    then (Reject BadRequest ''Attendance record does not belong to this batch'', d)
                    else (Reply OK (), Attendance_findByIdAndDelete d attendanceId)))))"

text \<open>The invariant of the attendance collection: no two stored records share batch and
  date, where a date is a \<open>Date\<close> value, a point in time.\<close>

definition one_per_batch_date :: "db \<Rightarrow> bool" where
  "one_per_batch_date d = distinct (map (\<lambda>a. (batch_id a, date a)) (attendances d))"

definition att_inv :: "db \<Rightarrow> bool" where
  "att_inv d = (one_per_batch_date d \<and> distinct (map at_id (attendances d)))"

text \<open>The calendar date of a \<open>Date\<close> value, in UTC: the count of whole days since the
  epoch.  No handler computes it.\<close>

definition calendar_date :: "int \<Rightarrow> int" where
  "calendar_date t = t div 86400000"

text \<open>The databases that the handlers can produce, as far as the attendance collection
  goes: it starts empty, the three handlers above write it (a new document gets an id
  that no stored document has), and no other handler changes it.\<close>

inductive attendance_reachable :: "db \<Rightarrow> bool" where
  start: "attendances d = [] \<Longrightarrow> attendance_reachable d"
| mark: "attendance_reachable d \<Longrightarrow> new_id \<notin> at_id ` set (attendances d) \<Longrightarrow>
         attendance_reachable (snd (post_attendance d new_id authHeader batchId dt rs))"
| update: "attendance_reachable d \<Longrightarrow>
         attendance_reachable (snd (put_attendance d authHeader batchId attendanceId body_rs))"
| remove: "attendance_reachable d \<Longrightarrow>
         attendance_reachable (snd (delete_attendance d authHeader batchId attendanceId))"
| other: "attendance_reachable d \<Longrightarrow> attendances d' = attendances d \<Longrightarrow>
         attendance_reachable d'"


subsection \<open>Timetable\<close>

datatype day = Monday | Tuesday | Wednesday | Thursday | Friday | Saturday

text \<open>\<open>validDays.includes(day.toLowerCase())\<close>, together with the key of the timetable
  object that \<open>day.toLowerCase()\<close> selects.\<close>

definition validDay :: "string \<Rightarrow> day option" where
  "validDay s =
     (let l = toLowerCase s in
      if l = ''monday'' then Some Monday
      else if l = ''tuesday'' then Some Tuesday
      else if l = ''wednesday'' then Some Wednesday
      else if l = ''thursday'' then Some Thursday
      else if l = ''friday'' then Some Friday
      else if l = ''saturday'' then Some Saturday
      else None)"

fun day_get :: "timetable \<Rightarrow> day \<Rightarrow> entry list" where
  "day_get t Monday = monday t"
| "day_get t Tuesday = tuesday t"
| "day_get t Wednesday = wednesday t"
| "day_get t Thursday = thursday t"
| "day_get t Friday = friday t"
| "day_get t Saturday = saturday t"

fun day_set :: "timetable \<Rightarrow> day \<Rightarrow> entry list \<Rightarrow> timetable" where
  "day_set t Monday es = t\<lparr>monday := es\<rparr>"
| "day_set t Tuesday es = t\<lparr>tuesday := es\<rparr>"
| "day_set t Wednesday es = t\<lparr>wednesday := es\<rparr>"
| "day_set t Thursday es = t\<lparr>thursday := es\<rparr>"
| "day_set t Friday es = t\<lparr>friday := es\<rparr>"
| "day_set t Saturday es = t\<lparr>saturday := es\<rparr>"

text \<open>An element of the request's \<open>timetableEntries\<close>, each field possibly missing.\<close>

record entry_input =
  ei_hour :: "int option"
  ei_subject :: "string option"
  ei_teacher :: "string option"
  ei_startTime :: "string option"
  ei_endTime :: "string option"

text \<open>The validating loop of \<open>POST /batches/:batchId/timetable\<close>: the message of the
  first entry that fails, or the entries as they are stored.\<close>

fun validate_entries :: "entry_input list \<Rightarrow> string + entry list" where
  "validate_entries [] = Inr []"
| "validate_entries (e # es) =
     (case (ei_hour e, ei_subject e) of
        (Some h, Some s) \<Rightarrow>
          if h = 0 \<or> s = [] then Inl ''Each timetable entry must have hour and subject''
          else if h < 1 \<or> h > 8 then Inl ''Hour must be between 1 and 8''
          else
           (case validate_entries es of
              Inl m \<Rightarrow> Inl m
            | Inr xs \<Rightarrow>
                Inr (\<lparr>hour = h, subject = s, teacher = ei_teacher e,
                      startTime = ei_startTime e, endTime = ei_endTime e\<rparr> # xs))
      | _ \<Rightarrow> Inl ''Each timetable entry must have hour and subject'')"

text \<open>\<open>POST /batches/:batchId/timetable\<close>: the whole day is replaced.  \<open>body_day\<close> is
  \<open>None\<close> when the body has no \<open>day\<close>, where \<open>day.toLowerCase()\<close> throws;
  \<open>body_entries\<close> is \<open>None\<close> when \<open>timetableEntries\<close> is not an array.  The handler
  does not read the \<open>Authorization\<close> header.\<close>

definition post_timetable ::
  "db \<Rightarrow> string option \<Rightarrow> oid \<Rightarrow> string option \<Rightarrow> entry_input list option
    \<Rightarrow> timetable reply \<times> db" where
  "post_timetable d authHeader batchId body_day body_entries =
     (case body_day of
        None \<Rightarrow> (Reject ServerError ''Error updating timetable'', d)
      | Some dayName \<Rightarrow>
       (case validDay dayName of
          None \<Rightarrow> (Reject BadRequest
            ''Invalid day. Must be one of: monday, tuesday, wednesday, thursday, friday, saturday'', d)
        | Some dy \<Rightarrow>
         (case body_entries of
            None \<Rightarrow> (Reject BadRequest ''timetableEntries must be an array'', d)
          | Some timetableEntries \<Rightarrow>
           (case validate_entries timetableEntries of
              Inl m \<Rightarrow> (Reject BadRequest m, d)
            | Inr es \<Rightarrow>
             (case Batch_findById d batchId of
                None \<Rightarrow> (Reject NotFound ''Batch not found'', d)
              | Some batch \<Rightarrow>
                  let tt = day_set (timetable batch) dy es;
                      batch1 = batch\<lparr>timetable := tt\<rparr>
                  in (Reply OK tt, Batch_save d batch1))))))"

text \<open>\<open>DELETE /batches/:batchId/timetable/:day/:hour\<close>; \<open>param_hour\<close> is the value of
  \<open>parseInt(hour)\<close>, \<open>None\<close> for \<open>NaN\<close>.  The test
  \<open>!batch.timetable || !batch.timetable[day]\<close> is false for every document (an array is
  truthy, also when empty), so its reply \<open>Timetable not found for this day\<close> is never
  sent.\<close>

definition delete_timetable_entry ::
  "db \<Rightarrow> string option \<Rightarrow> oid \<Rightarrow> string \<Rightarrow> int option \<Rightarrow> timetable reply \<times> db" where
  "delete_timetable_entry d authHeader batchId param_day param_hour =
     (if \<not> startsWith_Bearer authHeader then (Reject Unauthorized ''Authentication required'', d)
      else let teacherId = bearer authHeader in
       (case AdminUser_findById d teacherId of
          None \<Rightarrow> (Reject Unauthorized ''Invalid teacher credentials'', d)
        | Some teacherDoc \<Rightarrow>
         (case validDay param_day of
            None \<Rightarrow> (Reject BadRequest
              ''Invalid day. Must be one of: monday, tuesday, wednesday, thursday, friday, saturday'', d)
          | Some dy \<Rightarrow>
           (case param_hour of
              None \<Rightarrow> (Reject BadRequest ''Hour must be a number between 1 and 8'', d)
            | Some hourNum \<Rightarrow>
                if hourNum < 1 \<or> hourNum > 8
                then (Reject BadRequest ''Hour must be a number between 1 and 8'', d)
                else
                 (case Batch_findById d batchId of
                    None \<Rightarrow> (Reject NotFound ''Batch not found'', d)
                  | Some batch \<Rightarrow>
                      if teacher_id batch \<noteq> teacherId
                      then (Reject Forbidden ''Unauthorized to modify timetable for this batch'', d)
                      else
                        let tt = timetable batch in
                         (case findIndex (\<lambda>e. hour e = hourNum) (day_get tt dy) of
                            None \<Rightarrow>
                              (Reject NotFound ''Timetable entry not found for this hour'', d)
                          | Some entryIndex \<Rightarrow>
                              let tt1 = day_set tt dy (splice1 entryIndex (day_get tt dy));
                                  batch1 = batch\<lparr>timetable := tt1\<rparr>
                              in (Reply OK tt1, Batch_save d batch1)))))))"

text \<open>\<open>PUT /batches/:batchId/timetable/:day/:hour\<close>: update the entry of that hour or
  append a new one, then sort the day by hour (\<open>Array.prototype.sort\<close> is stable, as
  \<open>sort_key\<close> is).\<close>

definition update_entry ::
  "entry \<Rightarrow> string \<Rightarrow> string option \<Rightarrow> string option \<Rightarrow> string option \<Rightarrow> entry" where
  "update_entry e subj body_teacher body_startTime body_endTime =
     e\<lparr>subject := subj,
       teacher := (case body_teacher of None \<Rightarrow> teacher e | Some t \<Rightarrow> Some t),
       startTime := (case body_startTime of None \<Rightarrow> startTime e | Some t \<Rightarrow> Some t),
       endTime := (case body_endTime of None \<Rightarrow> endTime e | Some t \<Rightarrow> Some t)\<rparr>"

definition upsert_entry ::
  "entry list \<Rightarrow> int \<Rightarrow> string \<Rightarrow> string option \<Rightarrow> string option \<Rightarrow> string option
    \<Rightarrow> entry list" where
  "upsert_entry daySchedule hourNum subj body_teacher body_startTime body_endTime =
     sort_key hour
       (case findIndex (\<lambda>e. hour e = hourNum) daySchedule of
          None \<Rightarrow>
            daySchedule @ [\<lparr>hour = hourNum, subject = subj, teacher = body_teacher,
                            startTime = body_startTime, endTime = body_endTime\<rparr>]
        | Some entryIndex \<Rightarrow>
            daySchedule[entryIndex :=
              update_entry (daySchedule ! entryIndex) subj body_teacher body_startTime
                body_endTime])"

definition put_timetable_entry ::
  "db \<Rightarrow> string option \<Rightarrow> oid \<Rightarrow> string \<Rightarrow> int option \<Rightarrow> string option \<Rightarrow> string option
    \<Rightarrow> string option \<Rightarrow> string option \<Rightarrow> timetable reply \<times> db" where
  "put_timetable_entry d authHeader batchId param_day param_hour body_subject body_teacher
     body_startTime body_endTime =
     (if \<not> startsWith_Bearer authHeader then (Reject Unauthorized ''Authentication required'', d)
      else let teacherId = bearer authHeader in
       (case AdminUser_findById d teacherId of
          None \<Rightarrow> (Reject Unauthorized ''Invalid teacher credentials'', d)
        | Some teacherAdmin \<Rightarrow>
            if \<not> truthy body_subject then (Reject BadRequest ''Subject is required'', d)
            else
             (case validDay param_day of
                None \<Rightarrow> (Reject BadRequest
                  ''Invalid day. Must be one of: monday, tuesday, wednesday, thursday, friday, saturday'', d)
              | Some dy \<Rightarrow>
               (case param_hour of
                  None \<Rightarrow> (Reject BadRequest ''Hour must be a positive number'', d)
                | Some hourNum \<Rightarrow>
                    if hourNum < 1 then (Reject BadRequest ''Hour must be a positive number'', d)
                    else
                     (case Batch_findById d batchId of
                        None \<Rightarrow> (Reject NotFound ''Batch not found'', d)
                      | Some batch \<Rightarrow>
                          if teacher_id batch \<noteq> teacherId
                          then (Reject Forbidden
                                  ''Unauthorized to modify timetable for this batch'', d)
                          else
                            let tt = timetable batch;
                                tt1 = day_set tt dy
                                        (upsert_entry (day_get tt dy) hourNum
                                           (or_else body_subject []) body_teacher body_startTime
                                           body_endTime);
                                batch1 = batch\<lparr>timetable := tt1\<rparr>
                            in (Reply OK tt1, Batch_save d batch1))))))"

text \<open>\<open>DELETE /batches/:batchId/timetable/:day\<close>.\<close>

definition delete_timetable_day ::
  "db \<Rightarrow> string option \<Rightarrow> oid \<Rightarrow> string \<Rightarrow> timetable reply \<times> db" where
  "delete_timetable_day d authHeader batchId param_day =
     (if \<not> startsWith_Bearer authHeader then (Reject Unauthorized ''Authentication required'', d)
      else let teacherId = bearer authHeader in
       (case AdminUser_findById d teacherId of
          None \<Rightarrow> (Reject Unauthorized ''Invalid teacher credentials'', d)
        | Some teacherDoc \<Rightarrow>
         (case validDay param_day of
            None \<Rightarrow> (Reject BadRequest
              ''Invalid day. Must be one of: monday, tuesday, wednesday, thursday, friday, saturday'', d)
          | Some dy \<Rightarrow>
           (case Batch_findById d batchId of
              None \<Rightarrow> (Reject NotFound ''Batch not found'', d)
            | Some batch \<Rightarrow>
                if teacher_id batch \<noteq> teacherId
                then (Reject Forbidden ''Unauthorized to modify timetable for this batch'', d)
                else
                  let tt1 = day_set (timetable batch) dy [];
                      batch1 = batch\<lparr>timetable := tt1\<rparr>
                  in (Reply OK tt1, Batch_save d batch1)))))"


text \<open>The property of the stored timetables that the handlers maintain: every entry's
  hour is at least 1.\<close>

definition hours_positive :: "db \<Rightarrow> bool" where
  "hours_positive d =
     (\<forall>b \<in> set (batches d). \<forall>dy. \<forall>e \<in> set (day_get (timetable b) dy). 1 \<le> hour e)"

text \<open>The databases that the handlers can produce, as far as the timetables go: batches
  start with six empty days, the four timetable handlers write them, a new batch has six
  empty days, and every other handler leaves each remaining batch's timetable as it is.\<close>

inductive timetable_reachable :: "db \<Rightarrow> bool" where
  start: "\<forall>b \<in> set (batches d). timetable b = empty_timetable \<Longrightarrow> timetable_reachable d"
| create: "timetable_reachable d \<Longrightarrow>
     timetable_reachable (snd (post_batches toUpperCase d new_id body))"
| set_day: "timetable_reachable d \<Longrightarrow>
     timetable_reachable (snd (post_timetable d authHeader batchId body_day body_entries))"
| upsert: "timetable_reachable d \<Longrightarrow>
     timetable_reachable (snd (put_timetable_entry d authHeader batchId param_day param_hour
        body_subject body_teacher body_startTime body_endTime))"
| delete_entry: "timetable_reachable d \<Longrightarrow>
     timetable_reachable (snd (delete_timetable_entry d authHeader batchId param_day param_hour))"
| clear_day: "timetable_reachable d \<Longrightarrow>
     timetable_reachable (snd (delete_timetable_day d authHeader batchId param_day))"
| other: "timetable_reachable d \<Longrightarrow> timetable ` set (batches d') \<subseteq> timetable ` set (batches d) \<Longrightarrow>
     timetable_reachable d'"

text \<open>What the validating loop of the whole-day replacement refuses in an entry.\<close>

definition bad_entry :: "entry_input \<Rightarrow> bool" where
  "bad_entry e =
     (\<not> truthy_num (ei_hour e) \<or> \<not> truthy (ei_subject e)
      \<or> (case ei_hour e of None \<Rightarrow> True | Some h \<Rightarrow> h < 1 \<or> 8 < h))"

subsection \<open>Fee payments\<close>

text \<open>\<open>POST /batches/:batchId/fees\<close>.  \<open>isValid\<close> is
  \<open>mongoose.Types.ObjectId.isValid\<close>, \<open>now\<close> the value of \<open>new Date()\<close>.  The handler
  does not read the \<open>Authorization\<close> header.  An existing record of the student is
  replaced by the new payment data, whose six fields overwrite the old ones.\<close>

definition post_fees ::
  "(string \<Rightarrow> bool) \<Rightarrow> int \<Rightarrow> db \<Rightarrow> string option \<Rightarrow> string \<Rightarrow> string option \<Rightarrow> int option
    \<Rightarrow> string option \<Rightarrow> string option \<Rightarrow> string option \<Rightarrow> fee_payment list reply \<times> db" where
  "post_fees isValid now d authHeader batchId body_studentId body_amount body_paymentMethod
     body_status body_remarks =
     (if batchId = [] \<or> \<not> isValid batchId then (Reject BadRequest ''Invalid batch ID'', d)
      else if \<not> truthy body_studentId \<or> \<not> isValid (or_else body_studentId [])
      then (Reject BadRequest ''Invalid student ID'', d)
      else
       (case body_amount of
          None \<Rightarrow> (Reject BadRequest ''Invalid amount'', d)
        | Some amount \<Rightarrow>
            if amount = 0 \<or> amount \<le> 0 then (Reject BadRequest ''Invalid amount'', d)
            else if \<not> truthy body_paymentMethod
                    \<or> or_else body_paymentMethod [] \<notin> set [''online'', ''offline'']
            then (Reject BadRequest ''Invalid payment method'', d)
            else if \<not> truthy body_status
                    \<or> or_else body_status [] \<notin> set [''paid'', ''pending'', ''overdue'']
            then (Reject BadRequest ''Invalid payment status'', d)
            else
             (case Batch_findById d batchId of
                None \<Rightarrow> (Reject NotFound ''Batch not found'', d)
              | Some batch \<Rightarrow>
                  let studentId = or_else body_studentId [] in
                  if studentId \<notin> set (students batch)
                  then (Reject NotFound ''Student not found in this batch'', d)
                  else
                    let paymentData =
                          \<lparr>fp_student = studentId, fp_amount = amount, fp_paymentDate = now,
                           fp_paymentMethod = or_else body_paymentMethod [],
                           fp_status = or_else body_status [],
                           fp_remarks = or_else body_remarks []\<rparr>;
                        payments =
                          (case findIndex (\<lambda>p. fp_student p = studentId) (feesPayments batch) of
                             Some existingPaymentIndex \<Rightarrow>
                               (feesPayments batch)[existingPaymentIndex := paymentData]
                           | None \<Rightarrow> feesPayments batch @ [paymentData]);
                        batch1 = batch\<lparr>feesPayments := payments\<rparr>
                    in (Reply OK payments, Batch_save d batch1))))"

text \<open>The fee records of one student in a batch.\<close>

definition fees_of :: "batch \<Rightarrow> oid \<Rightarrow> fee_payment list" where
  "fees_of b sid = filter (\<lambda>p. fp_student p = sid) (feesPayments b)"

text \<open>The invariant of the fee lists: a batch holds at most one record for a student.
  A new batch has none, and \<open>post_fees\<close> is the only handler that writes the list.\<close>

definition one_fee_per_student :: "db \<Rightarrow> bool" where
  "one_fee_per_student d = (\<forall>b \<in> set (batches d). distinct (map fp_student (feesPayments b)))"

subsection \<open>Read handlers of the admin routes\<close>

text \<open>\<open>populate(path, 'name email')\<close>: the referenced document's id, name and email, or
  nothing when the reference does not resolve.\<close>

record person =
  p_id :: oid
  p_name :: string
  p_email :: string

definition populate_admin :: "db \<Rightarrow> oid \<Rightarrow> person option" where
  "populate_admin d i =
     map_option (\<lambda>a. \<lparr>p_id = au_id a, p_name = au_name a, p_email = au_email a\<rparr>)
       (AdminUser_findById d i)"

definition populate_user :: "db \<Rightarrow> oid \<Rightarrow> person option" where
  "populate_user d i =
     map_option (\<lambda>u. \<lparr>p_id = u_id u, p_name = u_name u, p_email = u_email u\<rparr>)
       (User_findById d i)"

record batch_view =
  bv_id :: oid
  bv_name :: string
  bv_batch_code :: utf16
  bv_class :: string
  bv_teacher_id :: "person option"
  bv_students :: "person list"
  bv_announcements :: "announcement list"
  bv_timetable :: timetable

record announcement_view =
  av_id :: oid
  av_title :: string
  av_content :: string
  av_teacher_id :: "person option"
  av_createdAt :: int

record fee_view =
  fv_student :: "person option"
  fv_amount :: int
  fv_paymentDate :: int
  fv_paymentMethod :: string
  fv_status :: string
  fv_remarks :: string

definition fee_populated :: "db \<Rightarrow> fee_payment \<Rightarrow> fee_view" where
  "fee_populated d p =
     \<lparr>fv_student = populate_user d (fp_student p), fv_amount = fp_amount p,
      fv_paymentDate = fp_paymentDate p, fv_paymentMethod = fp_paymentMethod p,
      fv_status = fp_status p, fv_remarks = fp_remarks p\<rparr>"

text \<open>\<open>GET /batches/:batchId\<close>.  None of the four read handlers of this subsection
  looks at the \<open>Authorization\<close> header; it is an argument so that this can be stated.\<close>

definition get_batch :: "db \<Rightarrow> string option \<Rightarrow> oid \<Rightarrow> batch_view reply" where
  "get_batch d authHeader batchId =
     (case Batch_findById d batchId of
        None \<Rightarrow> Reject NotFound ''Batch not found''
      | Some batch \<Rightarrow>
          Reply OK
            \<lparr>bv_id = b_id batch, bv_name = b_name batch, bv_batch_code = batch_code batch,
             bv_class = b_class batch, bv_teacher_id = populate_admin d (teacher_id batch),
             bv_students = List.map_filter (populate_user d) (students batch),
             bv_announcements = announcements batch, bv_timetable = timetable batch\<rparr>)"

text \<open>\<open>GET /batches/:batchId/announcements\<close>.\<close>

definition get_announcements ::
  "db \<Rightarrow> string option \<Rightarrow> oid \<Rightarrow> announcement_view list reply" where
  "get_announcements d authHeader batchId =
     (case Batch_findById d batchId of
        None \<Rightarrow> Reject NotFound ''Batch not found''
      | Some batch \<Rightarrow>
          Reply OK
            (map (\<lambda>a. \<lparr>av_id = an_id a, av_title = an_title a, av_content = an_content a,
                        av_teacher_id = populate_admin d (an_teacher_id a),
                        av_createdAt = an_createdAt a\<rparr>)
               (announcements batch)))"

text \<open>\<open>GET /batches/:batchId/timetable\<close>.\<close>

definition get_timetable :: "db \<Rightarrow> string option \<Rightarrow> oid \<Rightarrow> timetable reply" where
  "get_timetable d authHeader batchId =
     (case Batch_findById d batchId of
        None \<Rightarrow> Reject NotFound ''Batch not found''
      | Some batch \<Rightarrow> Reply OK (timetable batch))"

text \<open>\<open>GET /batches/:batchId/fees\<close>.\<close>

definition get_fees ::
  "(string \<Rightarrow> bool) \<Rightarrow> db \<Rightarrow> string option \<Rightarrow> oid \<Rightarrow> fee_view list reply" where
  "get_fees isValid d authHeader batchId =
     (if batchId = [] \<or> \<not> isValid batchId then Reject BadRequest ''Invalid batch ID''
      else
       (case Batch_findById d batchId of
          None \<Rightarrow> Reject NotFound ''Batch not found''
        | Some batch \<Rightarrow> Reply OK (map (fee_populated d) (feesPayments batch))))"


subsection \<open>Read handlers of a parent\<close>

text \<open>The attendance query of the parent handler: the records of the batch that hold a
  row of the student, within the date range when both ends are given, latest first.\<close>

definition in_range :: "int option \<Rightarrow> int option \<Rightarrow> int \<Rightarrow> bool" where
  "in_range startDate endDate t =
     (case (startDate, endDate) of (Some lo, Some hi) \<Rightarrow> lo \<le> t \<and> t \<le> hi | _ \<Rightarrow> True)"

definition Attendance_find_student ::
  "db \<Rightarrow> oid \<Rightarrow> oid \<Rightarrow> int option \<Rightarrow> int option \<Rightarrow> attendance list" where
  "Attendance_find_student d batchId studentId startDate endDate =
     sort_key (\<lambda>a. - date a)
       (filter (\<lambda>a. batch_id a = batchId \<and> list_ex (\<lambda>r. student_id r = studentId) (records a)
                     \<and> in_range startDate endDate (date a))
          (attendances d))"

record attendance_line =
  al_date :: int
  al_status :: att_status
  al_remarks :: string
  al_marked_by :: string

record statistics =
  totalClasses :: nat
  present :: nat
  absent :: nat
  attendancePercentage :: rat

text \<open>One formatted record; \<open>None\<close> where the handler would read a property of
  \<open>undefined\<close> or \<open>null\<close> (no row of the student, or a marker that does not resolve).\<close>

definition format_record :: "db \<Rightarrow> oid \<Rightarrow> attendance \<Rightarrow> attendance_line option" where
  "format_record d studentId a =
     (case find (\<lambda>r. student_id r = studentId) (records a) of
        None \<Rightarrow> None
      | Some studentRecord \<Rightarrow>
         (case AdminUser_findById d (marked_by a) of
            None \<Rightarrow> None
          | Some marker \<Rightarrow>
              Some \<lparr>al_date = date a, al_status = status studentRecord,
                    al_remarks = or_else (ar_remarks studentRecord) [],
                    al_marked_by = au_name marker\<rparr>))"

subsection \<open>The attendance percentage, a double\<close>

text \<open>JavaScript numbers are IEEE 754 doubles: every arithmetic operation returns the
  double nearest to the exact result, a tie going to the even significand.  A double is
  modelled by the rational number it denotes, and \<open>fl\<close> is that rounding for the
  non-negative values of the handlers (the exponent range of doubles, far from the
  values here, is not modelled).  \<open>exponent x\<close> is the \<open>e\<close> with
  \<open>2^e \<le> x < 2^(e+1)\<close>; a double has 53 significant bits.\<close>

definition round_half_even :: "rat \<Rightarrow> int" where
  "round_half_even x =
     (let f = \<lfloor>x\<rfloor>; r = x - of_int f in
      if r < 1 / 2 then f else if 1 / 2 < r then f + 1 else if even f then f else f + 1)"

definition exponent :: "rat \<Rightarrow> int" where
  "exponent x =
     (let (n, d) = quotient_of x; e = bitlen n - bitlen d in if 2 powi e \<le> x then e else e - 1)"

definition fl :: "rat \<Rightarrow> rat" where
  "fl x =
     (if x \<le> 0 then 0
      else let s = 2 powi (exponent x - 52) in of_int (round_half_even (x / s)) * s)"

definition unit_roundoff :: rat where
  "unit_roundoff = 1 / 2 ^ 53"

text \<open>\<open>Math.round\<close>: the nearest integer, a tie going up; exact on its argument.\<close>

definition Math_round :: "rat \<Rightarrow> int" where
  "Math_round y = \<lfloor>y + 1 / 2\<rfloor>"

text \<open>\<open>totalClasses > 0 ? (present / totalClasses) * 100 : 0\<close>, and then
  \<open>Math.round(attendancePercentage * 100) / 100\<close>: four operations on doubles.\<close>

definition rounded_percentage :: "nat \<Rightarrow> nat \<Rightarrow> rat" where
  "rounded_percentage pres classes =
     (let percentage = (if classes > 0 then fl (fl (of_nat pres / of_nat classes) * 100) else 0)
      in fl (of_int (Math_round (fl (percentage * 100))) / 100))"

text \<open>The statistics of the formatted records, from their statuses.\<close>

definition count_statistics :: "att_status list \<Rightarrow> statistics" where
  "count_statistics statuses =
     (let classes = length statuses;
          pres = length (filter (\<lambda>s. s = Present) statuses)
      in \<lparr>totalClasses = classes, present = pres, absent = classes - pres,
          attendancePercentage = rounded_percentage pres classes\<rparr>)"

text \<open>Rounding to two decimal places as the specification words it, in exact arithmetic:
  the nearest multiple of 1/100, a tie going up.\<close>

definition spec_round2 :: "rat \<Rightarrow> rat" where
  "spec_round2 x = of_int \<lfloor>x * 100 + 1 / 2\<rfloor> / 100"

text \<open>\<open>GET /parent/batches/:batchId/student-attendance/:studentId\<close>.  \<open>verify\<close> is
  \<open>jwt.verify\<close>; where it throws, the handler's \<open>catch\<close> answers 500.\<close>

definition get_parent_student_attendance ::
  "(string \<Rightarrow> oid option) \<Rightarrow> db \<Rightarrow> string option \<Rightarrow> oid \<Rightarrow> oid \<Rightarrow> int option \<Rightarrow> int option
    \<Rightarrow> (attendance_line list \<times> statistics) reply" where
  "get_parent_student_attendance verify d authHeader batchId studentId query_startDate
     query_endDate =
     (if \<not> startsWith_Bearer authHeader then Reject Unauthorized ''Authentication required''
      else
       (case verify (bearer authHeader) of
          None \<Rightarrow> Reject ServerError ''Error fetching attendance records''
        | Some userId \<Rightarrow>
         (case User_findById d userId of
            None \<Rightarrow> Reject Forbidden ''Parent access required''
          | Some parent \<Rightarrow>
              if u_role parent \<noteq> Parent then Reject Forbidden ''Parent access required''
              else
               (case User_findById d studentId of
                  None \<Rightarrow> Reject Forbidden
                    (''Not authorized to view this student'' @ [CHR 0x27] @ ''s attendance'')
                | Some student \<Rightarrow>
                    if u_parentEmail student \<noteq> Some (u_email parent)
                    then Reject Forbidden
                      (''Not authorized to view this student'' @ [CHR 0x27] @ ''s attendance'')
                    else
                     (case those (map (format_record d studentId)
                              (Attendance_find_student d batchId studentId query_startDate
                                 query_endDate)) of
                        None \<Rightarrow> Reject ServerError ''Error fetching attendance records''
                      | Some formattedRecords \<Rightarrow>
                          Reply OK
                            (formattedRecords,
                             count_statistics (map al_status formattedRecords)))))))"

text \<open>\<open>GET /batches/:batchId/student-attendance/:studentId\<close> of the admin routes: the
  same query and statistics for a caller whose header names a teacher.\<close>

record student_line =
  sl_date :: int
  sl_status :: att_status
  sl_remarks :: string

definition format_student_record :: "oid \<Rightarrow> attendance \<Rightarrow> student_line option" where
  "format_student_record studentId a =
     (case find (\<lambda>r. student_id r = studentId) (records a) of
        None \<Rightarrow> None
      | Some studentRecord \<Rightarrow>
          Some \<lparr>sl_date = date a, sl_status = status studentRecord,
                sl_remarks = or_else (ar_remarks studentRecord) []\<rparr>)"

definition get_student_attendance ::
  "db \<Rightarrow> string option \<Rightarrow> oid \<Rightarrow> oid \<Rightarrow> int option \<Rightarrow> int option
    \<Rightarrow> (student_line list \<times> statistics) reply" where
  "get_student_attendance d authHeader batchId studentId query_startDate query_endDate =
     (if \<not> startsWith_Bearer authHeader then Reject Unauthorized ''Authentication required''
      else
       (case AdminUser_findById d (bearer authHeader) of
          None \<Rightarrow> Reject Unauthorized ''Invalid teacher credentials''
        | Some teacherDoc \<Rightarrow>
           (case those (map (format_student_record studentId)
                    (Attendance_find_student d batchId studentId query_startDate query_endDate)) of
              None \<Rightarrow> Reject ServerError ''Error fetching student attendance''
            | Some formattedRecords \<Rightarrow>
                Reply OK (formattedRecords, count_statistics (map sl_status formattedRecords)))))"

text \<open>\<open>GET /student/batches/:batchId/attendance\<close> of the user routes: all records of
  the batch are fetched, and those without a row of the student (\<open>query_userId\<close>, from
  the query string and possibly missing) are dropped after formatting.\<close>

definition Attendance_find_batch :: "db \<Rightarrow> oid \<Rightarrow> int option \<Rightarrow> int option \<Rightarrow> attendance list" where
  "Attendance_find_batch d batchId startDate endDate =
     sort_key (\<lambda>a. - date a)
       (filter (\<lambda>a. batch_id a = batchId \<and> in_range startDate endDate (date a)) (attendances d))"

definition format_own_record ::
  "db \<Rightarrow> string option \<Rightarrow> attendance \<Rightarrow> attendance_line option option" where
  "format_own_record d query_userId a =
     (case find (\<lambda>r. Some (student_id r) = query_userId) (records a) of
        None \<Rightarrow> Some None
      | Some studentRecord \<Rightarrow>
         (case AdminUser_findById d (marked_by a) of
            None \<Rightarrow> None
          | Some marker \<Rightarrow>
              Some (Some \<lparr>al_date = date a, al_status = status studentRecord,
                          al_remarks = or_else (ar_remarks studentRecord) [],
                          al_marked_by = au_name marker\<rparr>)))"

definition get_own_attendance ::
  "(string \<Rightarrow> oid option) \<Rightarrow> db \<Rightarrow> string option \<Rightarrow> oid \<Rightarrow> string option \<Rightarrow> int option
    \<Rightarrow> int option \<Rightarrow> (attendance_line list \<times> statistics) reply" where
  "get_own_attendance verify d authHeader batchId query_userId query_startDate query_endDate =
     (if \<not> startsWith_Bearer authHeader then Reject Unauthorized ''Authentication required''
      else
       (case verify (bearer authHeader) of
          None \<Rightarrow> Reject ServerError ''Error fetching attendance records''
        | Some decoded \<Rightarrow>
           (case those (map (format_own_record d query_userId)
                    (Attendance_find_batch d batchId query_startDate query_endDate)) of
              None \<Rightarrow> Reject ServerError ''Error fetching attendance records''
            | Some formatted \<Rightarrow>
                let formattedAttendance = List.map_filter id formatted
                in Reply OK
                     (formattedAttendance,
                      count_statistics (map al_status formattedAttendance)))))"





subsection \<open>A small database for concrete runs\<close>

definition demo_admins :: "admin_user list" where
  "demo_admins =
     [\<lparr>au_id = ''t1'', au_name = ''Asha'', au_email = ''asha@x.org'', au_password = ''h1'',
       au_active = True\<rparr>,
      \<lparr>au_id = ''t2'', au_name = ''Ravi'', au_email = ''ravi@x.org'', au_password = ''h2'',
       au_active = True\<rparr>]"

definition demo_users :: "user list" where
  "demo_users =
     [\<lparr>u_id = ''s1'', u_name = ''Sam'', u_email = ''sam@x.org'', u_role = Student,
       u_parentEmail = Some ''pa@x.org''\<rparr>,
      \<lparr>u_id = ''s2'', u_name = ''Tia'', u_email = ''tia@x.org'', u_role = Student,
       u_parentEmail = None\<rparr>,
      \<lparr>u_id = ''p1'', u_name = ''Pat'', u_email = ''pa@x.org'', u_role = Parent,
       u_parentEmail = None\<rparr>,
      \<lparr>u_id = ''p2'', u_name = ''Quin'', u_email = ''pb@x.org'', u_role = Parent,
       u_parentEmail = None\<rparr>]"

text \<open>The code units of a string of ASCII characters.\<close>

definition ascii :: "string \<Rightarrow> utf16" where
  "ascii s = map (\<lambda>c. of_char c) s"

text \<open>What \<open>String.prototype.toUpperCase\<close> does to a string whose code units are below
  256 (Latin-1): the letters \<open>a\<close> to \<open>z\<close> and the lower-case letters from 224 to 254 (the
  division sign at 247 is none) move down by 32, the micro sign at 181 becomes the Greek
  capital mu, the sharp s at 223 becomes \<open>SS\<close>, and the y with diaeresis at 255 becomes
  its capital at 376.  It stands for the runtime's function in the concrete runs.\<close>

definition upper_units :: "code_unit \<Rightarrow> utf16" where
  "upper_units c =
     (if 97 \<le> c \<and> c \<le> 122 then [c - 32]
      else if c = 181 then [924]
      else if c = 223 then [83, 83]
      else if 224 \<le> c \<and> c \<le> 254 \<and> c \<noteq> 247 then [c - 32]
      else if c = 255 then [376]
      else [c])"

definition toUpperCase_latin1 :: "utf16 \<Rightarrow> utf16" where
  "toUpperCase_latin1 s = concat (map upper_units s)"

definition demo_batch :: batch where
  "demo_batch =
     \<lparr>b_id = ''b1'', b_name = ''Maths'', batch_code = ascii ''MATH1'', b_class = ''10'',
      teacher_id = ''t1'', students = [''s1''], feesPayments = [], announcements = [],
      timetable = empty_timetable, testResults = []\<rparr>"

definition demo_batch2 :: batch where
  "demo_batch2 =
     \<lparr>b_id = ''b2'', b_name = ''Physics'', batch_code = ascii ''PHYS1'', b_class = ''11'',
      teacher_id = ''t2'', students = [], feesPayments = [], announcements = [],
      timetable = empty_timetable, testResults = []\<rparr>"

definition demo_db :: db where
  "demo_db =
     \<lparr>adminUsers = demo_admins, users = demo_users, batches = [demo_batch, demo_batch2],
      attendances = []\<rparr>"

definition demo_records :: "att_record list" where
  "demo_records = [\<lparr>student_id = ''s1'', status = Present, ar_remarks = None\<rparr>]"

definition demo_attendance :: attendance where
  "demo_attendance =
     \<lparr>at_id = ''a1'', batch_id = ''b1'', date = 20240115, records = demo_records,
      marked_by = ''t1''\<rparr>"

text \<open>Two marks of batch \<open>b1\<close> on 15 January 2024, at 10:00 and at 10:01 UTC.\<close>

definition demo_morning :: attendance where
  "demo_morning =
     \<lparr>at_id = ''a1'', batch_id = ''b1'', date = 1705312800000, records = demo_records,
      marked_by = ''t1''\<rparr>"

definition demo_later :: attendance where
  "demo_later =
     \<lparr>at_id = ''a2'', batch_id = ''b1'', date = 1705312860000, records = demo_records,
      marked_by = ''t1''\<rparr>"

definition demo_db_marked :: db where
  "demo_db_marked = demo_db\<lparr>attendances := [demo_attendance]\<rparr>"

definition demo_entry :: "int \<Rightarrow> string \<Rightarrow> entry_input" where
  "demo_entry h s =
     \<lparr>ei_hour = Some h, ei_subject = Some s, ei_teacher = None, ei_startTime = None,
      ei_endTime = None\<rparr>"

definition stored_entry :: "int \<Rightarrow> string \<Rightarrow> entry" where
  "stored_entry h s =
     \<lparr>hour = h, subject = s, teacher = None, startTime = None, endTime = None\<rparr>"

definition demo_db_nine :: db where
  "demo_db_nine =
     Batch_save demo_db
       (demo_batch\<lparr>timetable := (empty_timetable\<lparr>monday := [stored_entry 9 ''Art'']\<rparr>)\<rparr>)"

definition demo_db_twice :: db where
  "demo_db_twice =
     Batch_save demo_db
       (demo_batch\<lparr>timetable :=
          (empty_timetable\<lparr>monday := [stored_entry 3 ''Maths'', stored_entry 3 ''Music'']\<rparr>)\<rparr>)"

text \<open>Batch \<open>b1\<close> with a fee record, an announcement and a Monday lesson.\<close>

definition demo_batch_full :: batch where
  "demo_batch_full =
     demo_batch
       \<lparr>feesPayments :=
          [\<lparr>fp_student = ''s1'', fp_amount = 500, fp_paymentDate = 1705312800000,
            fp_paymentMethod = ''online'', fp_status = ''paid'', fp_remarks = ''January''\<rparr>],
        announcements :=
          [\<lparr>an_id = ''n1'', an_title = ''Test'', an_content = ''Chapters 1 to 3'',
            an_teacher_id = ''t1'', an_createdAt = 1705312800000\<rparr>],
        timetable := empty_timetable\<lparr>monday := [stored_entry 1 ''Maths'']\<rparr>\<rparr>"

definition demo_db_full :: db where
  "demo_db_full = Batch_save demo_db demo_batch_full"


text \<open>\<open>n\<close> attendance records of batch \<open>b1\<close>, one for each of \<open>n\<close> dates, in the first
  \<open>k\<close> of which student \<open>s1\<close> is present.\<close>

definition demo_marks :: "nat \<Rightarrow> nat \<Rightarrow> attendance list" where
  "demo_marks k n =
     map (\<lambda>i. \<lparr>at_id = replicate (Suc i) (CHR ''a''), batch_id = ''b1'',
                date = 20240000 - int i,
                records = [\<lparr>student_id = ''s1'',
                            status = (if i < k then Present else Absent),
                            ar_remarks = None\<rparr>],
                marked_by = ''t1''\<rparr>)
       [0..<n]"

definition demo_body :: batch_body where
  "demo_body =
     \<lparr>bb_batch_code = Some (ascii ''math1''), bb_name = Some ''Maths again'', bb_class = Some ''11'',
      bb_teacher_id = Some ''t2''\<rparr>"

section \<open>Properties\<close>

subsection \<open>Batch codes\<close>

lemma find_append_new:
  "find P xs = None \<Longrightarrow> P x \<Longrightarrow> find P (xs @ [x]) = Some x"
  by (induction xs) (auto split: if_splits)

lemma find_append_old:
  "find P xs = Some y \<Longrightarrow> find P (xs @ zs) = Some y"
  by (induction xs) (auto split: if_splits)

lemma post_batches_conflict:
  assumes "batchSchema_parse body = Some v"
    and "AdminUser_findById d (bd_teacher_id v) = Some admin"
    and "b \<in> set (batches d)" and "batch_code b = toUpperCase (bd_batch_code v)"
  shows "post_batches toUpperCase d new_id body =
           (Reject Conflict ''Batch code already exists'', d)"
proof -
  from assms(3,4)
  have "find (\<lambda>b. batch_code b = toUpperCase (bd_batch_code v)) (batches d) \<noteq> None"
    by (auto simp: find_None_iff)
  with assms(1,2) show ?thesis
    by (auto simp: post_batches_def)
qed

lemma post_batches_created:
  assumes "batchSchema_parse body = Some v"
    and "AdminUser_findById d (bd_teacher_id v) = Some admin"
    and "\<forall>b \<in> set (batches d). batch_code b \<noteq> toUpperCase (bd_batch_code v)"
  shows "post_batches toUpperCase d new_id body =
           (Reply Created (Batch_create toUpperCase new_id (toUpperCase (bd_batch_code v))
              (bd_name v) (bd_class v) (au_id admin)),
            d\<lparr>batches := batches d @ [Batch_create toUpperCase new_id
              (toUpperCase (bd_batch_code v)) (bd_name v) (bd_class v) (au_id admin)]\<rparr>)"
proof -
  from assms(3)
  have "find (\<lambda>b. batch_code b = toUpperCase (bd_batch_code v)) (batches d) = None"
    by (auto simp: find_None_iff)
  with assms(1,2) show ?thesis
    by (simp add: post_batches_def Let_def)
qed

lemma upper_units_fixed: "u \<in> set (upper_units c) \<Longrightarrow> upper_units u = [u]"
  unfolding upper_units_def
  by (auto split: if_splits; unat_arith)

lemma toUpperCase_latin1_idem:
  "toUpperCase_latin1 (toUpperCase_latin1 s) = toUpperCase_latin1 s"
proof -
  have fixed: "concat (map upper_units us) = us" if "\<forall>u \<in> set us. upper_units u = [u]" for us
    using that by (induction us) simp_all
  have "concat (map upper_units (concat (map upper_units s))) = concat (map upper_units s)"
    by (rule fixed) (auto dest: upper_units_fixed)
  then show ?thesis by (simp add: toUpperCase_latin1_def)
qed

text \<open>
  Claim C8.  \<open>toUpperCase\<close> is the runtime's \<open>String.prototype.toUpperCase\<close>, of which the
  statement uses only that upper-casing an upper-cased string changes nothing.  Take a
  creation request that passes the schema and names an existing teacher, on a database
  whose stored codes are in upper case (which creation maintains).  If some stored batch
  has the supplied code up to case, the request is refused with 409 \<open>Conflict\<close> and the
  database is unchanged.  Otherwise exactly one batch is appended, and its stored
  \<open>batch_code\<close> is the upper-case form of the supplied code, whatever the case of the
  input; and on the database that this creation leaves, every further valid creation
  request whose code equals the supplied code up to case is refused with 409 and creates
  nothing.
\<close>

theorem batch_code_uppercase_unique:
  assumes idem: "\<And>s. toUpperCase (toUpperCase s) = toUpperCase s"
    and parse: "batchSchema_parse body = Some v"
    and teacher: "AdminUser_findById d (bd_teacher_id v) = Some admin"
    and inv: "codes_uppercase toUpperCase d"
  shows "(if \<exists>b \<in> set (batches d). toUpperCase (batch_code b) = toUpperCase (bd_batch_code v)
          then post_batches toUpperCase d new_id body =
                 (Reject Conflict ''Batch code already exists'', d)
          else \<exists>b. post_batches toUpperCase d new_id body =
                      (Reply Created b, d\<lparr>batches := batches d @ [b]\<rparr>)
                 \<and> batch_code b = toUpperCase (bd_batch_code v)
                 \<and> codes_uppercase toUpperCase (d\<lparr>batches := batches d @ [b]\<rparr>)
                 \<and> (\<forall>body2 v2 admin2 new_id2.
                       batchSchema_parse body2 = Some v2
                       \<and> AdminUser_findById d (bd_teacher_id v2) = Some admin2
                       \<and> toUpperCase (bd_batch_code v2) = toUpperCase (bd_batch_code v)
                     \<longrightarrow> post_batches toUpperCase (d\<lparr>batches := batches d @ [b]\<rparr>) new_id2 body2 =
                           (Reject Conflict ''Batch code already exists'',
                            d\<lparr>batches := batches d @ [b]\<rparr>)))"
proof (cases "\<exists>b \<in> set (batches d). toUpperCase (batch_code b) = toUpperCase (bd_batch_code v)")
  case True
  then obtain b where b: "b \<in> set (batches d)"
    "toUpperCase (batch_code b) = toUpperCase (bd_batch_code v)" by blast
  with inv have "batch_code b = toUpperCase (bd_batch_code v)"
    by (auto simp: codes_uppercase_def)
  from post_batches_conflict [where toUpperCase = toUpperCase, OF parse teacher b(1) this] True
  show ?thesis by simp
next
  case False
  with inv have no: "\<forall>b \<in> set (batches d). batch_code b \<noteq> toUpperCase (bd_batch_code v)"
    by (auto simp: codes_uppercase_def)
  let ?b = "Batch_create toUpperCase new_id (toUpperCase (bd_batch_code v)) (bd_name v)
              (bd_class v) (au_id admin)"
  let ?d1 = "d\<lparr>batches := batches d @ [?b]\<rparr>"
  have code: "batch_code ?b = toUpperCase (bd_batch_code v)"
    by (simp add: Batch_create_def idem)
  have 1: "post_batches toUpperCase d new_id body = (Reply Created ?b, ?d1)"
    by (rule post_batches_created [where toUpperCase = toUpperCase, OF parse teacher no])
  have 2: "codes_uppercase toUpperCase ?d1"
    using inv by (simp add: codes_uppercase_def code idem)
  have 3: "post_batches toUpperCase ?d1 new_id2 body2 =
             (Reject Conflict ''Batch code already exists'', ?d1)"
    if "batchSchema_parse body2 = Some v2"
      and "AdminUser_findById d (bd_teacher_id v2) = Some admin2"
      and "toUpperCase (bd_batch_code v2) = toUpperCase (bd_batch_code v)"
    for body2 v2 admin2 new_id2
  proof (rule post_batches_conflict [where toUpperCase = toUpperCase and b = ?b, OF that(1)])
    from that(2) show "AdminUser_findById ?d1 (bd_teacher_id v2) = Some admin2"
      by (simp add: AdminUser_findById_def)
    show "?b \<in> set (batches ?d1)" by simp
    from that(3) show "batch_code ?b = toUpperCase (bd_batch_code v2)" by (simp add: code)
  qed
  from False 1 2 3 code show ?thesis by (auto simp del: split_paired_All)
qed

theorem batch_code_uppercase_unique_witness:
  "batchSchema_parse demo_body =
     Some \<lparr>bd_batch_code = ascii ''math1'', bd_name = ''Maths again'', bd_class = ''11'',
           bd_teacher_id = ''t2''\<rparr>
   \<and> codes_uppercase toUpperCase_latin1 demo_db
   \<and> post_batches toUpperCase_latin1 demo_db ''b3'' demo_body =
       (Reject Conflict ''Batch code already exists'', demo_db)
   \<and> fst (post_batches toUpperCase_latin1 demo_db ''b3''
        (demo_body\<lparr>bb_batch_code := Some [233, 116, 233, 49]\<rparr>)) =
       Reply Created (demo_batch\<lparr>b_id := ''b3'', b_name := ''Maths again'',
         batch_code := [201, 84, 201, 49], b_class := ''11'', teacher_id := ''t2'',
         students := []\<rparr>)
   \<and> fst (post_batches toUpperCase_latin1
        (snd (post_batches toUpperCase_latin1 demo_db ''b3''
           (demo_body\<lparr>bb_batch_code := Some [233, 116, 233, 49]\<rparr>)))
        ''b4'' (demo_body\<lparr>bb_batch_code := Some [201, 116, 233, 49]\<rparr>)) =
       Reject Conflict ''Batch code already exists''"
proof -
  let ?v = "\<lparr>bd_batch_code = ascii ''math1'', bd_name = ''Maths again'', bd_class = ''11'',
           bd_teacher_id = ''t2''\<rparr>"
  let ?b1 = "demo_body\<lparr>bb_batch_code := Some [233, 116, 233, 49]\<rparr>"
  let ?v1 = "?v\<lparr>bd_batch_code := [233, 116, 233, 49]\<rparr>"
  let ?b2 = "demo_body\<lparr>bb_batch_code := Some [201, 116, 233, 49]\<rparr>"
  let ?v2 = "?v\<lparr>bd_batch_code := [201, 116, 233, 49]\<rparr>"
  let ?new = "demo_batch\<lparr>b_id := ''b3'', b_name := ''Maths again'',
         batch_code := [201, 84, 201, 49], b_class := ''11'', teacher_id := ''t2'',
         students := []\<rparr>"
  have p: "batchSchema_parse demo_body = Some ?v" by code_simp
  have p1: "batchSchema_parse ?b1 = Some ?v1" by code_simp
  have p2: "batchSchema_parse ?b2 = Some ?v2" by code_simp
  have t: "AdminUser_findById demo_db (bd_teacher_id ?v) = Some (demo_admins ! 1)"
    "AdminUser_findById demo_db (bd_teacher_id ?v1) = Some (demo_admins ! 1)"
    "AdminUser_findById demo_db (bd_teacher_id ?v2) = Some (demo_admins ! 1)" by code_simp+
  have i: "codes_uppercase toUpperCase_latin1 demo_db" by code_simp
  have e: "\<exists>b \<in> set (batches demo_db).
             toUpperCase_latin1 (batch_code b) = toUpperCase_latin1 (bd_batch_code ?v)"
    by code_simp
  have n: "\<not> (\<exists>b \<in> set (batches demo_db).
             toUpperCase_latin1 (batch_code b) = toUpperCase_latin1 (bd_batch_code ?v1))"
    by code_simp
  have u: "toUpperCase_latin1 (bd_batch_code ?v2) = toUpperCase_latin1 (bd_batch_code ?v1)"
    "toUpperCase_latin1 (bd_batch_code ?v1) = [201, 84, 201, 49]" by code_simp+
  have c: "fst (post_batches toUpperCase_latin1 demo_db ''b3'' ?b1) = Reply Created ?new"
    by code_simp
  from batch_code_uppercase_unique [of toUpperCase_latin1, OF toUpperCase_latin1_idem p t(1) i,
      of "''b3''"] e
  have 1: "post_batches toUpperCase_latin1 demo_db ''b3'' demo_body =
       (Reject Conflict ''Batch code already exists'', demo_db)" by simp
  from batch_code_uppercase_unique [of toUpperCase_latin1, OF toUpperCase_latin1_idem p1 t(2) i,
      of "''b3''"] n
  obtain b where b: "post_batches toUpperCase_latin1 demo_db ''b3'' ?b1 =
        (Reply Created b, demo_db\<lparr>batches := batches demo_db @ [b]\<rparr>)"
    and r: "\<forall>body2 v2 admin2 new_id2.
              batchSchema_parse body2 = Some v2
              \<and> AdminUser_findById demo_db (bd_teacher_id v2) = Some admin2
              \<and> toUpperCase_latin1 (bd_batch_code v2) = toUpperCase_latin1 (bd_batch_code ?v1)
            \<longrightarrow> post_batches toUpperCase_latin1 (demo_db\<lparr>batches := batches demo_db @ [b]\<rparr>)
                   new_id2 body2 =
                  (Reject Conflict ''Batch code already exists'',
                   demo_db\<lparr>batches := batches demo_db @ [b]\<rparr>)"
    by (simp only: if_False) blast
  from r p2 t(3) u(1)
  have "post_batches toUpperCase_latin1 (demo_db\<lparr>batches := batches demo_db @ [b]\<rparr>) ''b4'' ?b2 =
          (Reject Conflict ''Batch code already exists'',
           demo_db\<lparr>batches := batches demo_db @ [b]\<rparr>)" by blast
  with b have 2: "fst (post_batches toUpperCase_latin1
        (snd (post_batches toUpperCase_latin1 demo_db ''b3'' ?b1)) ''b4'' ?b2) =
       Reject Conflict ''Batch code already exists''" by simp
  from p i 1 c 2 show ?thesis by simp
qed

subsection \<open>Attendance: one record for a batch and a date\<close>

lemma post_attendance_existing:
  assumes "startsWith_Bearer auth" and "AdminUser_findById d (bearer auth) = Some t"
    and "a \<in> set (attendances d)" and "batch_id a = batchId" and "date a = dt"
  shows "post_attendance d new_id auth batchId dt rs =
           (Reject BadRequest ''Attendance already marked for this date'', d)"
proof -
  from assms(3-5) have "find (\<lambda>a. batch_id a = batchId \<and> date a = dt) (attendances d) \<noteq> None"
    by (auto simp: find_None_iff)
  with assms(1,2) show ?thesis by (auto simp: post_attendance_def Let_def)
qed

lemma post_attendance_new:
  assumes "startsWith_Bearer auth" and "AdminUser_findById d (bearer auth) = Some t"
    and "\<forall>a \<in> set (attendances d). \<not> (batch_id a = batchId \<and> date a = dt)"
  shows "post_attendance d new_id auth batchId dt rs =
           (Reply Created \<lparr>at_id = new_id, batch_id = batchId, date = dt, records = rs,
                           marked_by = bearer auth\<rparr>,
            d\<lparr>attendances := attendances d @
                 [\<lparr>at_id = new_id, batch_id = batchId, date = dt, records = rs,
                   marked_by = bearer auth\<rparr>]\<rparr>)"
proof -
  from assms(3) have "find (\<lambda>a. batch_id a = batchId \<and> date a = dt) (attendances d) = None"
    by (auto simp: find_None_iff)
  with assms(1,2) show ?thesis by (simp add: post_attendance_def Let_def)
qed

lemma post_attendance_cases:
  "snd (post_attendance d new_id auth batchId dt rs) = d \<or>
   ((\<forall>a \<in> set (attendances d). \<not> (batch_id a = batchId \<and> date a = dt)) \<and>
    snd (post_attendance d new_id auth batchId dt rs) =
      d\<lparr>attendances := attendances d @
           [\<lparr>at_id = new_id, batch_id = batchId, date = dt, records = rs,
             marked_by = bearer auth\<rparr>]\<rparr>)"
  by (auto simp: post_attendance_def Let_def find_None_iff split: option.splits)

lemma post_attendance_inv:
  assumes "att_inv d" and "new_id \<notin> at_id ` set (attendances d)"
  shows "att_inv (snd (post_attendance d new_id auth batchId dt rs))"
  using post_attendance_cases [of d new_id auth batchId dt rs] assms
  by (auto simp: att_inv_def one_per_batch_date_def)

lemma find_by_id_mem: "find (\<lambda>a. at_id a = i) xs = Some a \<Longrightarrow> a \<in> set xs \<and> at_id a = i"
  by (induction xs) (auto split: if_splits)

lemma save_same_keys:
  assumes "distinct (map at_id xs)" and "a \<in> set xs"
    and "at_id a1 = at_id a" and "batch_id a1 = batch_id a" and "date a1 = date a"
  shows "map (\<lambda>a. (batch_id a, date a)) (map (\<lambda>x. if at_id x = at_id a1 then a1 else x) xs)
           = map (\<lambda>a. (batch_id a, date a)) xs"
    and "map at_id (map (\<lambda>x. if at_id x = at_id a1 then a1 else x) xs) = map at_id xs"
proof -
  have "inj_on at_id (set xs)" using assms(1) by (simp add: distinct_map)
  then have same: "x = a" if "x \<in> set xs" "at_id x = at_id a" for x
    using that assms(2) by (auto dest: inj_onD)
  show "map (\<lambda>a. (batch_id a, date a)) (map (\<lambda>x. if at_id x = at_id a1 then a1 else x) xs)
           = map (\<lambda>a. (batch_id a, date a)) xs"
    using assms(3-5) same by auto
  show "map at_id (map (\<lambda>x. if at_id x = at_id a1 then a1 else x) xs) = map at_id xs"
    by auto
qed

lemma put_attendance_cases:
  "snd (put_attendance d auth batchId attId rs) = d \<or>
   (\<exists>a. Attendance_findById d attId = Some a \<and>
      snd (put_attendance d auth batchId attId rs) =
        Attendance_save d (case rs of None \<Rightarrow> a | Some r \<Rightarrow> a\<lparr>records := r\<rparr>))"
  by (auto simp: put_attendance_def Let_def split: option.splits)

lemma put_attendance_inv:
  assumes "att_inv d"
  shows "att_inv (snd (put_attendance d auth batchId attId rs))"
proof -
  from put_attendance_cases [of d auth batchId attId rs]
  show ?thesis
  proof
    assume "snd (put_attendance d auth batchId attId rs) = d"
    with assms show ?thesis by simp
  next
    assume "\<exists>a. Attendance_findById d attId = Some a \<and>
      snd (put_attendance d auth batchId attId rs) =
        Attendance_save d (case rs of None \<Rightarrow> a | Some r \<Rightarrow> a\<lparr>records := r\<rparr>)"
    then obtain a where f: "Attendance_findById d attId = Some a"
      and s: "snd (put_attendance d auth batchId attId rs) =
        Attendance_save d (case rs of None \<Rightarrow> a | Some r \<Rightarrow> a\<lparr>records := r\<rparr>)" by blast
    define a1 where "a1 = (case rs of None \<Rightarrow> a | Some r \<Rightarrow> a\<lparr>records := r\<rparr>)"
    have k: "at_id a1 = at_id a" "batch_id a1 = batch_id a" "date a1 = date a"
      by (simp_all add: a1_def split: option.splits)
    from f have m: "a \<in> set (attendances d)"
      by (auto simp: Attendance_findById_def dest: find_by_id_mem)
    from assms have dist: "distinct (map at_id (attendances d))" by (simp add: att_inv_def)
    from save_same_keys [OF dist m k] assms show ?thesis
      by (simp add: s a1_def [symmetric] att_inv_def one_per_batch_date_def Attendance_save_def
          del: map_map)
  qed
qed

lemma delete_attendance_cases:
  "snd (delete_attendance d auth batchId attId) = d \<or>
   snd (delete_attendance d auth batchId attId) = Attendance_findByIdAndDelete d attId"
  by (auto simp: delete_attendance_def Let_def split: option.splits)

lemma delete_attendance_inv:
  assumes "att_inv d"
  shows "att_inv (snd (delete_attendance d auth batchId attId))"
  using delete_attendance_cases [of d auth batchId attId] assms
  by (auto simp: att_inv_def one_per_batch_date_def Attendance_findByIdAndDelete_def
      distinct_map_filter)


lemma attendance_reachable_inv: "attendance_reachable d \<Longrightarrow> att_inv d"
proof (induction rule: attendance_reachable.induct)
  case (start d)
  then show ?case by (simp add: att_inv_def one_per_batch_date_def)
next
  case (mark d new_id authHeader batchId dt rs)
  then show ?case by (simp add: post_attendance_inv)
next
  case (update d authHeader batchId attendanceId body_rs)
  then show ?case by (simp add: put_attendance_inv)
next
  case (remove d authHeader batchId attendanceId)
  then show ?case by (simp add: delete_attendance_inv)
next
  case (other d d')
  then show ?case by (simp add: att_inv_def one_per_batch_date_def)
qed

lemma put_attendance_mismatch:
  assumes "startsWith_Bearer auth" and "AdminUser_findById d (bearer auth) = Some t"
    and "Batch_findById d bId = Some b" and "teacher_id b = bearer auth"
    and "Attendance_findById d attId = Some att" and "batch_id att \<noteq> bId"
  shows "put_attendance d auth bId attId rs =
           (Reject BadRequest ''Attendance record does not belong to this batch'', d)"
  using assms by (simp add: put_attendance_def Let_def)

lemma put_attendance_success:
  assumes "put_attendance d auth bId attId rs = (Reply st a, d')"
  shows "\<exists>att. Attendance_findById d attId = Some att \<and> batch_id att = bId"
  using assms by (auto simp: put_attendance_def Let_def split: option.splits if_splits)

text \<open>
  Claim C3, as amended: a date is the \<open>Date\<close> value of the request, a point in time, not
  a calendar date.  On every database the handlers can reach, no two attendance records
  share batch and date.  For a caller whose header names an existing teacher: when no
  record of \<open>(batchId, date)\<close> is stored, marking creates exactly one, and a second mark
  of the same pair on the resulting database is refused with 400 and changes nothing;
  when one is stored, marking is refused with 400 and changes nothing.  Updating a stored record
  whose \<open>batch_id\<close> differs from the request's \<open>batchId\<close> is refused with 400 for the
  owner of that batch, leaving the database as it is, and no update succeeds unless the
  record's \<open>batch_id\<close> is the request's \<open>batchId\<close>.
\<close>

theorem attendance_once_per_batch_date:
  assumes reach: "attendance_reachable d"
    and hdr: "startsWith_Bearer auth" and tch: "AdminUser_findById d (bearer auth) = Some t"
  shows "one_per_batch_date d
    \<and> (if \<exists>a \<in> set (attendances d). batch_id a = batchId \<and> date a = dt
       then post_attendance d new_id auth batchId dt rs =
              (Reject BadRequest ''Attendance already marked for this date'', d)
       else (let att = \<lparr>at_id = new_id, batch_id = batchId, date = dt, records = rs,
                        marked_by = bearer auth\<rparr>;
                 d1 = d\<lparr>attendances := attendances d @ [att]\<rparr>
             in post_attendance d new_id auth batchId dt rs = (Reply Created att, d1)
              \<and> post_attendance d1 new_id2 auth batchId dt rs2 =
                  (Reject BadRequest ''Attendance already marked for this date'', d1)))
    \<and> (\<forall>att b. Attendance_findById d attId = Some att \<and> batch_id att \<noteq> bId
          \<and> Batch_findById d bId = Some b \<and> teacher_id b = bearer auth
        \<longrightarrow> put_attendance d auth bId attId rs3 =
              (Reject BadRequest ''Attendance record does not belong to this batch'', d))
    \<and> (\<forall>auth2 st a d2. put_attendance d auth2 bId attId rs3 = (Reply st a, d2)
        \<longrightarrow> (\<exists>att. Attendance_findById d attId = Some att \<and> batch_id att = bId))"
proof (intro conjI)
  from reach show "one_per_batch_date d"
    by (auto dest: attendance_reachable_inv simp: att_inv_def)
next
  show "if \<exists>a \<in> set (attendances d). batch_id a = batchId \<and> date a = dt
       then post_attendance d new_id auth batchId dt rs =
              (Reject BadRequest ''Attendance already marked for this date'', d)
       else (let att = \<lparr>at_id = new_id, batch_id = batchId, date = dt, records = rs,
                        marked_by = bearer auth\<rparr>;
                 d1 = d\<lparr>attendances := attendances d @ [att]\<rparr>
             in post_attendance d new_id auth batchId dt rs = (Reply Created att, d1)
              \<and> post_attendance d1 new_id2 auth batchId dt rs2 =
                  (Reject BadRequest ''Attendance already marked for this date'', d1))"
  proof (cases "\<exists>a \<in> set (attendances d). batch_id a = batchId \<and> date a = dt")
    case True
    then show ?thesis using post_attendance_existing [OF hdr tch] by auto
  next
    case False
    let ?att = "\<lparr>at_id = new_id, batch_id = batchId, date = dt, records = rs,
                        marked_by = bearer auth\<rparr>"
    let ?d1 = "d\<lparr>attendances := attendances d @ [?att]\<rparr>"
    from False have no: "\<forall>a \<in> set (attendances d). \<not> (batch_id a = batchId \<and> date a = dt)"
      by blast
    have first: "post_attendance d new_id auth batchId dt rs = (Reply Created ?att, ?d1)"
      by (rule post_attendance_new [OF hdr tch no])
    have tch1: "AdminUser_findById ?d1 (bearer auth) = Some t"
      using tch by (simp add: AdminUser_findById_def)
    have "post_attendance ?d1 new_id2 auth batchId dt rs2 =
            (Reject BadRequest ''Attendance already marked for this date'', ?d1)"
      by (rule post_attendance_existing [OF hdr tch1, where a = ?att]) simp_all
    with first False show ?thesis by (simp add: Let_def)
  qed
next
  show "\<forall>att b. Attendance_findById d attId = Some att \<and> batch_id att \<noteq> bId
          \<and> Batch_findById d bId = Some b \<and> teacher_id b = bearer auth
        \<longrightarrow> put_attendance d auth bId attId rs3 =
              (Reject BadRequest ''Attendance record does not belong to this batch'', d)"
    using put_attendance_mismatch [OF hdr tch] by blast
next
  show "\<forall>auth2 st a d2. put_attendance d auth2 bId attId rs3 = (Reply st a, d2)
        \<longrightarrow> (\<exists>att. Attendance_findById d attId = Some att \<and> batch_id att = bId)"
    using put_attendance_success by blast
qed

theorem attendance_once_per_batch_date_witness:
  "startsWith_Bearer (Some ''Bearer t2'')
   \<and> AdminUser_findById demo_db_marked (bearer (Some ''Bearer t2'')) = Some (demo_admins ! 1)
   \<and> one_per_batch_date demo_db_marked
   \<and> post_attendance demo_db_marked ''a2'' (Some ''Bearer t2'') ''b1'' 20240115 [] =
       (Reject BadRequest ''Attendance already marked for this date'', demo_db_marked)
   \<and> put_attendance demo_db_marked (Some ''Bearer t2'') ''b2'' ''a1'' (Some []) =
       (Reject BadRequest ''Attendance record does not belong to this batch'', demo_db_marked)
   \<and> post_attendance demo_db ''a1'' (Some ''Bearer t1'') ''b1'' 20240115 demo_records =
       (Reply Created demo_attendance, demo_db_marked)"
proof -
  have first: "post_attendance demo_db ''a1'' (Some ''Bearer t1'') ''b1'' 20240115 demo_records =
       (Reply Created demo_attendance, demo_db_marked)" by code_simp
  have "attendance_reachable demo_db" by (rule attendance_reachable.start) code_simp
  moreover have "''a1'' \<notin> at_id ` set (attendances demo_db)" by code_simp
  ultimately have "attendance_reachable
     (snd (post_attendance demo_db ''a1'' (Some ''Bearer t1'') ''b1'' 20240115 demo_records))"
    by (rule attendance_reachable.mark)
  then have r: "attendance_reachable demo_db_marked" by (simp add: first)
  have h: "startsWith_Bearer (Some ''Bearer t2'')" by code_simp
  have t: "AdminUser_findById demo_db_marked (bearer (Some ''Bearer t2'')) = Some (demo_admins ! 1)"
    by code_simp
  have e: "\<exists>a \<in> set (attendances demo_db_marked). batch_id a = ''b1'' \<and> date a = 20240115"
    by code_simp
  have f: "Attendance_findById demo_db_marked ''a1'' = Some demo_attendance
     \<and> batch_id demo_attendance \<noteq> ''b2''
     \<and> Batch_findById demo_db_marked ''b2'' = Some demo_batch2
     \<and> teacher_id demo_batch2 = bearer (Some ''Bearer t2'')" by code_simp
  from attendance_once_per_batch_date [OF r h t, of "''b1''" 20240115 "''a2''" "[]" _ _ "''a1''"
      "''b2''" "Some []"] e f h t first
  show ?thesis by auto
qed

text \<open>
  Claim C3 as stated, for calendar dates, fails: the teacher of batch \<open>b1\<close> marks it at
  10:00 UTC of 15 January 2024 and again at 10:01 of the same day.  Both requests are
  answered with 201, and the reachable database they leave holds two records of the
  batch for that calendar date.
\<close>

theorem attendance_same_day_twice_counterexample:
  "post_attendance demo_db ''a1'' (Some ''Bearer t1'') ''b1'' 1705312800000 demo_records =
     (Reply Created demo_morning, demo_db\<lparr>attendances := [demo_morning]\<rparr>)
   \<and> post_attendance (demo_db\<lparr>attendances := [demo_morning]\<rparr>) ''a2'' (Some ''Bearer t1'')
        ''b1'' 1705312860000 demo_records =
     (Reply Created demo_later, demo_db\<lparr>attendances := [demo_morning, demo_later]\<rparr>)
   \<and> attendance_reachable (demo_db\<lparr>attendances := [demo_morning, demo_later]\<rparr>)
   \<and> map (\<lambda>a. (batch_id a, calendar_date (date a)))
        (attendances (demo_db\<lparr>attendances := [demo_morning, demo_later]\<rparr>)) =
       [(''b1'', 19737), (''b1'', 19737)]"
proof -
  let ?d1 = "demo_db\<lparr>attendances := [demo_morning]\<rparr>"
  let ?d2 = "demo_db\<lparr>attendances := [demo_morning, demo_later]\<rparr>"
  have 1: "post_attendance demo_db ''a1'' (Some ''Bearer t1'') ''b1'' 1705312800000 demo_records =
     (Reply Created demo_morning, ?d1)" by code_simp
  have 2: "post_attendance ?d1 ''a2'' (Some ''Bearer t1'') ''b1'' 1705312860000 demo_records =
     (Reply Created demo_later, ?d2)" by code_simp
  have 3: "map (\<lambda>a. (batch_id a, calendar_date (date a))) (attendances ?d2) =
       [(''b1'', 19737), (''b1'', 19737)]" by code_simp
  have "attendance_reachable demo_db" by (rule attendance_reachable.start) code_simp
  moreover have "''a1'' \<notin> at_id ` set (attendances demo_db)" by code_simp
  ultimately have "attendance_reachable (snd (post_attendance demo_db ''a1'' (Some ''Bearer t1'')
      ''b1'' 1705312800000 demo_records))"
    by (rule attendance_reachable.mark)
  then have "attendance_reachable ?d1" by (simp add: 1)
  moreover have "''a2'' \<notin> at_id ` set (attendances ?d1)" by code_simp
  ultimately have "attendance_reachable (snd (post_attendance ?d1 ''a2'' (Some ''Bearer t1'')
      ''b1'' 1705312860000 demo_records))"
    by (rule attendance_reachable.mark)
  then have "attendance_reachable ?d2" by (simp add: 2)
  with 1 2 3 show ?thesis by simp
qed

subsection \<open>Fee payments: one record for a student\<close>

lemma findIndex_None_iff: "findIndex P xs = None \<longleftrightarrow> (\<forall>x \<in> set xs. \<not> P x)"
  by (induction xs) auto

lemma findIndex_Some_less: "findIndex P xs = Some i \<Longrightarrow> i < length xs \<and> P (xs ! i)"
  by (induction xs arbitrary: i) (auto split: if_splits)

lemma upsert_filter_same:
  assumes "f g = k" and "distinct (map f xs)"
  shows "filter (\<lambda>p. f p = k)
           (case findIndex (\<lambda>p. f p = k) xs of Some i \<Rightarrow> xs[i := g] | None \<Rightarrow> xs @ [g]) = [g]"
  using assms
proof (induction xs)
  case Nil
  then show ?case by simp
next
  case (Cons x xs)
  show ?case
  proof (cases "f x = k")
    case True
    with Cons.prems have "\<forall>y \<in> set xs. f y \<noteq> k" by (auto simp: image_iff)
    then have "filter (\<lambda>p. f p = k) xs = []" by (simp add: filter_empty_conv)
    with True Cons.prems show ?thesis by simp
  next
    case False
    with Cons show ?thesis by (auto split: option.splits)
  qed
qed

lemma upsert_filter_other:
  assumes "f g = k" and "k' \<noteq> k"
  shows "filter (\<lambda>p. f p = k')
           (case findIndex (\<lambda>p. f p = k) xs of Some i \<Rightarrow> xs[i := g] | None \<Rightarrow> xs @ [g])
         = filter (\<lambda>p. f p = k') xs"
  using assms
proof (induction xs)
  case Nil
  then show ?case by simp
next
  case (Cons x xs)
  then show ?case by (cases "f x = k") (auto split: option.splits)
qed

lemma upsert_map_keys:
  assumes "f g = k"
  shows "map f (case findIndex (\<lambda>p. f p = k) xs of Some i \<Rightarrow> xs[i := g] | None \<Rightarrow> xs @ [g])
         = (if k \<in> f ` set xs then map f xs else map f xs @ [k])"
  using assms
proof (induction xs)
  case Nil
  then show ?case by simp
next
  case (Cons x xs)
  then show ?case by (cases "f x = k") (auto split: option.splits)
qed

lemma upsert_distinct:
  assumes "f g = k" and "distinct (map f xs)"
  shows "distinct (map f
           (case findIndex (\<lambda>p. f p = k) xs of Some i \<Rightarrow> xs[i := g] | None \<Rightarrow> xs @ [g]))"
  using assms by (simp add: upsert_map_keys)

lemma Batch_findById_id: "Batch_findById d i = Some b \<Longrightarrow> b_id b = i \<and> b \<in> set (batches d)"
  unfolding Batch_findById_def by (induction "batches d" arbitrary: d) (auto simp: find_Some_iff)

lemma find_map_replace:
  "find (\<lambda>x. b_id x = b_id b1) xs = Some b \<Longrightarrow>
   find (\<lambda>x. b_id x = b_id b1) (map (\<lambda>x. if b_id x = b_id b1 then b1 else x) xs) = Some b1"
  by (induction xs) (auto split: if_splits)

lemma Batch_findById_save:
  assumes "Batch_findById d i = Some b" and "b_id b1 = i"
  shows "Batch_findById (Batch_save d b1) i = Some b1"
  using assms find_map_replace [of b1 "batches d" b]
  by (auto simp add: Batch_findById_def Batch_save_def)

lemma Batch_save_batches:
  "b' \<in> set (batches (Batch_save d b1)) \<Longrightarrow> b' = b1 \<or> b' \<in> set (batches d)"
  by (auto simp: Batch_save_def split: if_splits)

lemma truthy_Some [simp]: "truthy (Some s) = (s \<noteq> [])"
  by (simp add: truthy_def)

lemma truthy_None [simp]: "truthy None = False"
  by (simp add: truthy_def)

lemma or_else_Some [simp]: "s \<noteq> [] \<Longrightarrow> or_else (Some s) dflt = s"
  by (simp add: or_else_def)

lemma post_fees_not_enrolled:
  assumes "batchId \<noteq> []" "isValid batchId" "sid \<noteq> []" "isValid sid"
    and "0 < amt" "m \<in> {''online'', ''offline''}" "st \<in> {''paid'', ''pending'', ''overdue''}"
    and "Batch_findById d batchId = Some b" and "sid \<notin> set (students b)"
  shows "post_fees isValid now d auth batchId (Some sid) (Some amt) (Some m) (Some st) rem =
           (Reject NotFound ''Student not found in this batch'', d)"
  using assms by (auto simp: post_fees_def Let_def)

lemma post_fees_enrolled:
  assumes "batchId \<noteq> []" "isValid batchId" "sid \<noteq> []" "isValid sid"
    and "0 < amt" "m \<in> {''online'', ''offline''}" "st \<in> {''paid'', ''pending'', ''overdue''}"
    and "Batch_findById d batchId = Some b" and "sid \<in> set (students b)"
  shows "post_fees isValid now d auth batchId (Some sid) (Some amt) (Some m) (Some st) rem =
     (Reply OK
        (case findIndex (\<lambda>p. fp_student p = sid) (feesPayments b) of
           Some i \<Rightarrow> (feesPayments b)
             [i := \<lparr>fp_student = sid, fp_amount = amt, fp_paymentDate = now,
                    fp_paymentMethod = m, fp_status = st, fp_remarks = or_else rem []\<rparr>]
         | None \<Rightarrow> feesPayments b @
             [\<lparr>fp_student = sid, fp_amount = amt, fp_paymentDate = now,
               fp_paymentMethod = m, fp_status = st, fp_remarks = or_else rem []\<rparr>]),
      Batch_save d (b\<lparr>feesPayments :=
        (case findIndex (\<lambda>p. fp_student p = sid) (feesPayments b) of
           Some i \<Rightarrow> (feesPayments b)
             [i := \<lparr>fp_student = sid, fp_amount = amt, fp_paymentDate = now,
                    fp_paymentMethod = m, fp_status = st, fp_remarks = or_else rem []\<rparr>]
         | None \<Rightarrow> feesPayments b @
             [\<lparr>fp_student = sid, fp_amount = amt, fp_paymentDate = now,
               fp_paymentMethod = m, fp_status = st, fp_remarks = or_else rem []\<rparr>])\<rparr>))"
  using assms by (auto simp: post_fees_def Let_def)


lemma one_fee_per_student_save:
  assumes "one_fee_per_student d" and "distinct (map fp_student (feesPayments b1))"
  shows "one_fee_per_student (Batch_save d b1)"
  using assms by (auto simp: one_fee_per_student_def dest!: Batch_save_batches)

text \<open>
  Claim C4.  Take a fee request that passes the handler's input checks, for an existing
  batch of a database in which no batch holds two fee records of one student.  If the
  student is not in \<open>batch.students\<close> the request is refused with 404 and the database,
  so the fee list too, is unchanged.  If the student is enrolled, the request and any
  second such request both succeed, and afterwards the batch holds exactly one fee
  record of the student, carrying the amount, method, status and remarks (an absent or
  empty remark is stored as the empty string) of the second request; the records of
  every other student are as they were, and again no batch holds two records of one
  student.
\<close>

theorem fee_upsert_single_record:
  assumes ids: "batchId \<noteq> []" "isValid batchId" "sid \<noteq> []" "isValid sid"
    and in1: "0 < amt1" "m1 \<in> {''online'', ''offline''}" "st1 \<in> {''paid'', ''pending'', ''overdue''}"
    and in2: "0 < amt2" "m2 \<in> {''online'', ''offline''}" "st2 \<in> {''paid'', ''pending'', ''overdue''}"
    and batch: "Batch_findById d batchId = Some b"
    and inv: "one_fee_per_student d"
  shows "if sid \<notin> set (students b)
         then post_fees isValid now1 d auth1 batchId (Some sid) (Some amt1) (Some m1) (Some st1) rem1
                = (Reject NotFound ''Student not found in this batch'', d)
         else \<exists>ps1 d1 ps2 d2 b2.
                post_fees isValid now1 d auth1 batchId (Some sid) (Some amt1) (Some m1) (Some st1) rem1
                  = (Reply OK ps1, d1)
              \<and> post_fees isValid now2 d1 auth2 batchId (Some sid) (Some amt2) (Some m2) (Some st2) rem2
                  = (Reply OK ps2, d2)
              \<and> Batch_findById d2 batchId = Some b2 \<and> feesPayments b2 = ps2
              \<and> fees_of b2 sid =
                  [\<lparr>fp_student = sid, fp_amount = amt2, fp_paymentDate = now2,
                    fp_paymentMethod = m2, fp_status = st2, fp_remarks = or_else rem2 []\<rparr>]
              \<and> (\<forall>other. other \<noteq> sid \<longrightarrow> fees_of b2 other = fees_of b other)
              \<and> one_fee_per_student d2"
proof (cases "sid \<in> set (students b)")
  case False
  then show ?thesis
    using post_fees_not_enrolled [OF ids in1 batch False] by simp
next
  case True
  let ?g1 = "\<lparr>fp_student = sid, fp_amount = amt1, fp_paymentDate = now1,
               fp_paymentMethod = m1, fp_status = st1, fp_remarks = or_else rem1 []\<rparr>"
  let ?g2 = "\<lparr>fp_student = sid, fp_amount = amt2, fp_paymentDate = now2,
               fp_paymentMethod = m2, fp_status = st2, fp_remarks = or_else rem2 []\<rparr>"
  define ps1 where "ps1 = (case findIndex (\<lambda>p. fp_student p = sid) (feesPayments b) of
           Some i \<Rightarrow> (feesPayments b)[i := ?g1] | None \<Rightarrow> feesPayments b @ [?g1])"
  define b1 where "b1 = b\<lparr>feesPayments := ps1\<rparr>"
  define d1 where "d1 = Batch_save d b1"
  define ps2 where "ps2 = (case findIndex (\<lambda>p. fp_student p = sid) (feesPayments b1) of
           Some i \<Rightarrow> (feesPayments b1)[i := ?g2] | None \<Rightarrow> feesPayments b1 @ [?g2])"
  define b2 where "b2 = b1\<lparr>feesPayments := ps2\<rparr>"
  define d2 where "d2 = Batch_save d1 b2"
  from batch have idb: "b_id b = batchId" and memb: "b \<in> set (batches d)"
    by (auto dest: Batch_findById_id)
  from inv memb have dist0: "distinct (map fp_student (feesPayments b))"
    by (auto simp: one_fee_per_student_def)
  have call1: "post_fees isValid now1 d auth1 batchId (Some sid) (Some amt1) (Some m1) (Some st1) rem1
                  = (Reply OK ps1, d1)"
    unfolding ps1_def d1_def b1_def by (rule post_fees_enrolled [OF ids in1 batch True])
  have batch1: "Batch_findById d1 batchId = Some b1"
    unfolding d1_def by (rule Batch_findById_save [OF batch]) (simp add: b1_def idb)
  have enrolled1: "sid \<in> set (students b1)" using True by (simp add: b1_def)
  have call2: "post_fees isValid now2 d1 auth2 batchId (Some sid) (Some amt2) (Some m2) (Some st2) rem2
                  = (Reply OK ps2, d2)"
    unfolding ps2_def d2_def b2_def by (rule post_fees_enrolled [OF ids in2 batch1 enrolled1])
  have batch2: "Batch_findById d2 batchId = Some b2"
    unfolding d2_def by (rule Batch_findById_save [OF batch1]) (simp add: b2_def b1_def idb)
  have fp1: "feesPayments b1 = ps1" by (simp add: b1_def)
  have dist1: "distinct (map fp_student ps1)"
    unfolding ps1_def by (rule upsert_distinct [OF _ dist0]) simp
  have dist2: "distinct (map fp_student ps2)"
    unfolding ps2_def fp1 using dist1 by (intro upsert_distinct) simp_all
  have one: "fees_of b2 sid = [?g2]"
    unfolding fees_of_def b2_def ps2_def fp1 using dist1
    by (simp add: upsert_filter_same [where f = fp_student and g = ?g2 and k = sid])
  have other: "fees_of b2 other = fees_of b other" if "other \<noteq> sid" for other
  proof -
    have "filter (\<lambda>p. fp_student p = other) ps2 = filter (\<lambda>p. fp_student p = other) ps1"
      unfolding ps2_def fp1 using that
      by (simp add: upsert_filter_other [where f = fp_student and g = ?g2 and k = sid])
    also have "\<dots> = filter (\<lambda>p. fp_student p = other) (feesPayments b)"
      unfolding ps1_def using that
      by (simp add: upsert_filter_other [where f = fp_student and g = ?g1 and k = sid])
    finally show ?thesis by (simp add: fees_of_def b2_def)
  qed
  have inv1: "one_fee_per_student d1"
    unfolding d1_def using inv dist1 by (intro one_fee_per_student_save) (simp_all add: b1_def)
  have inv2: "one_fee_per_student d2"
    unfolding d2_def using inv1 dist2 by (intro one_fee_per_student_save) (simp_all add: b2_def)
  have "feesPayments b2 = ps2" by (simp add: b2_def)
  with True call1 call2 batch2 one other inv2 show ?thesis by auto
qed


theorem fee_upsert_single_record_witness:
  "Batch_findById demo_db ''b1'' = Some demo_batch
   \<and> one_fee_per_student demo_db
   \<and> post_fees (\<lambda>i. i \<noteq> []) 100 demo_db None ''b1'' (Some ''s2'') (Some 500) (Some ''online'')
        (Some ''paid'') None
       = (Reject NotFound ''Student not found in this batch'', demo_db)
   \<and> map_option (\<lambda>b. fees_of b ''s1'')
        (Batch_findById
          (snd (post_fees (\<lambda>i. i \<noteq> []) 200
             (snd (post_fees (\<lambda>i. i \<noteq> []) 100 demo_db None ''b1'' (Some ''s1'') (Some 500)
                (Some ''online'') (Some ''pending'') None))
             None ''b1'' (Some ''s1'') (Some 750) (Some ''offline'') (Some ''paid'') (Some ''cash'')))
          ''b1'')
       = Some [\<lparr>fp_student = ''s1'', fp_amount = 750, fp_paymentDate = 200,
                 fp_paymentMethod = ''offline'', fp_status = ''paid'', fp_remarks = ''cash''\<rparr>]"
proof -
  have b: "Batch_findById demo_db ''b1'' = Some demo_batch" by code_simp
  have i: "one_fee_per_student demo_db" by code_simp
  have s2: "''s2'' \<notin> set (students demo_batch)" and s1: "''s1'' \<in> set (students demo_batch)"
    by code_simp+
  have v: "''b1'' \<noteq> []" "(\<lambda>i. i \<noteq> []) ''b1''" "''s2'' \<noteq> []" "(\<lambda>i. i \<noteq> []) ''s2''"
    "''s1'' \<noteq> []" "(\<lambda>i. i \<noteq> []) ''s1''" by simp_all
  have a: "(0::int) < 500" "''online'' \<in> {''online'', ''offline''}"
    "''paid'' \<in> {''paid'', ''pending'', ''overdue''}"
    "''pending'' \<in> {''paid'', ''pending'', ''overdue''}"
    "(0::int) < 750" "''offline'' \<in> {''online'', ''offline''}" by simp_all
  from fee_upsert_single_record [OF v(1,2,3,4) a(1,2,3) a(1,2,3) b i, of 100 None None] s2
  have r1: "post_fees (\<lambda>i. i \<noteq> []) 100 demo_db None ''b1'' (Some ''s2'') (Some 500) (Some ''online'')
        (Some ''paid'') None
       = (Reject NotFound ''Student not found in this batch'', demo_db)" by simp
  from fee_upsert_single_record [OF v(1,2,5,6) a(1,2,4) a(5,6,3) b i,
      of 100 None None 200 None "Some ''cash''"] s1
  obtain ps1 d1 ps2 d2 b2 where
    c1: "post_fees (\<lambda>i. i \<noteq> []) 100 demo_db None ''b1'' (Some ''s1'') (Some 500)
                (Some ''online'') (Some ''pending'') None = (Reply OK ps1, d1)"
    and c2: "post_fees (\<lambda>i. i \<noteq> []) 200 d1 None ''b1'' (Some ''s1'') (Some 750) (Some ''offline'')
                (Some ''paid'') (Some ''cash'') = (Reply OK ps2, d2)"
    and f: "Batch_findById d2 ''b1'' = Some b2"
    and o: "fees_of b2 ''s1'' = [\<lparr>fp_student = ''s1'', fp_amount = 750, fp_paymentDate = 200,
                 fp_paymentMethod = ''offline'', fp_status = ''paid'',
                 fp_remarks = or_else (Some ''cash'') []\<rparr>]"
    by auto
  have "or_else (Some ''cash'') [] = ''cash''" by code_simp
  with b i r1 c1 c2 f o show ?thesis by simp
qed

subsection \<open>Bulk enrolment\<close>

lemma found_ids_distinct:
  "distinct (map u_id (users d)) \<Longrightarrow> distinct (map u_id (User_find_students d ids))"
  by (simp add: User_find_students_def distinct_map_filter)

lemma found_ids_set:
  "u_id ` set (User_find_students d ids) = {i \<in> set ids. resolves d i}"
  by (auto simp: User_find_students_def resolves_def)

lemma found_length:
  assumes "distinct (map u_id (users d))"
  shows "length (User_find_students d ids) = card {i \<in> set ids. resolves d i}"
proof -
  have "length (User_find_students d ids) = length (map u_id (User_find_students d ids))"
    by simp
  also have "\<dots> = card (set (map u_id (User_find_students d ids)))"
    by (rule distinct_card [symmetric]) (rule found_ids_distinct [OF assms])
  also have "\<dots> = card {i \<in> set ids. resolves d i}"
    by (simp add: found_ids_set)
  finally show ?thesis .
qed

lemma found_length_eq_iff:
  assumes "distinct (map u_id (users d))"
  shows "length (User_find_students d ids) = length ids
           \<longleftrightarrow> (\<forall>i \<in> set ids. resolves d i) \<and> distinct ids"
proof
  assume eq: "length (User_find_students d ids) = length ids"
  have sub: "{i \<in> set ids. resolves d i} \<subseteq> set ids" by blast
  have "card {i \<in> set ids. resolves d i} \<le> card (set ids)"
    by (rule card_mono) (use sub in auto)
  moreover have "card (set ids) \<le> length ids" by (rule card_length)
  ultimately have c: "card {i \<in> set ids. resolves d i} = card (set ids)"
    and l: "card (set ids) = length ids"
    using eq found_length [OF assms, of ids] by linarith+
  from c sub have "{i \<in> set ids. resolves d i} = set ids"
    by (intro card_subset_eq) auto
  then have "\<forall>i \<in> set ids. resolves d i" by blast
  moreover from l have "distinct ids" by (simp add: card_distinct)
  ultimately show "(\<forall>i \<in> set ids. resolves d i) \<and> distinct ids" by simp
next
  assume a: "(\<forall>i \<in> set ids. resolves d i) \<and> distinct ids"
  then have "{i \<in> set ids. resolves d i} = set ids" by blast
  with a show "length (User_find_students d ids) = length ids"
    by (simp add: found_length [OF assms] distinct_card)
qed

lemma post_students_unfold:
  assumes "Batch_findById d batchId = Some b" and "studentIds \<noteq> []"
  shows "post_students d auth batchId (Some studentIds) =
     (if length (User_find_students d studentIds) \<noteq> length studentIds
      then (Reject BadRequest ''One or more invalid student IDs'', d)
      else (Reply OK (b\<lparr>students := students b @ filter (\<lambda>i. i \<notin> set (students b)) studentIds\<rparr>),
            Batch_save d
              (b\<lparr>students := students b @ filter (\<lambda>i. i \<notin> set (students b)) studentIds\<rparr>)))"
  using assms by (simp add: post_students_def Let_def)

text \<open>
  Claim C7, as amended: a list that names an id twice is refused as well.  Take an
  existing batch, a list of ids, and stored accounts with pairwise different ids.  An
  empty list is refused with 400 and admits nothing.  For a non-empty list, the bulk add
  succeeds exactly when every id of the list is the
  id of a stored account with role \<open>student\<close> and the list names no id twice; it then
  appends to \<open>batch.students\<close> the ids that are not yet there, in the order of the list,
  so the ids already enrolled are skipped without an error, a duplicate-free
  \<open>batch.students\<close> stays duplicate-free, and a list of enrolled ids only changes
  nothing.  In every other case the request is refused with 400, message
  \<open>One or more invalid student IDs\<close>, and the database is unchanged: no id is admitted.
\<close>

theorem bulk_add_students:
  assumes batch: "Batch_findById d batchId = Some b"
    and users: "distinct (map u_id (users d))"
  shows "if studentIds = []
         then post_students d auth batchId (Some studentIds) =
                (Reject BadRequest ''Invalid student IDs'', d)
         else if (\<forall>i \<in> set studentIds. \<exists>u \<in> set (users d). u_id u = i \<and> u_role u = Student)
            \<and> distinct studentIds
         then (let b1 = b\<lparr>students :=
                          students b @ filter (\<lambda>i. i \<notin> set (students b)) studentIds\<rparr>
               in post_students d auth batchId (Some studentIds) = (Reply OK b1, Batch_save d b1)
                \<and> Batch_findById (Batch_save d b1) batchId = Some b1
                \<and> set (students b1) = set (students b) \<union> set studentIds
                \<and> (distinct (students b) \<longrightarrow> distinct (students b1))
                \<and> (set studentIds \<subseteq> set (students b) \<longrightarrow> students b1 = students b))
         else post_students d auth batchId (Some studentIds) =
                (Reject BadRequest ''One or more invalid student IDs'', d)"
proof (cases "studentIds = []")
  case True
  then show ?thesis by (simp add: post_students_def)
next
  case ne: False
  let ?ok = "(\<forall>i \<in> set studentIds. \<exists>u \<in> set (users d). u_id u = i \<and> u_role u = Student)
            \<and> distinct studentIds"
  have iff: "length (User_find_students d studentIds) = length studentIds \<longleftrightarrow> ?ok"
    using found_length_eq_iff [OF users, of studentIds] by (simp add: resolves_def)
  show ?thesis
  proof (cases ?ok)
    case False
    with iff have "length (User_find_students d studentIds) \<noteq> length studentIds" by blast
    with False ne show ?thesis by (simp add: post_students_unfold [OF batch ne])
  next
    case True
    with iff have len: "length (User_find_students d studentIds) = length studentIds" by blast
    let ?b1 = "b\<lparr>students := students b @ filter (\<lambda>i. i \<notin> set (students b)) studentIds\<rparr>"
    from batch have idb: "b_id b = batchId" by (auto dest: Batch_findById_id)
    have 1: "post_students d auth batchId (Some studentIds) = (Reply OK ?b1, Batch_save d ?b1)"
      using len by (simp add: post_students_unfold [OF batch ne])
    have 2: "Batch_findById (Batch_save d ?b1) batchId = Some ?b1"
      by (rule Batch_findById_save [OF batch]) (simp add: idb)
    have 3: "set (students ?b1) = set (students b) \<union> set studentIds" by auto
    have 4: "distinct (students b) \<longrightarrow> distinct (students ?b1)" using True by auto
    have 5: "set studentIds \<subseteq> set (students b) \<longrightarrow> students ?b1 = students b"
      by (auto simp: filter_empty_conv)
    from True ne 1 2 3 4 5 show ?thesis by (simp add: Let_def)
  qed
qed

theorem bulk_add_students_witness:
  "Batch_findById demo_db ''b1'' = Some demo_batch
   \<and> distinct (map u_id (users demo_db))
   \<and> post_students demo_db None ''b1'' (Some [''s1'', ''s2'']) =
       (Reply OK (demo_batch\<lparr>students := [''s1'', ''s2'']\<rparr>),
        Batch_save demo_db (demo_batch\<lparr>students := [''s1'', ''s2'']\<rparr>))
   \<and> post_students demo_db None ''b1'' (Some [''s2'', ''p1'']) =
       (Reject BadRequest ''One or more invalid student IDs'', demo_db)
   \<and> post_students demo_db None ''b1'' (Some []) =
       (Reject BadRequest ''Invalid student IDs'', demo_db)"
proof -
  have b: "Batch_findById demo_db ''b1'' = Some demo_batch" by code_simp
  have u: "distinct (map u_id (users demo_db))" by code_simp
  have ok: "(\<forall>i \<in> set [''s1'', ''s2'']. \<exists>u \<in> set (users demo_db). u_id u = i \<and> u_role u = Student)
            \<and> distinct [''s1'', ''s2'']" by code_simp
  have bad: "\<not> ((\<forall>i \<in> set [''s2'', ''p1'']. \<exists>u \<in> set (users demo_db). u_id u = i \<and> u_role u = Student)
            \<and> distinct [''s2'', ''p1''])" by code_simp
  have new: "students demo_batch @ filter (\<lambda>i. i \<notin> set (students demo_batch)) [''s1'', ''s2'']
               = [''s1'', ''s2'']" by code_simp
  from bulk_add_students [OF b u, of "[''s1'', ''s2'']" None] ok new
  have 1: "post_students demo_db None ''b1'' (Some [''s1'', ''s2'']) =
       (Reply OK (demo_batch\<lparr>students := [''s1'', ''s2'']\<rparr>),
        Batch_save demo_db (demo_batch\<lparr>students := [''s1'', ''s2'']\<rparr>))"
    by (simp add: Let_def)
  from bulk_add_students [OF b u, of "[''s2'', ''p1'']" None] bad
  have 2: "post_students demo_db None ''b1'' (Some [''s2'', ''p1'']) =
       (Reject BadRequest ''One or more invalid student IDs'', demo_db)"
    by simp
  from bulk_add_students [OF b u, of "[]" None]
  have 3: "post_students demo_db None ''b1'' (Some []) =
       (Reject BadRequest ''Invalid student IDs'', demo_db)"
    by simp
  from b u 1 2 3 show ?thesis by simp
qed

text \<open>
  Claim C7 as stated fails: student \<open>s1\<close> is a stored account with role \<open>student\<close> and
  is enrolled in batch \<open>b1\<close>.  A bulk add that names \<open>s1\<close> twice holds only ids that
  resolve to students and are already present, yet it is not skipped without an error:
  the reply is 400, \<open>One or more invalid student IDs\<close>.
\<close>

theorem bulk_add_repeated_id_counterexample:
  "Batch_findById demo_db ''b1'' = Some demo_batch
   \<and> students demo_batch = [''s1'']
   \<and> map (\<lambda>i. map u_role (filter (\<lambda>u. u_id u = i) (users demo_db))) [''s1'', ''s1''] =
       [[Student], [Student]]
   \<and> post_students demo_db None ''b1'' (Some [''s1'', ''s1'']) =
       (Reject BadRequest ''One or more invalid student IDs'', demo_db)"
  by code_simp

subsection \<open>Timetable hours\<close>

lemma validate_entries_Inr:
  "validate_entries es = Inr xs \<Longrightarrow>
     (\<forall>e \<in> set es. \<not> bad_entry e) \<and> (\<forall>x \<in> set xs. 1 \<le> hour x \<and> hour x \<le> 8 \<and> subject x \<noteq> [])
     \<and> map hour xs = map (\<lambda>e. case ei_hour e of None \<Rightarrow> 0 | Some h \<Rightarrow> h) es"
proof (induction es arbitrary: xs)
  case Nil
  then show ?case by simp
next
  case (Cons e es)
  then show ?case
    by (auto simp: bad_entry_def truthy_num_def truthy_def
        split: option.splits if_splits sum.splits)
qed

lemma validate_entries_Inl:
  "validate_entries es = Inl m \<Longrightarrow> \<exists>e \<in> set es. bad_entry e"
proof (induction es)
  case Nil
  then show ?case by simp
next
  case (Cons e es)
  then show ?case
    by (auto simp: bad_entry_def truthy_num_def truthy_def
        split: option.splits if_splits sum.splits)
qed

lemma validate_entries_bad:
  "(\<exists>e \<in> set es. bad_entry e) \<longleftrightarrow> (\<exists>m. validate_entries es = Inl m)"
proof
  assume "\<exists>e \<in> set es. bad_entry e"
  then show "\<exists>m. validate_entries es = Inl m"
    by (cases "validate_entries es") (auto dest: validate_entries_Inr)
next
  assume "\<exists>m. validate_entries es = Inl m"
  then show "\<exists>e \<in> set es. bad_entry e" by (auto dest: validate_entries_Inl)
qed


lemma day_get_set: "day_get (day_set t dy es) dy' = (if dy' = dy then es else day_get t dy')"
  by (cases dy; cases dy') simp_all

lemma day_get_empty: "day_get empty_timetable dy = []"
  by (cases dy) (simp_all add: empty_timetable_def)

lemma hours_positive_set_day:
  assumes inv: "hours_positive d" and batch: "Batch_findById d batchId = Some b"
    and es: "\<forall>e \<in> set es. 1 \<le> hour e"
  shows "hours_positive (Batch_save d (b\<lparr>timetable := (day_set (timetable b) dy es)\<rparr>))"
proof -
  from batch have memb: "b \<in> set (batches d)" by (auto dest: Batch_findById_id)
  with inv have old: "\<forall>dy'. \<forall>e \<in> set (day_get (timetable b) dy'). 1 \<le> hour e"
    by (auto simp: hours_positive_def)
  show ?thesis
    unfolding hours_positive_def
  proof (intro ballI allI)
    fix b' dy' e
    assume b': "b' \<in> set (batches (Batch_save d (b\<lparr>timetable := (day_set (timetable b) dy es)\<rparr>)))"
      and e: "e \<in> set (day_get (timetable b') dy')"
    from Batch_save_batches [OF b']
    show "1 \<le> hour e"
    proof
      assume "b' = b\<lparr>timetable := (day_set (timetable b) dy es)\<rparr>"
      with e es old show ?thesis by (auto simp: day_get_set split: if_splits)
    next
      assume "b' \<in> set (batches d)"
      with inv e show ?thesis by (auto simp: hours_positive_def)
    qed
  qed
qed

lemma post_timetable_inv:
  assumes "hours_positive d"
  shows "hours_positive (snd (post_timetable d auth batchId body_day body_entries))"
proof (cases "\<exists>tt. fst (post_timetable d auth batchId body_day body_entries) = Reply OK tt")
  case False
  then have "snd (post_timetable d auth batchId body_day body_entries) = d"
    by (auto simp: post_timetable_def Let_def split: option.splits sum.splits)
  with assms show ?thesis by simp
next
  case True
  then obtain dayName dy ins es b where
    "body_day = Some dayName" "validDay dayName = Some dy" "body_entries = Some ins"
    and v: "validate_entries ins = Inr es" and batch: "Batch_findById d batchId = Some b"
    and r: "snd (post_timetable d auth batchId body_day body_entries) =
          Batch_save d (b\<lparr>timetable := (day_set (timetable b) dy es)\<rparr>)"
    by (auto simp: post_timetable_def Let_def split: option.splits sum.splits)
  from v have "\<forall>e \<in> set es. 1 \<le> hour e" by (auto dest: validate_entries_Inr)
  from hours_positive_set_day [OF assms batch this] r show ?thesis by simp
qed

lemma upsert_entry_hours:
  assumes "\<forall>e \<in> set xs. 1 \<le> hour e" and "1 \<le> h"
  shows "\<forall>e \<in> set (upsert_entry xs h s t st en). 1 \<le> hour e"
proof (cases "findIndex (\<lambda>e. hour e = h) xs")
  case None
  with assms show ?thesis by (simp add: upsert_entry_def)
next
  case (Some i)
  then have i: "i < length xs" "hour (xs ! i) = h" by (auto dest: findIndex_Some_less)
  have "set (xs[i := update_entry (xs ! i) s t st en])
          \<subseteq> insert (update_entry (xs ! i) s t st en) (set xs)"
    by (rule set_update_subset_insert)
  moreover have "hour (update_entry (xs ! i) s t st en) = h"
    using i by (simp add: update_entry_def)
  ultimately show ?thesis using assms Some by (auto simp: upsert_entry_def)
qed

lemma put_timetable_entry_inv:
  assumes "hours_positive d"
  shows "hours_positive (snd (put_timetable_entry d auth batchId param_day param_hour subj t st en))"
proof (cases "\<exists>tt. fst (put_timetable_entry d auth batchId param_day param_hour subj t st en) = Reply OK tt")
  case False
  then have "snd (put_timetable_entry d auth batchId param_day param_hour subj t st en) = d"
    by (auto simp: put_timetable_entry_def Let_def split: option.splits if_splits)
  with assms show ?thesis by simp
next
  case True
  then obtain dy h b where
    "validDay param_day = Some dy" "param_hour = Some h" and h: "1 \<le> h"
    and batch: "Batch_findById d batchId = Some b"
    and r: "snd (put_timetable_entry d auth batchId param_day param_hour subj t st en) =
          Batch_save d (b\<lparr>timetable := (day_set (timetable b) dy
             (upsert_entry (day_get (timetable b) dy) h (or_else subj []) t st en))\<rparr>)"
    by (auto simp: put_timetable_entry_def Let_def split: option.splits if_splits)
  from batch have "b \<in> set (batches d)" by (auto dest: Batch_findById_id)
  with assms have "\<forall>e \<in> set (day_get (timetable b) dy). 1 \<le> hour e"
    by (auto simp: hours_positive_def)
  from upsert_entry_hours [OF this h]
  have "\<forall>e \<in> set (upsert_entry (day_get (timetable b) dy) h (or_else subj []) t st en). 1 \<le> hour e" .
  from hours_positive_set_day [OF assms batch this] r show ?thesis by simp
qed

lemma delete_timetable_entry_inv:
  assumes "hours_positive d"
  shows "hours_positive (snd (delete_timetable_entry d auth batchId param_day param_hour))"
proof (cases "\<exists>tt. fst (delete_timetable_entry d auth batchId param_day param_hour) = Reply OK tt")
  case False
  then have "snd (delete_timetable_entry d auth batchId param_day param_hour) = d"
    by (auto simp: delete_timetable_entry_def Let_def split: option.splits if_splits)
  with assms show ?thesis by simp
next
  case True
  then have "\<exists>dy b i. Batch_findById d batchId = Some b
    \<and> snd (delete_timetable_entry d auth batchId param_day param_hour) =
          Batch_save d
            (b\<lparr>timetable := day_set (timetable b) dy (splice1 i (day_get (timetable b) dy))\<rparr>)"
    by (auto simp: delete_timetable_entry_def Let_def split: option.splits if_splits)
  then obtain dy b i where
    batch: "Batch_findById d batchId = Some b"
    and r: "snd (delete_timetable_entry d auth batchId param_day param_hour) =
          Batch_save d
            (b\<lparr>timetable := day_set (timetable b) dy (splice1 i (day_get (timetable b) dy))\<rparr>)"
    by blast
  from batch have "b \<in> set (batches d)" by (auto dest: Batch_findById_id)
  with assms have old: "\<forall>e \<in> set (day_get (timetable b) dy). 1 \<le> hour e"
    by (auto simp: hours_positive_def)
  have "set (splice1 i (day_get (timetable b) dy)) \<subseteq> set (day_get (timetable b) dy)"
    by (auto simp: splice1_def dest: in_set_takeD in_set_dropD)
  with old have "\<forall>e \<in> set (splice1 i (day_get (timetable b) dy)). 1 \<le> hour e" by auto
  from hours_positive_set_day [OF assms batch this, of dy] r show ?thesis by simp
qed

lemma delete_timetable_day_inv:
  assumes "hours_positive d"
  shows "hours_positive (snd (delete_timetable_day d auth batchId param_day))"
proof (cases "\<exists>tt. fst (delete_timetable_day d auth batchId param_day) = Reply OK tt")
  case False
  then have "snd (delete_timetable_day d auth batchId param_day) = d"
    by (auto simp: delete_timetable_day_def Let_def split: option.splits if_splits)
  with assms show ?thesis by simp
next
  case True
  then obtain dy b where
    batch: "Batch_findById d batchId = Some b"
    and r: "snd (delete_timetable_day d auth batchId param_day) =
          Batch_save d (b\<lparr>timetable := (day_set (timetable b) dy [])\<rparr>)"
    by (auto simp: delete_timetable_day_def Let_def split: option.splits if_splits)
  from hours_positive_set_day [OF assms batch, of "[]" dy] r show ?thesis by simp
qed

lemma post_batches_inv:
  assumes "hours_positive d"
  shows "hours_positive (snd (post_batches toUpperCase d new_id body))"
  using assms
  by (auto simp: post_batches_def hours_positive_def Let_def Batch_create_def day_get_empty
      split: option.splits)

lemma timetable_reachable_hours: "timetable_reachable d \<Longrightarrow> hours_positive d"
proof (induction rule: timetable_reachable.induct)
  case (start d)
  then show ?case by (auto simp: hours_positive_def day_get_empty)
next
  case (create d new_id body)
  then show ?case by (simp add: post_batches_inv)
next
  case (set_day d authHeader batchId body_day body_entries)
  then show ?case by (simp add: post_timetable_inv)
next
  case (upsert d authHeader batchId param_day param_hour body_subject body_teacher body_startTime body_endTime)
  then show ?case by (simp add: put_timetable_entry_inv)
next
  case (delete_entry d authHeader batchId param_day param_hour)
  then show ?case by (simp add: delete_timetable_entry_inv)
next
  case (clear_day d authHeader batchId param_day)
  then show ?case by (simp add: delete_timetable_day_inv)
next
  case (other d d')
  show ?case
    unfolding hours_positive_def
  proof (intro ballI allI)
    fix b' dy e
    assume b': "b' \<in> set (batches d')" and e: "e \<in> set (day_get (timetable b') dy)"
    from b' other.hyps(2) obtain b where b: "b \<in> set (batches d)" "timetable b = timetable b'"
      by (metis (no_types, lifting) image_iff subsetD)
    with other.IH e show "1 \<le> hour e" by (auto simp: hours_positive_def)
  qed
qed


lemma post_timetable_bad:
  assumes "\<exists>e \<in> set ins. bad_entry e" and "validDay dayName \<noteq> None"
  shows "\<exists>m. post_timetable d auth batchId (Some dayName) (Some ins) = (Reject BadRequest m, d)"
proof -
  from assms(1) obtain m where "validate_entries ins = Inl m"
    by (auto simp: validate_entries_bad)
  with assms(2) show ?thesis by (auto simp: post_timetable_def)
qed

lemma post_timetable_stored:
  assumes "post_timetable d auth batchId (Some dayName) (Some ins) = (Reply OK tt, d1)"
  shows "\<exists>dy. validDay dayName = Some dy
           \<and> (\<forall>e \<in> set (day_get tt dy). 1 \<le> hour e \<and> hour e \<le> 8 \<and> subject e \<noteq> [])"
proof -
  from assms have "\<exists>dy es b. Batch_findById d batchId = Some b \<and> validDay dayName = Some dy
    \<and> validate_entries ins = Inr es \<and> tt = day_set (timetable b) dy es"
    by (auto simp: post_timetable_def Let_def split: option.splits sum.splits)
  then obtain dy es and b :: batch where dy: "validDay dayName = Some dy"
    and v: "validate_entries ins = Inr es" and tt: "tt = day_set (timetable b) dy es"
    by blast
  from v have "\<forall>x \<in> set es. 1 \<le> hour x \<and> hour x \<le> 8 \<and> subject x \<noteq> []"
    by (auto dest: validate_entries_Inr)
  with dy tt show ?thesis by (simp add: day_get_set)
qed

lemma put_timetable_entry_low:
  assumes "case param_hour of None \<Rightarrow> True | Some h \<Rightarrow> h < 1"
  shows "\<exists>st m. put_timetable_entry d auth batchId param_day param_hour subj t s e = (Reject st m, d)"
  using assms by (auto simp: put_timetable_entry_def Let_def split: option.splits)

lemma put_timetable_entry_low_400:
  assumes "case param_hour of None \<Rightarrow> True | Some h \<Rightarrow> h < 1"
    and "startsWith_Bearer auth" and "AdminUser_findById d (bearer auth) \<noteq> None"
    and "truthy subj" and "validDay param_day \<noteq> None"
  shows "put_timetable_entry d auth batchId param_day param_hour subj t s e =
           (Reject BadRequest ''Hour must be a positive number'', d)"
  using assms by (auto simp: put_timetable_entry_def Let_def split: option.splits)

lemma demo_nine_run:
  "put_timetable_entry demo_db (Some ''Bearer t1'') ''b1'' ''Monday'' (Some 9) (Some ''Art'') None
      None None
     = (Reply OK (empty_timetable\<lparr>monday := [stored_entry 9 ''Art'']\<rparr>), demo_db_nine)"
  by code_simp

lemma demo_nine_reachable: "timetable_reachable demo_db_nine"
proof -
  have "timetable_reachable demo_db" by (rule timetable_reachable.start) code_simp
  then have "timetable_reachable (snd (put_timetable_entry demo_db (Some ''Bearer t1'') ''b1''
      ''Monday'' (Some 9) (Some ''Art'') None None None))"
    by (rule timetable_reachable.upsert)
  then show ?thesis by (simp add: demo_nine_run)
qed

text \<open>
  Claim C5, at a failing input.  The owner of batch \<open>b1\<close> sends the per-slot update
  \<open>PUT /batches/b1/timetable/Monday/9\<close> with subject \<open>Art\<close>.  The handler answers 200
  and the batch it saves holds a Monday entry with hour 9.  The sibling handlers refuse
  that hour: the whole-day replacement answers 400, \<open>Hour must be between 1 and 8\<close>,
  to an entry with hour 9, and the per-slot deletion answers 400,
  \<open>Hour must be a number between 1 and 8\<close>, so the stored entry cannot be deleted by
  its slot.
\<close>

theorem upsert_stores_hour_nine:
  "put_timetable_entry demo_db (Some ''Bearer t1'') ''b1'' ''Monday'' (Some 9) (Some ''Art'') None
      None None
     = (Reply OK (empty_timetable\<lparr>monday := [stored_entry 9 ''Art'']\<rparr>), demo_db_nine)
   \<and> map_option (\<lambda>b. map hour (day_get (timetable b) Monday))
        (Batch_findById demo_db_nine ''b1'') = Some [9]
   \<and> post_timetable demo_db None ''b1'' (Some ''Monday'') (Some [demo_entry 9 ''Art''])
     = (Reject BadRequest ''Hour must be between 1 and 8'', demo_db)
   \<and> delete_timetable_entry demo_db_nine (Some ''Bearer t1'') ''b1'' ''Monday'' (Some 9)
     = (Reject BadRequest ''Hour must be a number between 1 and 8'', demo_db_nine)"
  by code_simp

text \<open>
  The part of the bound that all handlers keep.  On every database the handlers can
  reach, every stored timetable entry has an hour of at least 1.  The whole-day
  replacement refuses, with 400 and an unchanged database, every request (for a valid
  day) that holds an entry whose hour is missing, zero or outside 1..8 or whose subject
  is missing or empty, and what it stores has hours within 1..8 and non-empty subjects.
  The per-slot update refuses, with an unchanged database, every hour that is not a
  number or is below 1 (with 400 and the message \<open>Hour must be a positive number\<close> once
  the caller's header, the subject and the day have passed their checks).
\<close>

theorem timetable_hours_at_least_one:
  assumes "timetable_reachable d"
  shows "hours_positive d
     \<and> ((\<exists>e \<in> set ins. bad_entry e) \<and> validDay dayName \<noteq> None \<longrightarrow>
          (\<exists>m. post_timetable d auth batchId (Some dayName) (Some ins) = (Reject BadRequest m, d)))
     \<and> (\<forall>tt d1. post_timetable d auth batchId (Some dayName) (Some ins) = (Reply OK tt, d1) \<longrightarrow>
          (\<exists>dy. validDay dayName = Some dy
             \<and> (\<forall>e \<in> set (day_get tt dy). 1 \<le> hour e \<and> hour e \<le> 8 \<and> subject e \<noteq> [])))
     \<and> ((case param_hour of None \<Rightarrow> True | Some h \<Rightarrow> h < 1) \<longrightarrow>
          (\<exists>st m. put_timetable_entry d auth2 batchId2 param_day param_hour subj t s e
                    = (Reject st m, d))
          \<and> (startsWith_Bearer auth2 \<and> AdminUser_findById d (bearer auth2) \<noteq> None
               \<and> truthy subj \<and> validDay param_day \<noteq> None \<longrightarrow>
             put_timetable_entry d auth2 batchId2 param_day param_hour subj t s e
               = (Reject BadRequest ''Hour must be a positive number'', d)))"
proof (intro conjI impI allI)
  from assms show "hours_positive d" by (rule timetable_reachable_hours)
next
  assume "(\<exists>e \<in> set ins. bad_entry e) \<and> validDay dayName \<noteq> None"
  then show "\<exists>m. post_timetable d auth batchId (Some dayName) (Some ins) = (Reject BadRequest m, d)"
    by (intro post_timetable_bad) simp_all
next
  fix tt d1
  assume "post_timetable d auth batchId (Some dayName) (Some ins) = (Reply OK tt, d1)"
  then show "\<exists>dy. validDay dayName = Some dy
             \<and> (\<forall>e \<in> set (day_get tt dy). 1 \<le> hour e \<and> hour e \<le> 8 \<and> subject e \<noteq> [])"
    by (rule post_timetable_stored)
next
  assume "case param_hour of None \<Rightarrow> True | Some h \<Rightarrow> h < 1"
  then show "\<exists>st m. put_timetable_entry d auth2 batchId2 param_day param_hour subj t s e
                    = (Reject st m, d)"
    by (rule put_timetable_entry_low)
next
  assume "case param_hour of None \<Rightarrow> True | Some h \<Rightarrow> h < 1"
    and "startsWith_Bearer auth2 \<and> AdminUser_findById d (bearer auth2) \<noteq> None
               \<and> truthy subj \<and> validDay param_day \<noteq> None"
  then show "put_timetable_entry d auth2 batchId2 param_day param_hour subj t s e
               = (Reject BadRequest ''Hour must be a positive number'', d)"
    by (intro put_timetable_entry_low_400) simp_all
qed

theorem timetable_hours_at_least_one_witness:
  "hours_positive demo_db_nine
   \<and> post_timetable demo_db_nine None ''b1'' (Some ''Tuesday'')
        (Some [demo_entry 2 ''Maths'', demo_entry 9 ''Art''])
       = (Reject BadRequest ''Hour must be between 1 and 8'', demo_db_nine)
   \<and> put_timetable_entry demo_db_nine (Some ''Bearer t1'') ''b1'' ''tuesday'' (Some 0)
        (Some ''Art'') None None None
       = (Reject BadRequest ''Hour must be a positive number'', demo_db_nine)"
proof -
  have r: "timetable_reachable demo_db_nine" by (rule demo_nine_reachable)
  have b: "\<exists>e \<in> set [demo_entry 2 ''Maths'', demo_entry 9 ''Art'']. bad_entry e" by code_simp
  have v: "validDay ''Tuesday'' \<noteq> None" "validDay ''tuesday'' \<noteq> None" by code_simp+
  have h: "startsWith_Bearer (Some ''Bearer t1'')"
    "AdminUser_findById demo_db_nine (bearer (Some ''Bearer t1'')) \<noteq> None"
    "truthy (Some ''Art'')" by code_simp+
  have l: "case Some (0::int) of None \<Rightarrow> True | Some h \<Rightarrow> h < 1" by simp
  have m: "post_timetable demo_db_nine None ''b1'' (Some ''Tuesday'')
        (Some [demo_entry 2 ''Maths'', demo_entry 9 ''Art''])
       = (Reject BadRequest ''Hour must be between 1 and 8'', demo_db_nine)" by code_simp
  from timetable_hours_at_least_one [OF r, of "[demo_entry 2 ''Maths'', demo_entry 9 ''Art'']"
      "''Tuesday''" None "''b1''" "Some 0" "Some ''Bearer t1''" "''b1''" "''tuesday''"
      "Some ''Art''" None None None] b v h l m
  show ?thesis by simp
qed

subsection \<open>Timetable: per-slot update\<close>

lemma upsert_presort_one:
  assumes "length (filter (\<lambda>e. hour e = h) xs) \<le> 1"
  shows "\<exists>e. filter (\<lambda>e. hour e = h)
           (case findIndex (\<lambda>e. hour e = h) xs of
              None \<Rightarrow> xs @ [\<lparr>hour = h, subject = s, teacher = t, startTime = st, endTime = en\<rparr>]
            | Some i \<Rightarrow> xs[i := update_entry (xs ! i) s t st en]) = [e] \<and> subject e = s"
  using assms
proof (induction xs)
  case Nil
  then show ?case by simp
next
  case (Cons x xs)
  show ?case
  proof (cases "hour x = h")
    case True
    with Cons.prems have "filter (\<lambda>e. hour e = h) xs = []" by simp
    with True show ?thesis by (simp add: update_entry_def)
  next
    case False
    with Cons.prems have "length (filter (\<lambda>e. hour e = h) xs) \<le> 1" by simp
    from Cons.IH [OF this] False show ?thesis
      by (cases "findIndex (\<lambda>e. hour e = h) xs") auto
  qed
qed

lemma upsert_entry_one:
  assumes "length (filter (\<lambda>e. hour e = h) xs) \<le> 1"
  shows "\<exists>e. filter (\<lambda>e. hour e = h) (upsert_entry xs h s t st en) = [e] \<and> subject e = s"
proof -
  from upsert_presort_one [OF assms, of s t st en] obtain e where
    e: "filter (\<lambda>e. hour e = h)
           (case findIndex (\<lambda>e. hour e = h) xs of
              None \<Rightarrow> xs @ [\<lparr>hour = h, subject = s, teacher = t, startTime = st, endTime = en\<rparr>]
            | Some i \<Rightarrow> xs[i := update_entry (xs ! i) s t st en]) = [e]" and "subject e = s"
    by blast
  then show ?thesis
    by (auto simp: upsert_entry_def filter_sort)
qed

lemma upsert_entry_sorted: "sorted (map hour (upsert_entry xs h s t st en))"
  by (simp add: upsert_entry_def)

lemma put_timetable_entry_ok:
  assumes "startsWith_Bearer auth" and "AdminUser_findById d (bearer auth) = Some a"
    and "Batch_findById d batchId = Some b" and "teacher_id b = bearer auth"
    and "validDay param_day = Some dy" and "1 \<le> h" and "subj \<noteq> []"
  shows "put_timetable_entry d auth batchId param_day (Some h) (Some subj) t st en =
     (Reply OK (day_set (timetable b) dy (upsert_entry (day_get (timetable b) dy) h subj t st en)),
      Batch_save d (b\<lparr>timetable := (day_set (timetable b) dy
         (upsert_entry (day_get (timetable b) dy) h subj t st en))\<rparr>))"
  using assms by (simp add: put_timetable_entry_def Let_def)

lemma put_timetable_entry_sorted:
  assumes "put_timetable_entry d auth batchId param_day param_hour subj t st en = (Reply OK tt, d1)"
  shows "\<exists>dy. validDay param_day = Some dy \<and> sorted (map hour (day_get tt dy))"
proof -
  from assms have "\<exists>dy h b. Batch_findById d batchId = Some b \<and> param_hour = Some h
    \<and> validDay param_day = Some dy
    \<and> tt = day_set (timetable b) dy
             (upsert_entry (day_get (timetable b) dy) h (or_else subj []) t st en)"
    by (auto simp: put_timetable_entry_def Let_def split: option.splits if_splits)
  then obtain dy h and b :: batch where "validDay param_day = Some dy"
    "tt = day_set (timetable b) dy (upsert_entry (day_get (timetable b) dy) h (or_else subj []) t st en)"
    by blast
  then show ?thesis by (simp add: day_get_set upsert_entry_sorted)
qed

lemma AdminUser_findById_save [simp]:
  "AdminUser_findById (Batch_save d b) i = AdminUser_findById d i"
  by (simp add: AdminUser_findById_def Batch_save_def)

text \<open>
  Claim C6, as amended.  Let the owner of an existing batch send two per-slot updates for
  the same valid day and the same hour (at least 1), each with a non-empty subject, and
  let the day's stored list hold at most one entry of that hour beforehand.  Both
  updates succeed; afterwards the stored list of the day holds exactly one entry of that
  hour, with the subject of the second update.  After every successful per-slot update,
  whatever the list was before, the day's list is sorted by hour in ascending order.
\<close>

theorem timetable_upsert_twice:
  assumes hdr: "startsWith_Bearer auth" and tch: "AdminUser_findById d (bearer auth) = Some a"
    and batch: "Batch_findById d batchId = Some b" and own: "teacher_id b = bearer auth"
    and dy: "validDay param_day = Some dy" and h: "1 \<le> h"
    and s1: "subj1 \<noteq> []" and s2: "subj2 \<noteq> []"
    and once: "length (filter (\<lambda>e. hour e = h) (day_get (timetable b) dy)) \<le> 1"
  shows "(\<exists>tt1 d1 tt2 d2 e.
       put_timetable_entry d auth batchId param_day (Some h) (Some subj1) t1 st1 en1
         = (Reply OK tt1, d1)
     \<and> put_timetable_entry d1 auth batchId param_day (Some h) (Some subj2) t2 st2 en2
         = (Reply OK tt2, d2)
     \<and> map_option timetable (Batch_findById d2 batchId) = Some tt2
     \<and> filter (\<lambda>e. hour e = h) (day_get tt2 dy) = [e] \<and> subject e = subj2
     \<and> sorted (map hour (day_get tt1 dy)) \<and> sorted (map hour (day_get tt2 dy)))
   \<and> (\<forall>d' auth' batchId' hour' subj' t' st' en' tt' d1'.
        put_timetable_entry d' auth' batchId' param_day hour' subj' t' st' en' = (Reply OK tt', d1')
        \<longrightarrow> sorted (map hour (day_get tt' dy)))"
proof (intro conjI allI impI)
  define xs1 where "xs1 = upsert_entry (day_get (timetable b) dy) h subj1 t1 st1 en1"
  define tt1 where "tt1 = day_set (timetable b) dy xs1"
  define b1 where "b1 = b\<lparr>timetable := tt1\<rparr>"
  define d1 where "d1 = Batch_save d b1"
  define xs2 where "xs2 = upsert_entry (day_get (timetable b1) dy) h subj2 t2 st2 en2"
  define tt2 where "tt2 = day_set (timetable b1) dy xs2"
  define b2 where "b2 = b1\<lparr>timetable := tt2\<rparr>"
  define d2 where "d2 = Batch_save d1 b2"
  from batch have idb: "b_id b = batchId" by (auto dest: Batch_findById_id)
  have c1: "put_timetable_entry d auth batchId param_day (Some h) (Some subj1) t1 st1 en1
         = (Reply OK tt1, d1)"
    unfolding tt1_def d1_def b1_def xs1_def
    by (rule put_timetable_entry_ok [OF hdr tch batch own dy h s1])
  have batch1: "Batch_findById d1 batchId = Some b1"
    unfolding d1_def by (rule Batch_findById_save [OF batch]) (simp add: b1_def idb)
  have tch1: "AdminUser_findById d1 (bearer auth) = Some a" using tch by (simp add: d1_def)
  have own1: "teacher_id b1 = bearer auth" using own by (simp add: b1_def)
  have c2: "put_timetable_entry d1 auth batchId param_day (Some h) (Some subj2) t2 st2 en2
         = (Reply OK tt2, d2)"
    unfolding tt2_def d2_def b2_def xs2_def
    by (rule put_timetable_entry_ok [OF hdr tch1 batch1 own1 dy h s2])
  have "Batch_findById d2 batchId = Some b2"
    unfolding d2_def by (rule Batch_findById_save [OF batch1]) (simp add: b2_def b1_def idb)
  then have f: "map_option timetable (Batch_findById d2 batchId) = Some tt2"
    by (simp add: b2_def)
  have day1: "day_get (timetable b1) dy = xs1" by (simp add: b1_def tt1_def day_get_set)
  from upsert_entry_one [OF once, of subj1 t1 st1 en1]
  have "length (filter (\<lambda>e. hour e = h) xs1) \<le> 1" by (auto simp: xs1_def)
  from upsert_entry_one [OF this, of subj2 t2 st2 en2] obtain e where
    e: "filter (\<lambda>e. hour e = h) xs2 = [e]" "subject e = subj2"
    by (auto simp: xs2_def day1)
  have g2: "day_get tt2 dy = xs2" by (simp add: tt2_def day_get_set)
  have so1: "sorted (map hour (day_get tt1 dy))"
    by (simp add: tt1_def day_get_set xs1_def upsert_entry_sorted)
  have so2: "sorted (map hour (day_get tt2 dy))"
    by (simp add: g2 xs2_def upsert_entry_sorted)
  from c1 c2 f e g2 so1 so2
  show "\<exists>tt1 d1 tt2 d2 e.
       put_timetable_entry d auth batchId param_day (Some h) (Some subj1) t1 st1 en1
         = (Reply OK tt1, d1)
     \<and> put_timetable_entry d1 auth batchId param_day (Some h) (Some subj2) t2 st2 en2
         = (Reply OK tt2, d2)
     \<and> map_option timetable (Batch_findById d2 batchId) = Some tt2
     \<and> filter (\<lambda>e. hour e = h) (day_get tt2 dy) = [e] \<and> subject e = subj2
     \<and> sorted (map hour (day_get tt1 dy)) \<and> sorted (map hour (day_get tt2 dy))"
    by auto
next
  fix d' auth' batchId' hour' subj' t' st' en' tt' d1'
  assume "put_timetable_entry d' auth' batchId' param_day hour' subj' t' st' en' = (Reply OK tt', d1')"
  from put_timetable_entry_sorted [OF this] dy
  show "sorted (map hour (day_get tt' dy))" by auto
qed


text \<open>
  Claim C6 as stated fails: the whole-day replacement stores two entries of hour 3 as
  sent, and two per-slot updates of hour 3 then rewrite the first of them only, so the
  day's list still holds two entries of that hour.
\<close>

theorem timetable_upsert_twice_counterexample:
  "post_timetable demo_db None ''b1'' (Some ''monday'')
      (Some [demo_entry 3 ''Maths'', demo_entry 3 ''Music''])
     = (Reply OK (empty_timetable\<lparr>monday := [stored_entry 3 ''Maths'', stored_entry 3 ''Music'']\<rparr>),
        demo_db_twice)
   \<and> map_option (\<lambda>b. map (\<lambda>e. (hour e, subject e)) (day_get (timetable b) Monday))
        (Batch_findById
          (snd (put_timetable_entry
             (snd (put_timetable_entry demo_db_twice (Some ''Bearer t1'') ''b1'' ''monday'' (Some 3)
                (Some ''Art'') None None None))
             (Some ''Bearer t1'') ''b1'' ''monday'' (Some 3) (Some ''Craft'') None None None))
          ''b1'')
       = Some [(3, ''Craft''), (3, ''Music'')]"
  by code_simp

theorem timetable_upsert_twice_witness:
  "startsWith_Bearer (Some ''Bearer t1'')
   \<and> AdminUser_findById demo_db (bearer (Some ''Bearer t1'')) = Some (demo_admins ! 0)
   \<and> Batch_findById demo_db ''b1'' = Some demo_batch
   \<and> teacher_id demo_batch = bearer (Some ''Bearer t1'')
   \<and> validDay ''Monday'' = Some Monday
   \<and> length (filter (\<lambda>e. hour e = 3) (day_get (timetable demo_batch) Monday)) \<le> 1
   \<and> map_option (\<lambda>b. map subject (filter (\<lambda>e. hour e = 3) (day_get (timetable b) Monday)))
        (Batch_findById
          (snd (put_timetable_entry
             (snd (put_timetable_entry demo_db (Some ''Bearer t1'') ''b1'' ''Monday'' (Some 3)
                (Some ''Art'') None None None))
             (Some ''Bearer t1'') ''b1'' ''Monday'' (Some 3) (Some ''Craft'') None None None))
          ''b1'')
       = Some [''Craft'']"
proof -
  have hdr: "startsWith_Bearer (Some ''Bearer t1'')" by code_simp
  have tch: "AdminUser_findById demo_db (bearer (Some ''Bearer t1'')) = Some (demo_admins ! 0)"
    by code_simp
  have batch: "Batch_findById demo_db ''b1'' = Some demo_batch" by code_simp
  have own: "teacher_id demo_batch = bearer (Some ''Bearer t1'')" by code_simp
  have dy: "validDay ''Monday'' = Some Monday" by code_simp
  have once: "length (filter (\<lambda>e. hour e = 3) (day_get (timetable demo_batch) Monday)) \<le> 1"
    by code_simp
  from timetable_upsert_twice [OF hdr tch batch own dy _ _ _ once,
      of "''Art''" "''Craft''" None None None None None None]
  obtain tt1 d1 tt2 d2 e where
    c1: "put_timetable_entry demo_db (Some ''Bearer t1'') ''b1'' ''Monday'' (Some 3)
                (Some ''Art'') None None None = (Reply OK tt1, d1)"
    and c2: "put_timetable_entry d1 (Some ''Bearer t1'') ''b1'' ''Monday'' (Some 3) (Some ''Craft'')
                None None None = (Reply OK tt2, d2)"
    and f: "map_option timetable (Batch_findById d2 ''b1'') = Some tt2"
    and e: "filter (\<lambda>e. hour e = 3) (day_get tt2 Monday) = [e]" "subject e = ''Craft''"
    by auto
  from f obtain b2 where b2: "Batch_findById d2 ''b1'' = Some b2" "timetable b2 = tt2"
    by auto
  with c1 c2 e hdr tch batch own dy once show ?thesis by simp
qed

subsection \<open>Read handlers without credentials\<close>

text \<open>
  Claim C10.  The four read handlers for a batch's details, announcements, timetable and
  fee list give the same reply whatever the \<open>Authorization\<close> header is, also when
  there is none: their replies are equal for any two headers, and none of them is a 401
  or a 403.  For a stored batch (and, for the fee list, a batch id of ObjectId form) the
  reply without any credential is 200 with the full data, written out here in terms of
  the stored documents: the batch's own fields with the teacher's and the students' id,
  name and email looked up in their collections, every announcement with its teacher
  looked up, the six days of the timetable, and every fee record with all its fields and
  the student looked up.
\<close>

theorem batch_reads_ignore_credentials:
  "get_batch d auth1 batchId = get_batch d auth2 batchId
   \<and> get_announcements d auth1 batchId = get_announcements d auth2 batchId
   \<and> get_timetable d auth1 batchId = get_timetable d auth2 batchId
   \<and> get_fees isValid d auth1 batchId = get_fees isValid d auth2 batchId
   \<and> (\<forall>st m. st = Unauthorized \<or> st = Forbidden \<longrightarrow>
          get_batch d auth1 batchId \<noteq> Reject st m
        \<and> get_announcements d auth1 batchId \<noteq> Reject st m
        \<and> get_timetable d auth1 batchId \<noteq> Reject st m
        \<and> get_fees isValid d auth1 batchId \<noteq> Reject st m)
   \<and> (find (\<lambda>x. b_id x = batchId) (batches d) = Some b \<longrightarrow>
        get_batch d None batchId =
          Reply OK
            \<lparr>bv_id = b_id b, bv_name = b_name b, bv_batch_code = batch_code b,
             bv_class = b_class b,
             bv_teacher_id =
               map_option (\<lambda>a. \<lparr>p_id = au_id a, p_name = au_name a, p_email = au_email a\<rparr>)
                 (find (\<lambda>a. au_id a = teacher_id b) (adminUsers d)),
             bv_students =
               List.map_filter
                 (\<lambda>i. map_option (\<lambda>u. \<lparr>p_id = u_id u, p_name = u_name u, p_email = u_email u\<rparr>)
                        (find (\<lambda>u. u_id u = i) (users d)))
                 (students b),
             bv_announcements = announcements b, bv_timetable = timetable b\<rparr>
        \<and> get_announcements d None batchId =
          Reply OK
            (map (\<lambda>n. \<lparr>av_id = an_id n, av_title = an_title n, av_content = an_content n,
                        av_teacher_id =
                          map_option
                            (\<lambda>a. \<lparr>p_id = au_id a, p_name = au_name a, p_email = au_email a\<rparr>)
                            (find (\<lambda>a. au_id a = an_teacher_id n) (adminUsers d)),
                        av_createdAt = an_createdAt n\<rparr>)
               (announcements b))
        \<and> get_timetable d None batchId =
          Reply OK
            \<lparr>monday = monday (timetable b), tuesday = tuesday (timetable b),
             wednesday = wednesday (timetable b), thursday = thursday (timetable b),
             friday = friday (timetable b), saturday = saturday (timetable b)\<rparr>
        \<and> (batchId \<noteq> [] \<and> isValid batchId \<longrightarrow>
             get_fees isValid d None batchId =
               Reply OK
                 (map (\<lambda>p. \<lparr>fv_student =
                               map_option
                                 (\<lambda>u. \<lparr>p_id = u_id u, p_name = u_name u, p_email = u_email u\<rparr>)
                                 (find (\<lambda>u. u_id u = fp_student p) (users d)),
                             fv_amount = fp_amount p, fv_paymentDate = fp_paymentDate p,
                             fv_paymentMethod = fp_paymentMethod p, fv_status = fp_status p,
                             fv_remarks = fp_remarks p\<rparr>)
                    (feesPayments b))))"
proof (intro conjI allI impI)
  show "get_batch d auth1 batchId = get_batch d auth2 batchId"
    by (simp add: get_batch_def)
  show "get_announcements d auth1 batchId = get_announcements d auth2 batchId"
    by (simp add: get_announcements_def)
  show "get_timetable d auth1 batchId = get_timetable d auth2 batchId"
    by (simp add: get_timetable_def)
  show "get_fees isValid d auth1 batchId = get_fees isValid d auth2 batchId"
    by (simp add: get_fees_def)
next
  fix st :: http_status and m
  assume st: "st = Unauthorized \<or> st = Forbidden"
  then show "get_batch d auth1 batchId \<noteq> Reject st m"
    by (auto simp: get_batch_def split: option.splits)
  from st show "get_announcements d auth1 batchId \<noteq> Reject st m"
    by (auto simp: get_announcements_def split: option.splits)
  from st show "get_timetable d auth1 batchId \<noteq> Reject st m"
    by (auto simp: get_timetable_def split: option.splits)
  from st show "get_fees isValid d auth1 batchId \<noteq> Reject st m"
    by (auto simp: get_fees_def split: option.splits if_splits)
next
  have pu: "populate_user d =
      (\<lambda>i. map_option (\<lambda>u. \<lparr>p_id = u_id u, p_name = u_name u, p_email = u_email u\<rparr>)
             (find (\<lambda>u. u_id u = i) (users d)))"
    by (rule ext) (simp add: populate_user_def User_findById_def)
  assume b: "find (\<lambda>x. b_id x = batchId) (batches d) = Some b"
  then show "get_batch d None batchId =
          Reply OK
            \<lparr>bv_id = b_id b, bv_name = b_name b, bv_batch_code = batch_code b,
             bv_class = b_class b,
             bv_teacher_id =
               map_option (\<lambda>a. \<lparr>p_id = au_id a, p_name = au_name a, p_email = au_email a\<rparr>)
                 (find (\<lambda>a. au_id a = teacher_id b) (adminUsers d)),
             bv_students =
               List.map_filter
                 (\<lambda>i. map_option (\<lambda>u. \<lparr>p_id = u_id u, p_name = u_name u, p_email = u_email u\<rparr>)
                        (find (\<lambda>u. u_id u = i) (users d)))
                 (students b),
             bv_announcements = announcements b, bv_timetable = timetable b\<rparr>"
    by (simp add: get_batch_def Batch_findById_def populate_admin_def pu
        AdminUser_findById_def)
  from b show "get_announcements d None batchId =
          Reply OK
            (map (\<lambda>n. \<lparr>av_id = an_id n, av_title = an_title n, av_content = an_content n,
                        av_teacher_id =
                          map_option
                            (\<lambda>a. \<lparr>p_id = au_id a, p_name = au_name a, p_email = au_email a\<rparr>)
                            (find (\<lambda>a. au_id a = an_teacher_id n) (adminUsers d)),
                        av_createdAt = an_createdAt n\<rparr>)
               (announcements b))"
    by (simp add: get_announcements_def Batch_findById_def populate_admin_def
        AdminUser_findById_def)
  from b show "get_timetable d None batchId =
          Reply OK
            \<lparr>monday = monday (timetable b), tuesday = tuesday (timetable b),
             wednesday = wednesday (timetable b), thursday = thursday (timetable b),
             friday = friday (timetable b), saturday = saturday (timetable b)\<rparr>"
    by (simp add: get_timetable_def Batch_findById_def)
next
  have fp: "fee_populated d =
      (\<lambda>p. \<lparr>fv_student =
               map_option (\<lambda>u. \<lparr>p_id = u_id u, p_name = u_name u, p_email = u_email u\<rparr>)
                 (find (\<lambda>u. u_id u = fp_student p) (users d)),
             fv_amount = fp_amount p, fv_paymentDate = fp_paymentDate p,
             fv_paymentMethod = fp_paymentMethod p, fv_status = fp_status p,
             fv_remarks = fp_remarks p\<rparr>)"
    by (rule ext) (simp add: fee_populated_def populate_user_def User_findById_def)
  assume b: "find (\<lambda>x. b_id x = batchId) (batches d) = Some b"
    and v: "batchId \<noteq> [] \<and> isValid batchId"
  then show "get_fees isValid d None batchId =
               Reply OK
                 (map (\<lambda>p. \<lparr>fv_student =
                               map_option
                                 (\<lambda>u. \<lparr>p_id = u_id u, p_name = u_name u, p_email = u_email u\<rparr>)
                                 (find (\<lambda>u. u_id u = fp_student p) (users d)),
                             fv_amount = fp_amount p, fv_paymentDate = fp_paymentDate p,
                             fv_paymentMethod = fp_paymentMethod p, fv_status = fp_status p,
                             fv_remarks = fp_remarks p\<rparr>)
                    (feesPayments b))"
    by (simp add: get_fees_def Batch_findById_def fp)
qed

theorem batch_reads_ignore_credentials_witness:
  "find (\<lambda>x. b_id x = ''b1'') (batches demo_db_full) = Some demo_batch_full
   \<and> get_batch demo_db_full None ''b1'' =
       Reply OK
         \<lparr>bv_id = ''b1'', bv_name = ''Maths'', bv_batch_code = ascii ''MATH1'', bv_class = ''10'',
          bv_teacher_id = Some \<lparr>p_id = ''t1'', p_name = ''Asha'', p_email = ''asha@x.org''\<rparr>,
          bv_students = [\<lparr>p_id = ''s1'', p_name = ''Sam'', p_email = ''sam@x.org''\<rparr>],
          bv_announcements =
            [\<lparr>an_id = ''n1'', an_title = ''Test'', an_content = ''Chapters 1 to 3'',
              an_teacher_id = ''t1'', an_createdAt = 1705312800000\<rparr>],
          bv_timetable =
            \<lparr>monday = [stored_entry 1 ''Maths''], tuesday = [], wednesday = [], thursday = [],
             friday = [], saturday = []\<rparr>\<rparr>
   \<and> get_announcements demo_db_full None ''b1'' =
       Reply OK
         [\<lparr>av_id = ''n1'', av_title = ''Test'', av_content = ''Chapters 1 to 3'',
           av_teacher_id = Some \<lparr>p_id = ''t1'', p_name = ''Asha'', p_email = ''asha@x.org''\<rparr>,
           av_createdAt = 1705312800000\<rparr>]
   \<and> get_timetable demo_db_full None ''b1'' =
       Reply OK
         \<lparr>monday = [stored_entry 1 ''Maths''], tuesday = [], wednesday = [], thursday = [],
          friday = [], saturday = []\<rparr>
   \<and> get_fees (\<lambda>i. i \<noteq> []) demo_db_full None ''b1'' =
       Reply OK
         [\<lparr>fv_student = Some \<lparr>p_id = ''s1'', p_name = ''Sam'', p_email = ''sam@x.org''\<rparr>,
           fv_amount = 500, fv_paymentDate = 1705312800000, fv_paymentMethod = ''online'',
           fv_status = ''paid'', fv_remarks = ''January''\<rparr>]
   \<and> get_batch demo_db_full (Some ''Bearer t2'') ''b1'' = get_batch demo_db_full None ''b1''
   \<and> get_announcements demo_db_full (Some ''Bearer t2'') ''b1'' =
       get_announcements demo_db_full None ''b1''
   \<and> get_timetable demo_db_full (Some ''Bearer t2'') ''b1'' =
       get_timetable demo_db_full None ''b1''
   \<and> get_fees (\<lambda>i. i \<noteq> []) demo_db_full (Some ''Bearer t2'') ''b1'' =
       get_fees (\<lambda>i. i \<noteq> []) demo_db_full None ''b1''
   \<and> get_batch demo_db_full (Some ''Bearer t2'') ''b1'' \<noteq> Reject Forbidden ''Forbidden''"
proof -
  have b: "find (\<lambda>x. b_id x = ''b1'') (batches demo_db_full) = Some demo_batch_full"
    by code_simp
  have v: "''b1'' \<noteq> [] \<and> (\<lambda>i. i \<noteq> []) ''b1''" by simp
  have f: "b_id demo_batch_full = ''b1''" "b_name demo_batch_full = ''Maths''"
    "batch_code demo_batch_full = ascii ''MATH1''" "b_class demo_batch_full = ''10''"
    "map_option (\<lambda>a. \<lparr>p_id = au_id a, p_name = au_name a, p_email = au_email a\<rparr>)
       (find (\<lambda>a. au_id a = teacher_id demo_batch_full) (adminUsers demo_db_full)) =
     Some \<lparr>p_id = ''t1'', p_name = ''Asha'', p_email = ''asha@x.org''\<rparr>"
    "List.map_filter
       (\<lambda>i. map_option (\<lambda>u. \<lparr>p_id = u_id u, p_name = u_name u, p_email = u_email u\<rparr>)
              (find (\<lambda>u. u_id u = i) (users demo_db_full)))
       (students demo_batch_full) =
     [\<lparr>p_id = ''s1'', p_name = ''Sam'', p_email = ''sam@x.org''\<rparr>]"
    "announcements demo_batch_full =
       [\<lparr>an_id = ''n1'', an_title = ''Test'', an_content = ''Chapters 1 to 3'',
         an_teacher_id = ''t1'', an_createdAt = 1705312800000\<rparr>]"
    "timetable demo_batch_full =
       \<lparr>monday = [stored_entry 1 ''Maths''], tuesday = [], wednesday = [], thursday = [],
        friday = [], saturday = []\<rparr>"
    by code_simp+
  have g: "map (\<lambda>n. \<lparr>av_id = an_id n, av_title = an_title n, av_content = an_content n,
                     av_teacher_id =
                       map_option
                         (\<lambda>a. \<lparr>p_id = au_id a, p_name = au_name a, p_email = au_email a\<rparr>)
                         (find (\<lambda>a. au_id a = an_teacher_id n) (adminUsers demo_db_full)),
                     av_createdAt = an_createdAt n\<rparr>)
             (announcements demo_batch_full) =
       [\<lparr>av_id = ''n1'', av_title = ''Test'', av_content = ''Chapters 1 to 3'',
         av_teacher_id = Some \<lparr>p_id = ''t1'', p_name = ''Asha'', p_email = ''asha@x.org''\<rparr>,
         av_createdAt = 1705312800000\<rparr>]"
    by code_simp
  have h: "\<lparr>monday = monday (timetable demo_batch_full),
            tuesday = tuesday (timetable demo_batch_full),
            wednesday = wednesday (timetable demo_batch_full),
            thursday = thursday (timetable demo_batch_full),
            friday = friday (timetable demo_batch_full),
            saturday = saturday (timetable demo_batch_full)\<rparr> =
       \<lparr>monday = [stored_entry 1 ''Maths''], tuesday = [], wednesday = [], thursday = [],
        friday = [], saturday = []\<rparr>"
    by code_simp
  have k: "map (\<lambda>p. \<lparr>fv_student =
                       map_option
                         (\<lambda>u. \<lparr>p_id = u_id u, p_name = u_name u, p_email = u_email u\<rparr>)
                         (find (\<lambda>u. u_id u = fp_student p) (users demo_db_full)),
                     fv_amount = fp_amount p, fv_paymentDate = fp_paymentDate p,
                     fv_paymentMethod = fp_paymentMethod p, fv_status = fp_status p,
                     fv_remarks = fp_remarks p\<rparr>)
             (feesPayments demo_batch_full) =
       [\<lparr>fv_student = Some \<lparr>p_id = ''s1'', p_name = ''Sam'', p_email = ''sam@x.org''\<rparr>,
         fv_amount = 500, fv_paymentDate = 1705312800000, fv_paymentMethod = ''online'',
         fv_status = ''paid'', fv_remarks = ''January''\<rparr>]"
    by code_simp
  note T = batch_reads_ignore_credentials [of demo_db_full "Some ''Bearer t2''" "''b1''" None
      "\<lambda>i. i \<noteq> []" demo_batch_full]
  from T have 1: "get_batch demo_db_full (Some ''Bearer t2'') ''b1'' = get_batch demo_db_full None ''b1''"
    "get_announcements demo_db_full (Some ''Bearer t2'') ''b1'' =
       get_announcements demo_db_full None ''b1''"
    "get_timetable demo_db_full (Some ''Bearer t2'') ''b1'' =
       get_timetable demo_db_full None ''b1''"
    "get_fees (\<lambda>i. i \<noteq> []) demo_db_full (Some ''Bearer t2'') ''b1'' =
       get_fees (\<lambda>i. i \<noteq> []) demo_db_full None ''b1''"
    by blast+
  from T have 2: "get_batch demo_db_full (Some ''Bearer t2'') ''b1'' \<noteq> Reject Forbidden ''Forbidden''"
    by blast
  from T b have 3: "get_batch demo_db_full None ''b1'' =
       Reply OK
         \<lparr>bv_id = ''b1'', bv_name = ''Maths'', bv_batch_code = ascii ''MATH1'', bv_class = ''10'',
          bv_teacher_id = Some \<lparr>p_id = ''t1'', p_name = ''Asha'', p_email = ''asha@x.org''\<rparr>,
          bv_students = [\<lparr>p_id = ''s1'', p_name = ''Sam'', p_email = ''sam@x.org''\<rparr>],
          bv_announcements =
            [\<lparr>an_id = ''n1'', an_title = ''Test'', an_content = ''Chapters 1 to 3'',
              an_teacher_id = ''t1'', an_createdAt = 1705312800000\<rparr>],
          bv_timetable =
            \<lparr>monday = [stored_entry 1 ''Maths''], tuesday = [], wednesday = [], thursday = [],
             friday = [], saturday = []\<rparr>\<rparr>"
    unfolding f by blast
  from T b have 4: "get_announcements demo_db_full None ''b1'' =
       Reply OK
         [\<lparr>av_id = ''n1'', av_title = ''Test'', av_content = ''Chapters 1 to 3'',
           av_teacher_id = Some \<lparr>p_id = ''t1'', p_name = ''Asha'', p_email = ''asha@x.org''\<rparr>,
           av_createdAt = 1705312800000\<rparr>]"
    unfolding g by blast
  from T b have 5: "get_timetable demo_db_full None ''b1'' =
       Reply OK
         \<lparr>monday = [stored_entry 1 ''Maths''], tuesday = [], wednesday = [], thursday = [],
          friday = [], saturday = []\<rparr>"
    unfolding h by blast
  from T b v have 6: "get_fees (\<lambda>i. i \<noteq> []) demo_db_full None ''b1'' =
       Reply OK
         [\<lparr>fv_student = Some \<lparr>p_id = ''s1'', p_name = ''Sam'', p_email = ''sam@x.org''\<rparr>,
           fv_amount = 500, fv_paymentDate = 1705312800000, fv_paymentMethod = ''online'',
           fv_status = ''paid'', fv_remarks = ''January''\<rparr>]"
    unfolding k by blast
  from b 1 2 3 4 5 6 show ?thesis by (simp only: simp_thms)
qed

subsection \<open>Parent reads\<close>



subsection \<open>Ownership of a batch\<close>

text \<open>
  Claim C1, at a failing input.  Batch \<open>b1\<close> belongs to teacher \<open>t1\<close>.  A request whose
  bearer value is \<open>t2\<close>, or a request with no \<open>Authorization\<close> header at all, adds
  student \<open>s2\<close> to the batch through the bulk add, and replaces Monday's timetable
  through the whole-day replacement: both handlers answer 200 and save the changed
  batch.  The sibling handlers (removing a student, the per-slot timetable update)
  refuse the same caller with 403 and leave the database unchanged.
\<close>

theorem unguarded_mutations_without_ownership:
  "teacher_id demo_batch = ''t1'' \<and> bearer (Some ''Bearer t2'') = ''t2''
   \<and> post_students demo_db (Some ''Bearer t2'') ''b1'' (Some [''s2'']) =
       (Reply OK (demo_batch\<lparr>students := [''s1'', ''s2'']\<rparr>),
        Batch_save demo_db (demo_batch\<lparr>students := [''s1'', ''s2'']\<rparr>))
   \<and> map_option students
        (Batch_findById (snd (post_students demo_db None ''b1'' (Some [''s2''])))
           ''b1'') = Some [''s1'', ''s2'']
   \<and> post_timetable demo_db (Some ''Bearer t2'') ''b1'' (Some ''monday'')
        (Some [demo_entry 1 ''Maths'']) =
       (Reply OK (empty_timetable\<lparr>monday := [stored_entry 1 ''Maths'']\<rparr>),
        Batch_save demo_db
          (demo_batch\<lparr>timetable := (empty_timetable\<lparr>monday := [stored_entry 1 ''Maths'']\<rparr>)\<rparr>))
   \<and> map_option timetable
        (Batch_findById (snd (post_timetable demo_db None ''b1'' (Some ''monday'')
           (Some [demo_entry 1 ''Maths''])))
           ''b1'') = Some (empty_timetable\<lparr>monday := [stored_entry 1 ''Maths'']\<rparr>)
   \<and> delete_student demo_db (Some ''Bearer t2'') ''b1'' ''s1'' =
       (Reject Forbidden ''Unauthorized to modify students for this batch'', demo_db)
   \<and> put_timetable_entry demo_db (Some ''Bearer t2'') ''b1'' ''monday'' (Some 1) (Some ''Maths'')
        None None None =
       (Reject Forbidden ''Unauthorized to modify timetable for this batch'', demo_db)"
  by code_simp

lemma not_owner_put_batch:
  assumes "Batch_findById d batchId = Some b" and "teacher_id b \<noteq> bearer auth"
  shows "\<exists>st m. put_batch d auth batchId name cls = (Reject st m, d)"
    and "startsWith_Bearer auth \<Longrightarrow> AdminUser_findById d (bearer auth) \<noteq> None \<Longrightarrow>
         put_batch d auth batchId name cls =
           (Reject Forbidden ''Unauthorized to update this batch'', d)"
  using assms by (auto simp: put_batch_def Let_def split: option.splits)

lemma not_owner_delete_batch:
  assumes "Batch_findById d batchId = Some b" and "teacher_id b \<noteq> bearer auth"
  shows "\<exists>st m. delete_batch d auth batchId = (Reject st m, d)"
    and "startsWith_Bearer auth \<Longrightarrow>
         delete_batch d auth batchId =
           (Reject Forbidden ''Unauthorized to delete this batch'', d)"
  using assms by (auto simp: delete_batch_def Let_def split: option.splits)

lemma not_owner_delete_student:
  assumes "Batch_findById d batchId = Some b" and "teacher_id b \<noteq> bearer auth"
  shows "\<exists>st m. delete_student d auth batchId sid = (Reject st m, d)"
    and "startsWith_Bearer auth \<Longrightarrow> AdminUser_findById d (bearer auth) \<noteq> None \<Longrightarrow>
         delete_student d auth batchId sid =
           (Reject Forbidden ''Unauthorized to modify students for this batch'', d)"
  using assms by (auto simp: delete_student_def Let_def split: option.splits)

lemma not_owner_put_attendance:
  assumes "Batch_findById d batchId = Some b" and "teacher_id b \<noteq> bearer auth"
  shows "\<exists>st m. put_attendance d auth batchId attId rs = (Reject st m, d)"
    and "startsWith_Bearer auth \<Longrightarrow> AdminUser_findById d (bearer auth) \<noteq> None \<Longrightarrow>
         put_attendance d auth batchId attId rs =
           (Reject Forbidden ''Unauthorized to update attendance for this batch'', d)"
  using assms by (auto simp: put_attendance_def Let_def split: option.splits)

lemma not_owner_delete_attendance:
  assumes "Batch_findById d batchId = Some b" and "teacher_id b \<noteq> bearer auth"
  shows "\<exists>st m. delete_attendance d auth batchId attId = (Reject st m, d)"
    and "startsWith_Bearer auth \<Longrightarrow> AdminUser_findById d (bearer auth) \<noteq> None \<Longrightarrow>
         delete_attendance d auth batchId attId =
           (Reject Forbidden ''Unauthorized to delete attendance for this batch'', d)"
  using assms by (auto simp: delete_attendance_def Let_def split: option.splits)

lemma not_owner_put_timetable_entry:
  assumes "Batch_findById d batchId = Some b" and "teacher_id b \<noteq> bearer auth"
  shows "\<exists>st m. put_timetable_entry d auth batchId dayName h subj t s e = (Reject st m, d)"
    and "startsWith_Bearer auth \<Longrightarrow> AdminUser_findById d (bearer auth) \<noteq> None \<Longrightarrow>
         truthy subj \<Longrightarrow> validDay dayName \<noteq> None \<Longrightarrow> h = Some n \<Longrightarrow> 1 \<le> n \<Longrightarrow>
         put_timetable_entry d auth batchId dayName h subj t s e =
           (Reject Forbidden ''Unauthorized to modify timetable for this batch'', d)"
  using assms by (auto simp: put_timetable_entry_def Let_def split: option.splits)

lemma not_owner_delete_timetable_entry:
  assumes "Batch_findById d batchId = Some b" and "teacher_id b \<noteq> bearer auth"
  shows "\<exists>st m. delete_timetable_entry d auth batchId dayName h = (Reject st m, d)"
    and "startsWith_Bearer auth \<Longrightarrow> AdminUser_findById d (bearer auth) \<noteq> None \<Longrightarrow>
         validDay dayName \<noteq> None \<Longrightarrow> h = Some n \<Longrightarrow> 1 \<le> n \<Longrightarrow> n \<le> 8 \<Longrightarrow>
         delete_timetable_entry d auth batchId dayName h =
           (Reject Forbidden ''Unauthorized to modify timetable for this batch'', d)"
  using assms by (auto simp: delete_timetable_entry_def Let_def split: option.splits)

lemma not_owner_delete_timetable_day:
  assumes "Batch_findById d batchId = Some b" and "teacher_id b \<noteq> bearer auth"
  shows "\<exists>st m. delete_timetable_day d auth batchId dayName = (Reject st m, d)"
    and "startsWith_Bearer auth \<Longrightarrow> AdminUser_findById d (bearer auth) \<noteq> None \<Longrightarrow>
         validDay dayName \<noteq> None \<Longrightarrow>
         delete_timetable_day d auth batchId dayName =
           (Reject Forbidden ''Unauthorized to modify timetable for this batch'', d)"
  using assms by (auto simp: delete_timetable_day_def Let_def split: option.splits)

subsection \<open>The attendance percentage\<close>

lemma round_half_even_error: "\<bar>of_int (round_half_even y) - y\<bar> \<le> 1 / 2"
proof -
  have "of_int \<lfloor>y\<rfloor> \<le> y" "y < of_int \<lfloor>y\<rfloor> + 1" by linarith+
  then show ?thesis by (auto simp: round_half_even_def Let_def)
qed

lemma quotient_of_pos:
  assumes "0 < x" and "quotient_of x = (n, d)"
  shows "0 < n" and "0 < d" and "x = of_int n / of_int d"
proof -
  from assms(2) show d: "0 < d" by (rule quotient_of_denom_pos)
  from assms(2) show x: "x = of_int n / of_int d" by (rule quotient_of_div)
  with assms(1) d show "0 < n" by (simp add: zero_less_divide_iff)
qed

lemma bitlen_powi:
  assumes "0 < n"
  shows "2 powi (bitlen n - 1) \<le> (of_int n :: rat)" and "(of_int n :: rat) < 2 powi (bitlen n)"
proof -
  from assms have b: "0 < bitlen n"
    using bitlen_eq_zero_iff [of n] bitlen_nonneg [of n] by linarith
  from bitlen_bounds [OF assms] have lo: "2 ^ nat (bitlen n - 1) \<le> n" and hi: "n < 2 ^ nat (bitlen n)"
    by auto
  have "(2::rat) powi (bitlen n - 1) = 2 ^ nat (bitlen n - 1)"
    using b by (simp add: power_int_def)
  also have "\<dots> = of_int (2 ^ nat (bitlen n - 1))" by simp
  also have "\<dots> \<le> of_int n" using lo by (simp only: of_int_le_iff)
  finally show "2 powi (bitlen n - 1) \<le> (of_int n :: rat)" .
  have "(of_int n :: rat) < of_int (2 ^ nat (bitlen n))" using hi by (simp only: of_int_less_iff)
  also have "\<dots> = 2 ^ nat (bitlen n)" by simp
  also have "\<dots> = (2::rat) powi (bitlen n)" using b by (simp add: power_int_def)
  finally show "(of_int n :: rat) < 2 powi (bitlen n)" .
qed

lemma exponent_bounds:
  assumes "0 < x"
  shows "2 powi (exponent x) \<le> x" and "x < 2 powi (exponent x + 1)"
proof -
  obtain n d where q: "quotient_of x = (n, d)" by (cases "quotient_of x")
  from quotient_of_pos [OF assms q] have n: "0 < n" and d: "0 < d"
    and x: "x = of_int n / of_int d" by auto
  define e where "e = bitlen n - bitlen d"
  have ex: "exponent x = (if 2 powi e \<le> x then e else e - 1)"
    by (simp add: exponent_def q e_def Let_def)
  have nd: "(0::rat) < of_int d" using d by simp
  have lo: "(2::rat) powi (e - 1) < x"
  proof -
    have "(2::rat) powi (e - 1) * of_int d < 2 powi (e - 1) * 2 powi (bitlen d)"
      using bitlen_powi(2) [OF d] by simp
    also have "\<dots> = 2 powi (bitlen n - 1)"
      by (simp add: e_def power_int_add [symmetric])
    also have "\<dots> \<le> of_int n" by (rule bitlen_powi(1) [OF n])
    finally show ?thesis using nd by (simp add: x pos_less_divide_eq)
  qed
  have hi: "x < (2::rat) powi (e + 1)"
  proof -
    have "(of_int n :: rat) < 2 powi (bitlen n)" by (rule bitlen_powi(2) [OF n])
    also have "\<dots> = 2 powi (e + 1) * 2 powi (bitlen d - 1)"
      by (simp add: e_def power_int_add [symmetric])
    also have "\<dots> \<le> 2 powi (e + 1) * of_int d"
      using bitlen_powi(1) [OF d] by simp
    finally show ?thesis using nd by (simp add: x pos_divide_less_eq)
  qed
  show "2 powi (exponent x) \<le> x" using lo by (auto simp: ex)
  show "x < 2 powi (exponent x + 1)" using hi by (auto simp: ex not_le)
qed

lemma fl_error:
  assumes "0 < x"
  shows "\<bar>fl x - x\<bar> \<le> x / 2 ^ 53"
proof -
  define e where "e = exponent x"
  define s :: rat where "s = 2 powi (e - 52)"
  define m where "m = round_half_even (x / s)"
  have s: "0 < s" by (simp add: s_def)
  have flx: "fl x = of_int m * s" using assms by (simp add: fl_def Let_def m_def s_def e_def)
  have "\<bar>of_int m - x / s\<bar> \<le> 1 / 2" unfolding m_def by (rule round_half_even_error)
  then have "\<bar>of_int m - x / s\<bar> * s \<le> 1 / 2 * s" using s by (intro mult_right_mono) simp_all
  moreover have "\<bar>of_int m - x / s\<bar> * s = \<bar>of_int m * s - x\<bar>"
    using s by (simp add: abs_mult_pos [symmetric] field_simps flip: abs_mult)
  ultimately have 1: "\<bar>fl x - x\<bar> \<le> s / 2" by (simp add: flx)
  have "s / 2 = 2 powi e / 2 ^ 53"
    by (simp add: s_def power_int_diff)
  also have "\<dots> \<le> x / 2 ^ 53"
    using exponent_bounds(1) [OF assms] by (simp add: e_def divide_right_mono)
  finally show ?thesis using 1 by linarith
qed

lemma fl_nonneg: "0 \<le> fl x"
  by (simp add: fl_def Let_def round_half_even_def zero_le_mult_iff) 



lemma fl_zero [simp]: "fl 0 = 0"
  by (simp add: fl_def)

lemma unit_roundoff_pos: "0 < unit_roundoff"
  by (simp add: unit_roundoff_def)

lemma unit_roundoff_small: "unit_roundoff \<le> 1 / 1000" "2 ^ 36 * (80200 * unit_roundoff) < 1"
  by (simp_all add: unit_roundoff_def)

lemma fl_error_le:
  assumes "0 \<le> x" and "x \<le> B"
  shows "\<bar>fl x - x\<bar> \<le> B * unit_roundoff"
proof (cases "x = 0")
  case True
  with assms unit_roundoff_pos show ?thesis by simp
next
  case False
  with assms have "0 < x" by simp
  from fl_error [OF this] have "\<bar>fl x - x\<bar> \<le> x * unit_roundoff"
    by (simp add: unit_roundoff_def)
  also have "\<dots> \<le> B * unit_roundoff"
    using assms(2) unit_roundoff_pos by (intro mult_right_mono) simp_all
  finally show ?thesis .
qed

lemma product_chain_error:
  assumes "0 \<le> r" and "r \<le> 1"
  shows "\<bar>fl (fl (fl r * 100) * 100) - 10000 * r\<bar> \<le> 40100 * unit_roundoff"
proof -
  define a where "a = fl r"
  define b where "b = fl (a * 100)"
  define y where "y = fl (b * 100)"
  note u = unit_roundoff_pos unit_roundoff_small(1)
  have ea: "\<bar>a - r\<bar> \<le> 1 * unit_roundoff" unfolding a_def by (rule fl_error_le [OF assms])
  have a0: "0 \<le> a * 100" unfolding a_def using fl_nonneg [of r] by simp
  from ea assms u have a2: "a * 100 \<le> 200" by linarith
  have eb: "\<bar>b - a * 100\<bar> \<le> 200 * unit_roundoff"
    unfolding b_def by (rule fl_error_le [OF a0 a2])
  have b0: "0 \<le> b * 100" unfolding b_def using fl_nonneg [of "a * 100"] by simp
  from ea eb assms u have b2: "b * 100 \<le> 10100" by linarith
  have ey: "\<bar>y - b * 100\<bar> \<le> 10100 * unit_roundoff"
    unfolding y_def by (rule fl_error_le [OF b0 b2])
  from ea eb ey have "\<bar>y - 10000 * r\<bar> \<le> 40100 * unit_roundoff" by linarith
  then show ?thesis by (simp only: y_def b_def a_def)
qed

lemma nearest_integer_of_close:
  fixes K :: int and T P y :: rat and N :: int
  assumes T: "0 < T" "T \<le> 2 ^ 36"
    and y: "\<bar>y - 10000 * P / T\<bar> \<le> 40100 * unit_roundoff"
    and K: "K = \<lfloor>y + 1 / 2\<rfloor>"
    and N: "of_int N = 2 * T * of_int K - 20000 * P" and t: "T = of_int t"
  shows "\<bar>of_int K - 10000 * P / T\<bar> \<le> (1 / 2 :: rat)"
proof -
  define q :: rat where "q = 10000 * P / T"
  define d :: rat where "d = of_int K - q"
  have qT: "T * q = 10000 * P" using T(1) by (simp add: q_def)
  have N': "of_int N = 2 * (T * d)"
    unfolding d_def N by (simp add: algebra_simps qT)
  have "of_int K \<le> y + 1 / 2" "y + 1 / 2 < of_int K + 1" unfolding K by linarith+
  with y have up: "d \<le> 1 / 2 + 40100 * unit_roundoff"
    and lo: "- (1 / 2) - 40100 * unit_roundoff \<le> d"
    unfolding d_def q_def by linarith+
  have Tu: "T * (80200 * unit_roundoff) < 1"
  proof -
    have "T * (80200 * unit_roundoff) \<le> 2 ^ 36 * (80200 * unit_roundoff)"
      using T(2) unit_roundoff_pos by (intro mult_right_mono) simp_all
    with unit_roundoff_small(2) show ?thesis by linarith
  qed
  have "T * d \<le> T * (1 / 2 + 40100 * unit_roundoff)"
    using up T(1) by (intro mult_left_mono) simp_all
  then have "2 * (T * d) \<le> T + T * (80200 * unit_roundoff)" by (simp add: algebra_simps)
  with Tu have "of_int N < (of_int (t + 1) :: rat)" by (simp add: N' t)
  then have "N < t + 1" by (simp only: of_int_less_iff)
  then have "N \<le> t" by simp
  then have "(of_int N :: rat) \<le> of_int t" by (simp only: of_int_le_iff)
  then have 1: "2 * (T * d) \<le> T" by (simp add: N' t)
  have "T * (- (1 / 2) - 40100 * unit_roundoff) \<le> T * d"
    using lo T(1) by (intro mult_left_mono) simp_all
  then have "- T - T * (80200 * unit_roundoff) \<le> 2 * (T * d)" by (simp add: algebra_simps)
  with Tu have "(of_int (- t - 1) :: rat) < of_int N" by (simp add: N' t)
  then have "- t - 1 < N" by (simp only: of_int_less_iff)
  then have "- t \<le> N" by simp
  then have "(of_int (- t) :: rat) \<le> of_int N" by (simp only: of_int_le_iff)
  then have 2: "- T \<le> 2 * (T * d)" by (simp add: N' t)
  have "d \<le> 1 / 2"
  proof (rule ccontr)
    assume "\<not> d \<le> 1 / 2"
    then have "T * (1 / 2) < T * d" using T(1) by (intro mult_strict_left_mono) simp_all
    with 1 show False by simp
  qed
  moreover have "- (1 / 2) \<le> d"
  proof (rule ccontr)
    assume "\<not> - (1 / 2) \<le> d"
    then have "T * d < T * (- (1 / 2))" using T(1) by (intro mult_strict_left_mono) simp_all
    with 2 show False by simp
  qed
  ultimately show ?thesis unfolding d_def q_def by linarith
qed

lemma rounded_percentage_nearest:
  assumes "pres \<le> classes" and "0 < classes" and "classes \<le> 2 ^ 36"
  shows "\<exists>K. rounded_percentage pres classes = fl (of_int K / 100) \<and> 0 \<le> K
            \<and> \<bar>of_int K - 10000 * of_nat pres / of_nat classes\<bar> \<le> (1 / 2 :: rat)"
proof -
  define r :: rat where "r = of_nat pres / of_nat classes"
  have r: "0 \<le> r" "r \<le> 1" using assms by (simp_all add: r_def)
  define y where "y = fl (fl (fl r * 100) * 100)"
  define K where "K = Math_round y"
  have "\<bar>y - 10000 * r\<bar> \<le> 40100 * unit_roundoff"
    unfolding y_def by (rule product_chain_error [OF r])
  then have y: "\<bar>y - 10000 * of_nat pres / of_nat classes\<bar> \<le> 40100 * unit_roundoff"
    by (simp add: r_def)
  have T: "(0::rat) < of_nat classes" "(of_nat classes :: rat) \<le> 2 ^ 36"
  proof -
    show "(0::rat) < of_nat classes" using assms(2) by simp
    have "(of_nat classes :: rat) \<le> of_nat (2 ^ 36)"
      using assms(3) by (simp only: of_nat_le_iff)
    then show "(of_nat classes :: rat) \<le> 2 ^ 36" by simp
  qed
  have ap: "rounded_percentage pres classes = fl (of_int K / 100)"
    using assms(2) by (simp add: rounded_percentage_def y_def r_def K_def Let_def)
  have "\<bar>of_int K - 10000 * of_nat pres / of_nat classes\<bar> \<le> (1 / 2 :: rat)"
  proof (rule nearest_integer_of_close [OF T y, where N = "2 * int classes * K - 20000 * int pres"
        and t = "int classes"])
    show "K = \<lfloor>y + 1 / 2\<rfloor>" by (simp add: K_def Math_round_def)
    show "(of_int (2 * int classes * K - 20000 * int pres) :: rat) =
            2 * of_nat classes * of_int K - 20000 * of_nat pres" by simp
    show "(of_nat classes :: rat) = of_int (int classes)" by simp
  qed
  moreover have "0 \<le> K"
  proof -
    have "0 \<le> y" unfolding y_def by (rule fl_nonneg)
    then show ?thesis by (simp add: K_def Math_round_def)
  qed
  ultimately show ?thesis using ap by blast
qed


lemma count_statistics_counts:
  "present (count_statistics ss) \<le> totalClasses (count_statistics ss)"
  "absent (count_statistics ss) = totalClasses (count_statistics ss) - present (count_statistics ss)"
  "attendancePercentage (count_statistics ss) =
     rounded_percentage (present (count_statistics ss)) (totalClasses (count_statistics ss))"
  by (simp_all add: count_statistics_def Let_def)

lemma rounded_percentage_no_classes: "rounded_percentage pres 0 = 0"
proof -
  have "\<lfloor>1 / 2 :: rat\<rfloor> = 0" by (rule floor_unique) simp_all
  then show ?thesis by (simp add: rounded_percentage_def Math_round_def)
qed

lemma statistics_of_replies:
  assumes "map_option snd (reply_value (get_student_attendance d auth batchId sid sd ed)) = Some st
     \<or> map_option snd (reply_value (get_own_attendance verify d auth batchId uid sd ed)) = Some st
     \<or> map_option snd (reply_value
           (get_parent_student_attendance verify d auth batchId sid sd ed)) = Some st"
  shows "\<exists>ss. st = count_statistics ss"
  using assms
  by (auto simp: get_student_attendance_def get_own_attendance_def
      get_parent_student_attendance_def Let_def split: if_splits option.splits)


lemma hundredth_error:
  assumes "0 \<le> K"
  shows "\<bar>fl (of_int K / 100) - of_int K / 100\<bar> \<le> of_int K / 100 * unit_roundoff"
  using assms by (intro fl_error_le) simp_all

text \<open>
  Claim C9, as amended.  Let a reply of one of the three attendance reads (a teacher's
  read of a student, a student's own read, a parent's read) carry the statistics
  \<open>st\<close>, over at most \<open>2^36\<close> classes.  Then \<open>present \<le> totalClasses\<close> and
  \<open>absent = totalClasses - present\<close>; \<open>attendancePercentage\<close> is 0 when \<open>totalClasses\<close> is
  0; and otherwise it is the double \<open>fl (K / 100)\<close> of a two-decimal number \<open>K / 100\<close>,
  where the integer \<open>K\<close> lies within 1/2 of the exact \<open>10000 * present / totalClasses\<close>:
  \<open>K / 100\<close> is a nearest two-decimal value of the exact percentage, either neighbour
  when the exact value lies halfway between two of them, and the double differs from
  \<open>K / 100\<close> by at most the relative error \<open>2^-53\<close>.  For 3 present of 4 the value is
  exactly 75, and for no classes it is 0.
\<close>

theorem attendance_percentage_nearest_hundredth:
  assumes reply:
    "map_option snd (reply_value (get_student_attendance d auth batchId sid sd ed)) = Some st
     \<or> map_option snd (reply_value (get_own_attendance verify d auth batchId uid sd ed)) = Some st
     \<or> map_option snd (reply_value
           (get_parent_student_attendance verify d auth batchId sid sd ed)) = Some st"
    and size: "totalClasses st \<le> 2 ^ 36"
  shows "present st \<le> totalClasses st \<and> absent st = totalClasses st - present st
     \<and> (totalClasses st = 0 \<longrightarrow> attendancePercentage st = 0)
     \<and> (0 < totalClasses st \<longrightarrow>
          (\<exists>K. attendancePercentage st = fl (of_int K / 100) \<and> 0 \<le> K
             \<and> \<bar>of_int K - 10000 * of_nat (present st) / of_nat (totalClasses st)\<bar>
                  \<le> (1 / 2 :: rat)
             \<and> \<bar>fl (of_int K / 100) - of_int K / 100\<bar> \<le> of_int K / 100 * unit_roundoff))
     \<and> rounded_percentage 3 4 = 75 \<and> rounded_percentage 0 0 = 0"
proof -
  from statistics_of_replies [OF reply] obtain ss where st: "st = count_statistics ss" ..
  note c = count_statistics_counts [of ss, folded st]
  have zero: "attendancePercentage st = 0" if "totalClasses st = 0"
    using that by (simp add: c(3) rounded_percentage_no_classes)
  have pos: "\<exists>K. attendancePercentage st = fl (of_int K / 100) \<and> 0 \<le> K
             \<and> \<bar>of_int K - 10000 * of_nat (present st) / of_nat (totalClasses st)\<bar>
                  \<le> (1 / 2 :: rat)
             \<and> \<bar>fl (of_int K / 100) - of_int K / 100\<bar> \<le> of_int K / 100 * unit_roundoff"
    if "0 < totalClasses st"
    using rounded_percentage_nearest [OF c(1) that size] hundredth_error
    unfolding c(3) by blast
  have "rounded_percentage 3 4 = 75" by code_simp
  moreover have "rounded_percentage 0 0 = 0" by (rule rounded_percentage_no_classes)
  ultimately show ?thesis using c(1,2) zero pos by blast
qed

text \<open>
  Claim C9 as stated fails at a tie.  With 23 classes present of 160 the exact percentage
  is 14.375, which rounds to 14.38 to two decimal places (a tie going up, or to the even
  neighbour); the handler answers the double of 14.37, because the doubles
  \<open>23 / 160 * 100 * 100\<close> fall just below 1437.5.
\<close>

theorem attendance_percentage_tie_counterexample:
  "map_option snd (reply_value
      (get_student_attendance (demo_db\<lparr>attendances := demo_marks 23 160\<rparr>) (Some ''Bearer t1'')
         ''b1'' ''s1'' None None))
     = Some \<lparr>totalClasses = 160, present = 23, absent = 137,
             attendancePercentage = fl (1437 / 100)\<rparr>
   \<and> (23 / 160 * 100 :: rat) = 14375 / 1000
   \<and> spec_round2 (23 / 160 * 100) = 1438 / 100
   \<and> round_half_even (23 / 160 * 100 * 100) = 1438
   \<and> fl (1437 / 100) \<noteq> fl (1438 / 100)
   \<and> fl (1437 / 100) \<noteq> spec_round2 (23 / 160 * 100)
   \<and> rounded_percentage 23 160 = fl (1437 / 100)"
  by code_simp

theorem attendance_percentage_nearest_hundredth_witness:
  "map_option snd (reply_value
      (get_student_attendance (demo_db\<lparr>attendances := demo_marks 3 4\<rparr>) (Some ''Bearer t1'')
         ''b1'' ''s1'' None None))
     = Some \<lparr>totalClasses = 4, present = 3, absent = 1, attendancePercentage = 75\<rparr>
   \<and> (4::nat) \<le> 2 ^ 36
   \<and> (\<exists>K. (75::rat) = fl (of_int K / 100) \<and> 0 \<le> K \<and> \<bar>of_int K - 10000 * 3 / 4\<bar> \<le> (1 / 2 :: rat))"
proof -
  let ?st = "\<lparr>totalClasses = 4, present = 3, absent = 1, attendancePercentage = 75\<rparr>"
  have r: "map_option snd (reply_value
      (get_student_attendance (demo_db\<lparr>attendances := demo_marks 3 4\<rparr>) (Some ''Bearer t1'')
         ''b1'' ''s1'' None None)) = Some ?st" by code_simp
  have s: "totalClasses ?st \<le> 2 ^ 36" by simp
  from attendance_percentage_nearest_hundredth [OF disjI1 [OF r] s]
  have "\<exists>K. attendancePercentage ?st = fl (of_int K / 100) \<and> 0 \<le> K
             \<and> \<bar>of_int K - 10000 * of_nat (present ?st) / of_nat (totalClasses ?st)\<bar>
                  \<le> (1 / 2 :: rat)"
    by auto
  then have "\<exists>K. (75::rat) = fl (of_int K / 100) \<and> 0 \<le> K
      \<and> \<bar>of_int K - 10000 * 3 / 4\<bar> \<le> (1 / 2 :: rat)" by simp
  with r show ?thesis by simp
qed

end
